theory Spec2Isabelle
  imports Complex_Main
begin

section \<open>Conventions of the embedding\<close>

text \<open>
  The development embeds the quality gates (\<^verbatim>\<open>backend/core/quality_gates.py\<close>), the
  schemas they inspect (\<^verbatim>\<open>backend/api/schemas.py\<close>) and the generation pipeline
  (\<^verbatim>\<open>backend/core/generator.py\<close>) of the take-home test generator.

  \<^item> A Python \<^verbatim>\<open>int\<close> is an \<open>int\<close>. A Python \<^verbatim>\<open>float\<close> is a \<open>pyfloat\<close>, an
    IEEE 754 double: a rational number, an infinity or a NaN. Every operation on floats
    rounds its exact result to the nearest double, ties to even, as the section on floats
    defines it. A field that model validation confines to a finite interval
    (\<^verbatim>\<open>RubricItem.weight\<close>, \<^verbatim>\<open>AssignmentInput.time_budget_hours\<close>) holds the \<open>rat\<close>
    that the float denotes.
  \<^item> A Python \<^verbatim>\<open>str\<close> is a \<open>string\<close>, one \<open>char\<close> for each code point; only code
    points below 256 are representable.
  \<^item> A message built by an f-string is a constructor of \<open>message\<close> that carries the values
    interpolated into the text; the wording of the text itself is not modelled.
  \<^item> An exception is the \<open>Inl\<close> branch of a sum type.
\<close>

subsection \<open>String operations of Python used by the gates\<close>

definition py_isspace :: "char \<Rightarrow> bool" where
  \<comment> \<open>\<^verbatim>\<open>str.isspace\<close> on one code point below 256\<close>
  "py_isspace c =
     (let n = (of_char c :: nat)
      in (9 \<le> n \<and> n \<le> 13) \<or> (28 \<le> n \<and> n \<le> 32) \<or> n = 133 \<or> n = 160)"

definition strip :: "string \<Rightarrow> string" where
  "strip s = rev (dropWhile py_isspace (rev (dropWhile py_isspace s)))"

definition py_lower_char :: "char \<Rightarrow> char" where
  \<comment> \<open>\<^verbatim>\<open>str.lower\<close> on one code point below 256: A-Z and the Latin-1 capitals\<close>
  "py_lower_char c =
     (let n = (of_char c :: nat)
      in if (65 \<le> n \<and> n \<le> 90) \<or> (192 \<le> n \<and> n \<le> 222 \<and> n \<noteq> 215)
         then char_of (n + 32) else c)"

definition lower :: "string \<Rightarrow> string" where
  "lower s = map py_lower_char s"

fun startswith :: "string \<Rightarrow> string \<Rightarrow> bool" where
  "startswith s [] = True"
| "startswith [] (p # ps) = False"
| "startswith (c # cs) (p # ps) = (c = p \<and> startswith cs ps)"

fun contains :: "string \<Rightarrow> string \<Rightarrow> bool" where
  \<comment> \<open>\<^verbatim>\<open>sub in s\<close>\<close>
  "contains [] sub = (sub = [])"
| "contains (c # cs) sub = (startswith (c # cs) sub \<or> contains cs sub)"

fun join :: "string \<Rightarrow> string list \<Rightarrow> string" where
  \<comment> \<open>\<^verbatim>\<open>sep.join(xs)\<close>\<close>
  "join sep [] = []"
| "join sep [x] = x"
| "join sep (x # y # ys) = x @ sep @ join sep (y # ys)"

section \<open>Floats\<close>

text \<open>
  A double is \<open>m * 2 ^ p\<close> for integers \<open>m\<close> and \<open>p\<close> with \<open>\<bar>m\<bar> < 2 ^ 53\<close> and
  \<open>- 1074 \<le> p \<le> 971\<close>. \<open>expo x\<close> is the binary exponent of a non-zero rational, the
  \<open>e\<close> with \<open>2 ^ e \<le> \<bar>x\<bar> < 2 ^ (e + 1)\<close>; \<open>lsb_exponent x\<close> is the exponent of the last of
  the 53 bits of a double of that magnitude (of a subnormal one below \<open>2 ^ - 1022\<close>);
  \<open>round_double x\<close> is the multiple of \<open>2 ^ lsb_exponent x\<close> nearest to \<open>x\<close>, the even one on
  a tie. The two zeros of IEEE 754 are one value here: no operation of the source tells them
  apart.
\<close>

datatype pyfloat = Fin rat | PInf | NInf | NaN

definition pow2 :: "int \<Rightarrow> rat" where
  "pow2 e = (if 0 \<le> e then 2 ^ nat e else 1 / 2 ^ nat (- e))"

fun bit_length :: "nat \<Rightarrow> nat" where
  \<comment> \<open>\<^verbatim>\<open>int.bit_length\<close>\<close>
  "bit_length n = (if n = 0 then 0 else Suc (bit_length (n div 2)))"

declare bit_length.simps [simp del]

definition expo :: "rat \<Rightarrow> int" where
  "expo x = (if 1 \<le> \<bar>x\<bar> then int (bit_length (nat \<lfloor>\<bar>x\<bar>\<rfloor>)) - 1
             else - int (bit_length (nat (\<lceil>1 / \<bar>x\<bar>\<rceil> - 1))))"

definition round_half_even :: "rat \<Rightarrow> int" where
  "round_half_even x =
     (let f = \<lfloor>x\<rfloor>; d = x - of_int f
      in if d < 1 / 2 then f else if 1 / 2 < d then f + 1 else if even f then f else f + 1)"

definition lsb_exponent :: "rat \<Rightarrow> int" where
  "lsb_exponent x = max (expo x) (- 1022) - 52"

definition round_double :: "rat \<Rightarrow> rat" where
  "round_double x =
     (if x = 0 then 0
      else of_int (round_half_even (x / pow2 (lsb_exponent x))) * pow2 (lsb_exponent x))"

definition rnd :: "rat \<Rightarrow> pyfloat" where
  \<comment> \<open>the float that an exact result becomes: a rounding that reaches \<open>2 ^ 1024\<close> overflows
      to an infinity\<close>
  "rnd x =
     (let y = round_double x
      in if pow2 1024 \<le> y then PInf else if y \<le> - pow2 1024 then NInf else Fin y)"

definition py_float :: "rat \<Rightarrow> pyfloat" where
  \<comment> \<open>the value of a decimal literal of the source, such as \<^verbatim>\<open>0.01\<close>\<close>
  "py_float x = rnd x"

fun fmul :: "pyfloat \<Rightarrow> pyfloat \<Rightarrow> pyfloat" where
  "fmul (Fin a) (Fin b) = rnd (a * b)"
| "fmul NaN y = NaN"
| "fmul x NaN = NaN"
| "fmul (Fin a) PInf = (if a = 0 then NaN else if 0 < a then PInf else NInf)"
| "fmul (Fin a) NInf = (if a = 0 then NaN else if 0 < a then NInf else PInf)"
| "fmul PInf (Fin b) = (if b = 0 then NaN else if 0 < b then PInf else NInf)"
| "fmul NInf (Fin b) = (if b = 0 then NaN else if 0 < b then NInf else PInf)"
| "fmul PInf PInf = PInf"
| "fmul PInf NInf = NInf"
| "fmul NInf PInf = NInf"
| "fmul NInf NInf = PInf"

fun fadd :: "pyfloat \<Rightarrow> pyfloat \<Rightarrow> pyfloat" where
  "fadd (Fin a) (Fin b) = rnd (a + b)"
| "fadd NaN y = NaN"
| "fadd x NaN = NaN"
| "fadd PInf NInf = NaN"
| "fadd NInf PInf = NaN"
| "fadd PInf y = PInf"
| "fadd NInf y = NInf"
| "fadd x PInf = PInf"
| "fadd x NInf = NInf"

fun fneg :: "pyfloat \<Rightarrow> pyfloat" where
  "fneg (Fin a) = Fin (- a)"
| "fneg PInf = NInf"
| "fneg NInf = PInf"
| "fneg NaN = NaN"

definition fsub :: "pyfloat \<Rightarrow> pyfloat \<Rightarrow> pyfloat" where
  "fsub x y = fadd x (fneg y)"

fun fabs :: "pyfloat \<Rightarrow> pyfloat" where
  \<comment> \<open>\<^verbatim>\<open>abs(x)\<close>\<close>
  "fabs (Fin a) = Fin \<bar>a\<bar>"
| "fabs PInf = PInf"
| "fabs NInf = PInf"
| "fabs NaN = NaN"

fun flt :: "pyfloat \<Rightarrow> pyfloat \<Rightarrow> bool" where
  \<comment> \<open>\<^verbatim>\<open>x < y\<close>; a comparison with a NaN is false\<close>
  "flt NaN y = False"
| "flt x NaN = False"
| "flt (Fin a) (Fin b) = (a < b)"
| "flt x NInf = False"
| "flt PInf y = False"
| "flt NInf y = True"
| "flt x PInf = True"

fun fle :: "pyfloat \<Rightarrow> pyfloat \<Rightarrow> bool" where
  \<comment> \<open>\<^verbatim>\<open>x <= y\<close>\<close>
  "fle NaN y = False"
| "fle x NaN = False"
| "fle (Fin a) (Fin b) = (a \<le> b)"
| "fle NInf y = True"
| "fle x PInf = True"
| "fle x NInf = False"
| "fle PInf y = False"

text \<open>
  The builtin \<^verbatim>\<open>sum\<close> on floats starts from the integer 0 and adds from left to right.
  Up to CPython 3.11 it rounds after every addition (\<open>sum_left_to_right\<close>); from CPython
  3.12 it carries the rounding errors along in a second float and adds them at the end
  (\<open>sum_compensated\<close>, Neumaier's summation). The functions that call \<^verbatim>\<open>sum\<close> on floats
  take the summation as a parameter \<open>py_sum\<close>, so that what is proved of them holds under
  either.
\<close>

definition sum_left_to_right :: "rat list \<Rightarrow> pyfloat" where
  "sum_left_to_right xs = foldl (\<lambda>acc x. fadd acc (Fin x)) (Fin 0) xs"

definition cs_add :: "pyfloat \<times> pyfloat \<Rightarrow> rat \<Rightarrow> pyfloat \<times> pyfloat" where
  \<comment> \<open>one step on (running sum, compensation)\<close>
  "cs_add acc x =
     (let hi = fst acc; lo = snd acc; t = fadd hi (Fin x)
      in if fle (fabs (Fin x)) (fabs hi)
         then (t, fadd lo (fadd (fsub hi t) (Fin x)))
         else (t, fadd lo (fadd (fsub (Fin x) t) hi)))"

definition sum_compensated :: "rat list \<Rightarrow> pyfloat" where
  "sum_compensated xs =
     (let acc = foldl cs_add (Fin 0, Fin 0) xs
      in case snd acc of
           Fin lo \<Rightarrow> if lo \<noteq> 0 then fadd (fst acc) (Fin lo) else fst acc
         | _ \<Rightarrow> fst acc)"

definition py_int :: "rat \<Rightarrow> int" where
  \<comment> \<open>\<^verbatim>\<open>int(x)\<close> on a float: truncation towards zero\<close>
  "py_int x = (if 0 \<le> x then \<lfloor>x\<rfloor> else \<lceil>x\<rceil>)"

section \<open>Schemas\<close>

record Requirement =
  description :: string
  estimated_time_minutes :: int
  why_it_matters :: string

record AssignmentScope =
  title :: string
  business_context :: string
  must_have :: "Requirement list"
  nice_to_have :: "Requirement list"
  constraints :: "string list"

definition all_requirements :: "AssignmentScope \<Rightarrow> Requirement list" where
  "all_requirements scope = must_have scope @ nice_to_have scope"

record JobContext =
  responsibilities :: "string list"
  business_domain :: string
  daily_technologies :: "string list"
  collaboration_patterns :: "string option"

record RubricItem =
  area :: string
  weight :: rat
  junior_expectation :: string
  mid_expectation :: string
  senior_expectation :: string
  scoring_guide :: string

text \<open>
  The texts of the issues and warnings, one constructor for each f-string of
  \<^verbatim>\<open>quality_gates.py\<close>, in the order of the source.
\<close>

datatype message =
    InsufficientResponsibilities
  | BusinessDomainNotIdentified
  | DailyTechnologiesNotSpecified
  | CollaborationPatternsNotIdentified
  | TimeMismatch int pyfloat pyfloat
  | BusinessContextTooBrief nat
  | BusinessContextLong nat
  | TooFewMustHave nat
  | ManyMustHave nat
  | FewConstraints nat
  | GenericBusinessContext string
  | TooFewRubricItems nat
  | ManyRubricItems nat
  | WeightSum pyfloat
  | InvalidWeight string rat
  | SmallWeight string rat
  | EmptyJuniorExpectation string
  | EmptyMidExpectation string
  | EmptySeniorExpectation string
  | EmptyScoringGuide string
  | SeniorityMismatch string
  | ManyMustHaveStruggle nat
  | NoNiceToHave
  | MustHaveShare pyfloat

record ValidationResult =
  passed :: bool
  issues :: "message list"
  warnings :: "message list"

record ScopeValidation =
  passed_sv :: bool
  issues_sv :: "message list"
  warnings_sv :: "message list"

text \<open>
  The exceptions that leave a function of the core. \<open>client_error\<close> is what
  \<^verbatim>\<open>GeminiClient.generate_json\<close> raises (a rate limit that outlasted its retries, or
  any other failure of the call); \<open>cause\<close> is the exception \<^verbatim>\<open>e\<close> caught by the
  \<^verbatim>\<open>except Exception as e\<close> of a phase; \<open>exn_text\<close> has one constructor for each
  f-string that \<^verbatim>\<open>generator.py\<close> passes to an exception. The four classes declared in
  \<^verbatim>\<open>generator.py\<close> are the last four constructors of \<open>exn\<close>.
\<close>

datatype client_error = RetryError | GeminiAPIError

datatype cause =
    ClientFailure client_error
  | ConversionFailure  \<comment> \<open>pydantic ValidationError, KeyError or TypeError\<close>

datatype exn_text =
    FailedToExtractContext cause
  | ContextValidationFailed "message list"
  | FailedToDefineScope cause
  | ScopeValidationFailed "message list"
  | FailedToGenerateRubric cause
  | RubricValidationFailed "message list"
  | FailedToGenerateTimeBreakdown cause

datatype exn =
    ZeroDivisionError
  | OverflowError
  | ValidationError
  | GenerationError exn_text
  | ScopeValidationError exn_text
  | ContextExtractionError exn_text
  | RubricGenerationError exn_text

subsection \<open>Divisions\<close>

definition truediv_int_float :: "int \<Rightarrow> pyfloat \<Rightarrow> exn + pyfloat" where
  \<comment> \<open>\<^verbatim>\<open>n / y\<close> for an int and a float: the int is converted first (OverflowError when it
      is beyond the doubles), a zero divisor raises, and the quotient is rounded\<close>
  "truediv_int_float n y =
     (case rnd (of_int n) of
        Fin a \<Rightarrow>
          (case y of
             Fin b \<Rightarrow> if b = 0 then Inl ZeroDivisionError else Inr (rnd (a / b))
           | PInf \<Rightarrow> Inr (Fin 0)
           | NInf \<Rightarrow> Inr (Fin 0)
           | NaN \<Rightarrow> Inr NaN)
      | _ \<Rightarrow> Inl OverflowError)"

definition truediv_int_int :: "int \<Rightarrow> int \<Rightarrow> exn + pyfloat" where
  \<comment> \<open>\<^verbatim>\<open>a / b\<close> for two ints: the exact quotient, rounded once; OverflowError when it is
      beyond the doubles\<close>
  "truediv_int_int a b =
     (if b = 0 then Inl ZeroDivisionError
      else case rnd (of_int a / of_int b) of
             Fin q \<Rightarrow> Inr (Fin q)
           | _ \<Rightarrow> Inl OverflowError)"

section \<open>Quality gates\<close>

definition validate_context_extraction :: "JobContext \<Rightarrow> ValidationResult" where
  "validate_context_extraction context =
     (let issues1 = (if length (responsibilities context) < 3
                     then [InsufficientResponsibilities] else []);
          issues2 = (if business_domain context = [] \<or> length (strip (business_domain context)) = 0
                     then issues1 @ [BusinessDomainNotIdentified] else issues1);
          issues3 = (if daily_technologies context = [] \<or> length (daily_technologies context) = 0
                     then issues2 @ [DailyTechnologiesNotSpecified] else issues2);
          warnings1 = (if (case collaboration_patterns context of None \<Rightarrow> True | Some s \<Rightarrow> s = [])
                       then [CollaborationPatternsNotIdentified] else [])
      in \<lparr>passed = (length issues3 = 0), issues = issues3, warnings = warnings1\<rparr>)"

definition generic_terms :: "string list" where
  "generic_terms = [''bookstore'', ''todo'', ''to-do'', ''blog'', ''e-commerce store'']"

definition total_time_of :: "Requirement list \<Rightarrow> int" where
  \<comment> \<open>\<^verbatim>\<open>sum(req.estimated_time_minutes for req in reqs)\<close>\<close>
  "total_time_of reqs = sum_list (map estimated_time_minutes reqs)"

definition validate_scope :: "AssignmentScope \<Rightarrow> pyfloat \<Rightarrow> exn + ValidationResult" where
  \<comment> \<open>the int \<^verbatim>\<open>60\<close> enters the product as the float 60.0; \<^verbatim>\<open>0.75\<close> and \<^verbatim>\<open>1.25\<close> are
      the literals of the chained comparison\<close>
  "validate_scope scope time_budget_hours =
     (let total_time = total_time_of (all_requirements scope);
          expected_minutes = fmul time_budget_hours (Fin 60)
      in case truediv_int_float total_time expected_minutes of
           Inl e \<Rightarrow> Inl e
         | Inr time_ratio \<Rightarrow>
           let issues1 = (if \<not> (fle (py_float (3 / 4)) time_ratio \<and> fle time_ratio (py_float (5 / 4)))
                          then [TimeMismatch total_time expected_minutes time_ratio] else []);
               issues2 = (if length (business_context scope) < 100
                          then issues1 @ [BusinessContextTooBrief (length (business_context scope))]
                          else issues1);
               warnings1 = (if length (business_context scope) > 2000
                            then [BusinessContextLong (length (business_context scope))] else []);
               issues3 = (if length (must_have scope) < 3
                          then issues2 @ [TooFewMustHave (length (must_have scope))] else issues2);
               warnings2 = (if length (must_have scope) > 7
                            then warnings1 @ [ManyMustHave (length (must_have scope))] else warnings1);
               warnings3 = (if length (constraints scope) < 2
                            then warnings2 @ [FewConstraints (length (constraints scope))]
                            else warnings2);
               context_lower = lower (business_context scope);
               warnings4 = (case find (\<lambda>term. contains context_lower term) generic_terms of
                              None \<Rightarrow> warnings3
                            | Some term \<Rightarrow> warnings3 @ [GenericBusinessContext term])
           in Inr \<lparr>passed = (length issues3 = 0), issues = issues3, warnings = warnings4\<rparr>)"

definition is_blank :: "string \<Rightarrow> bool" where
  \<comment> \<open>\<^verbatim>\<open>not s or not s.strip()\<close>\<close>
  "is_blank s = (s = [] \<or> strip s = [])"

definition check_weight :: "message list \<Rightarrow> RubricItem \<Rightarrow> message list" where
  \<comment> \<open>body of the iteration "Check for zero or negative weights"\<close>
  "check_weight acc item =
     (if weight item \<le> 0 then acc @ [InvalidWeight (area item) (weight item)] else acc)"

definition check_small_weight :: "message list \<Rightarrow> RubricItem \<Rightarrow> message list" where
  \<comment> \<open>body of the iteration "Check for very small weights"; \<^verbatim>\<open>0.05\<close> is the literal\<close>
  "check_small_weight acc item =
     (if 0 < weight item \<and> flt (Fin (weight item)) (py_float (1 / 20))
      then acc @ [SmallWeight (area item) (weight item)] else acc)"

definition check_expectations ::
  "message list \<times> message list \<Rightarrow> RubricItem \<Rightarrow> message list \<times> message list" where
  \<comment> \<open>body of the iteration "Validate expectations are not empty", on (issues, warnings)\<close>
  "check_expectations acc item =
     (let w1 = (if is_blank (junior_expectation item)
                then snd acc @ [EmptyJuniorExpectation (area item)] else snd acc);
          w2 = (if is_blank (mid_expectation item)
                then w1 @ [EmptyMidExpectation (area item)] else w1);
          w3 = (if is_blank (senior_expectation item)
                then w2 @ [EmptySeniorExpectation (area item)] else w2);
          i1 = (if is_blank (scoring_guide item)
                then fst acc @ [EmptyScoringGuide (area item)] else fst acc)
      in (i1, w3))"

definition validate_rubric :: "(rat list \<Rightarrow> pyfloat) \<Rightarrow> RubricItem list \<Rightarrow> ValidationResult" where
  \<comment> \<open>\<open>py_sum\<close> is the builtin \<^verbatim>\<open>sum\<close> of the interpreter; \<^verbatim>\<open>1.0\<close> and \<^verbatim>\<open>0.01\<close> are
      the literals of \<^verbatim>\<open>abs(weight_sum - 1.0) > 0.01\<close>\<close>
  "validate_rubric py_sum rubric =
     (let issues1 = (if length rubric < 3 then [TooFewRubricItems (length rubric)] else []);
          warnings1 = (if length rubric > 7 then [ManyRubricItems (length rubric)] else []);
          weight_sum = py_sum (map weight rubric);
          issues2 = (if flt (py_float (1 / 100)) (fabs (fsub weight_sum (py_float 1)))
                     then issues1 @ [WeightSum weight_sum] else issues1);
          issues3 = foldl check_weight issues2 rubric;
          warnings2 = foldl check_small_weight warnings1 rubric;
          final = foldl check_expectations (issues3, warnings2) rubric
      in \<lparr>passed = (length (fst final) = 0), issues = fst final, warnings = snd final\<rparr>)"

definition check_seniority_match :: "AssignmentScope \<Rightarrow> string \<Rightarrow> bool" where
  "check_seniority_match scope seniority_level =
     (let requirement_count = length (must_have scope);
          total_time = total_time_of (all_requirements scope)
      in if seniority_level = ''junior''
         then 3 \<le> requirement_count \<and> requirement_count \<le> 4 \<and> 120 \<le> total_time \<and> total_time \<le> 240
         else if seniority_level = ''mid''
         then 4 \<le> requirement_count \<and> requirement_count \<le> 5 \<and> 180 \<le> total_time \<and> total_time \<le> 300
         else if seniority_level = ''senior''
         then 5 \<le> requirement_count \<and> requirement_count \<le> 6 \<and> 240 \<le> total_time \<and> total_time \<le> 420
         else if seniority_level = ''staff''
         then 6 \<le> requirement_count \<and> requirement_count \<le> 7 \<and> 360 \<le> total_time \<and> total_time \<le> 540
         else True)"

definition generate_scope_warnings ::
  "AssignmentScope \<Rightarrow> string \<Rightarrow> pyfloat \<Rightarrow> exn + message list" where
  \<comment> \<open>\<^verbatim>\<open>must_have_time / total_time\<close> divides two ints; \<^verbatim>\<open>0.5\<close> is the literal\<close>
  "generate_scope_warnings scope seniority_level time_budget_hours =
     (let warnings1 = (if \<not> check_seniority_match scope seniority_level
                       then [SeniorityMismatch seniority_level] else []);
          must_have_count = length (must_have scope);
          nice_to_have_count = length (nice_to_have scope);
          warnings2 = (if must_have_count > 6
                       then warnings1 @ [ManyMustHaveStruggle must_have_count] else warnings1);
          warnings3 = (if nice_to_have_count = 0 then warnings2 @ [NoNiceToHave] else warnings2);
          must_have_time = total_time_of (must_have scope);
          total_time = total_time_of (all_requirements scope)
      in if total_time > 0
         then (case truediv_int_int must_have_time total_time of
                 Inl e \<Rightarrow> Inl e
               | Inr must_have_ratio \<Rightarrow>
                   if flt must_have_ratio (py_float (1 / 2))
                   then Inr (warnings3 @ [MustHaveShare must_have_ratio]) else Inr warnings3)
         else Inr warnings3)"

section \<open>Model validation (pydantic)\<close>

text \<open>
  A keyword argument as model validation sees it: the key is absent, or its value cannot
  be coerced to the type of the field, or it is given with the coerced value.
\<close>

datatype 'a arg = Absent | IllTyped | Given 'a

definition required :: "'a arg \<Rightarrow> 'a option" where
  \<comment> \<open>\<^verbatim>\<open>Field(...)\<close>: \<open>None\<close> is a validation error of the field\<close>
  "required a = (case a of Given v \<Rightarrow> Some v | _ \<Rightarrow> None)"

definition field_gt0 :: "int arg \<Rightarrow> int option" where
  \<comment> \<open>\<^verbatim>\<open>int = Field(..., gt=0)\<close>\<close>
  "field_gt0 a = (case a of Given n \<Rightarrow> (if n > 0 then Some n else None) | _ \<Rightarrow> None)"

definition field_ge0 :: "int arg \<Rightarrow> int option" where
  \<comment> \<open>\<^verbatim>\<open>int = Field(..., ge=0)\<close>\<close>
  "field_ge0 a = (case a of Given n \<Rightarrow> (if n \<ge> 0 then Some n else None) | _ \<Rightarrow> None)"

subsection \<open>TimeBreakdown\<close>

record TimeBreakdown =
  total_minutes :: int
  setup_minutes :: int
  core_implementation_minutes :: int
  testing_minutes :: int
  documentation_minutes :: int
  buffer_minutes :: int
  breakdown_valid :: bool

record TimeBreakdown_kwargs =
  total_minutes_kw :: "int arg"
  setup_minutes_kw :: "int arg"
  core_implementation_minutes_kw :: "int arg"
  testing_minutes_kw :: "int arg"
  documentation_minutes_kw :: "int arg"
  buffer_minutes_kw :: "int arg"
  breakdown_valid_kw :: "bool arg"

text \<open>
  \<^verbatim>\<open>info.data\<close> holds the fields declared before \<^verbatim>\<open>breakdown_valid\<close> that passed their
  own validation, under their names.
\<close>

type_synonym info_data = "(string \<times> int) list"

definition info_entry :: "string \<Rightarrow> int option \<Rightarrow> info_data" where
  "info_entry k v = (case v of None \<Rightarrow> [] | Some n \<Rightarrow> [(k, n)])"

definition data_get :: "info_data \<Rightarrow> string \<Rightarrow> int \<Rightarrow> int" where
  \<comment> \<open>\<^verbatim>\<open>info.data.get(k, d)\<close>\<close>
  "data_get data k d = (case map_of data k of None \<Rightarrow> d | Some v \<Rightarrow> v)"

definition validate_breakdown_sum :: "bool \<Rightarrow> info_data \<Rightarrow> bool" where
  "validate_breakdown_sum v data =
     (if data = [] then v
      else
        let expected_total =
              data_get data ''setup_minutes'' 0 +
              data_get data ''core_implementation_minutes'' 0 +
              data_get data ''testing_minutes'' 0 +
              data_get data ''documentation_minutes'' 0 +
              data_get data ''buffer_minutes'' 0;
            total = data_get data ''total_minutes'' 0
        in \<bar>total - expected_total\<bar> < 5)"

definition TimeBreakdown_init :: "TimeBreakdown_kwargs \<Rightarrow> TimeBreakdown option" where
  \<comment> \<open>\<^verbatim>\<open>TimeBreakdown(**kw)\<close>: every field is validated, the validator of
      \<^verbatim>\<open>breakdown_valid\<close> runs on \<^verbatim>\<open>info.data\<close>, and the model is built when no field
      failed; \<open>None\<close> is pydantic's ValidationError\<close>
  "TimeBreakdown_init kw =
     (let total = field_gt0 (total_minutes_kw kw);
          setup = field_ge0 (setup_minutes_kw kw);
          core = field_gt0 (core_implementation_minutes_kw kw);
          testing = field_ge0 (testing_minutes_kw kw);
          documentation = field_ge0 (documentation_minutes_kw kw);
          buffer = field_ge0 (buffer_minutes_kw kw);
          data = info_entry ''total_minutes'' total @
                 info_entry ''setup_minutes'' setup @
                 info_entry ''core_implementation_minutes'' core @
                 info_entry ''testing_minutes'' testing @
                 info_entry ''documentation_minutes'' documentation @
                 info_entry ''buffer_minutes'' buffer;
          valid = map_option (\<lambda>v. validate_breakdown_sum v data) (required (breakdown_valid_kw kw))
      in Option.bind total (\<lambda>t.
         Option.bind setup (\<lambda>s.
         Option.bind core (\<lambda>c.
         Option.bind testing (\<lambda>te.
         Option.bind documentation (\<lambda>d.
         Option.bind buffer (\<lambda>b.
         Option.bind valid (\<lambda>v.
           Some \<lparr>total_minutes = t, setup_minutes = s, core_implementation_minutes = c,
                 testing_minutes = te, documentation_minutes = d, buffer_minutes = b,
                 breakdown_valid = v\<rparr>))))))))"

subsection \<open>Requirement, JobContext, RubricItem, EvaluatorGuide\<close>

record Requirement_kwargs =
  description_kw :: "string arg"
  estimated_time_minutes_kw :: "int arg"
  why_it_matters_kw :: "string arg"

definition Requirement_init :: "Requirement_kwargs \<Rightarrow> Requirement option" where
  "Requirement_init kw =
     (case (required (description_kw kw), field_gt0 (estimated_time_minutes_kw kw),
            required (why_it_matters_kw kw)) of
        (Some d, Some m, Some w) \<Rightarrow>
          Some \<lparr>description = d, estimated_time_minutes = m, why_it_matters = w\<rparr>
      | _ \<Rightarrow> None)"

record JobContext_kwargs =
  responsibilities_kw :: "string list arg"
  business_domain_kw :: "string arg"
  daily_technologies_kw :: "string list arg"
  collaboration_patterns_kw :: "string option arg"

definition JobContext_init :: "JobContext_kwargs \<Rightarrow> JobContext option" where
  "JobContext_init kw =
     (case (required (responsibilities_kw kw), required (business_domain_kw kw),
            required (daily_technologies_kw kw),
            (case collaboration_patterns_kw kw of
               Absent \<Rightarrow> Some None | IllTyped \<Rightarrow> None | Given c \<Rightarrow> Some c)) of
        (Some r, Some b, Some d, Some c) \<Rightarrow>
          Some \<lparr>responsibilities = r, business_domain = b, daily_technologies = d,
                collaboration_patterns = c\<rparr>
      | _ \<Rightarrow> None)"

record RubricItem_kwargs =
  area_kw :: "string arg"
  weight_kw :: "rat arg"
  junior_expectation_kw :: "string arg"
  mid_expectation_kw :: "string arg"
  senior_expectation_kw :: "string arg"
  scoring_guide_kw :: "string arg"

definition field_weight :: "rat arg \<Rightarrow> rat option" where
  \<comment> \<open>\<^verbatim>\<open>float = Field(..., ge=0.0, le=1.0)\<close>\<close>
  "field_weight a = (case a of Given x \<Rightarrow> (if 0 \<le> x \<and> x \<le> 1 then Some x else None) | _ \<Rightarrow> None)"

definition RubricItem_init :: "RubricItem_kwargs \<Rightarrow> RubricItem option" where
  "RubricItem_init kw =
     (case (required (area_kw kw), field_weight (weight_kw kw),
            required (junior_expectation_kw kw), required (mid_expectation_kw kw),
            required (senior_expectation_kw kw), required (scoring_guide_kw kw)) of
        (Some a, Some w, Some j, Some m, Some s, Some g) \<Rightarrow>
          Some \<lparr>area = a, weight = w, junior_expectation = j, mid_expectation = m,
                senior_expectation = s, scoring_guide = g\<rparr>
      | _ \<Rightarrow> None)"

record EvaluatorGuide =
  scoring_rubric :: "RubricItem list"
  common_pitfalls :: "string list"
  red_flags :: "string list"
  green_flags :: "string list"
  calibration_notes :: string

definition validate_weights_sum_to_one ::
  "(rat list \<Rightarrow> pyfloat) \<Rightarrow> RubricItem list \<Rightarrow> RubricItem list option" where
  \<comment> \<open>the field validator of \<^verbatim>\<open>scoring_rubric\<close>; \<open>None\<close> is its ValueError\<close>
  "validate_weights_sum_to_one py_sum v =
     (let total_weight = py_sum (map weight v)
      in if flt (py_float (1 / 100)) (fabs (fsub total_weight (py_float 1))) then None else Some v)"

definition EvaluatorGuide_init ::
  "(rat list \<Rightarrow> pyfloat) \<Rightarrow> RubricItem list \<Rightarrow> string list arg \<Rightarrow> string list arg
     \<Rightarrow> string list arg \<Rightarrow> string arg \<Rightarrow> EvaluatorGuide option" where
  \<comment> \<open>\<^verbatim>\<open>scoring_rubric\<close> has \<^verbatim>\<open>min_items=3, max_items=7\<close>, which pydantic 2 reads as
      bounds on the length\<close>
  "EvaluatorGuide_init py_sum items pitfalls reds greens notes =
     (case ((if 3 \<le> length items \<and> length items \<le> 7
             then validate_weights_sum_to_one py_sum items else None),
            required pitfalls, required reds, required greens, required notes) of
        (Some r, Some p, Some rf, Some gf, Some n) \<Rightarrow>
          Some \<lparr>scoring_rubric = r, common_pitfalls = p, red_flags = rf, green_flags = gf,
                calibration_notes = n\<rparr>
      | _ \<Rightarrow> None)"

subsection \<open>Requirements, CandidateBrief, GeneratedAssignment\<close>

record Requirements =
  must_have_rs :: "Requirement list"
  nice_to_have_rs :: "Requirement list"
  constraints_rs :: "string list"

definition Requirements_init ::
  "Requirement list \<Rightarrow> Requirement list \<Rightarrow> string list \<Rightarrow> Requirements option" where
  \<comment> \<open>\<^verbatim>\<open>must_have\<close> has \<^verbatim>\<open>min_items=3, max_items=7\<close>\<close>
  "Requirements_init mh nh cs =
     (if 3 \<le> length mh \<and> length mh \<le> 7
      then Some \<lparr>must_have_rs = mh, nice_to_have_rs = nh, constraints_rs = cs\<rparr> else None)"

datatype time_estimate =
    WholeHours int     \<comment> \<open>\<^verbatim>\<open>f"{int(hours)} hours"\<close>\<close>
  | DecimalHours rat   \<comment> \<open>\<^verbatim>\<open>f"{hours:.1f} hours"\<close>\<close>

record CandidateBrief =
  title_cb :: string
  business_context_cb :: string
  requirements :: Requirements
  submission_guidelines :: string
  evaluation_criteria :: "string list"
  time_estimate :: time_estimate

definition CandidateBrief_init ::
  "string \<Rightarrow> string \<Rightarrow> Requirements \<Rightarrow> string \<Rightarrow> string list \<Rightarrow> time_estimate
     \<Rightarrow> CandidateBrief option" where
  \<comment> \<open>\<^verbatim>\<open>business_context\<close> has \<^verbatim>\<open>min_length=100, max_length=2000\<close>\<close>
  "CandidateBrief_init t bc rs sg ec te =
     (if 100 \<le> length bc \<and> length bc \<le> 2000
      then Some \<lparr>title_cb = t, business_context_cb = bc, requirements = rs,
                 submission_guidelines = sg, evaluation_criteria = ec, time_estimate = te\<rparr>
      else None)"

record GeneratedAssignment =
  candidate_brief :: CandidateBrief
  evaluator_guide :: EvaluatorGuide
  time_breakdown :: TimeBreakdown
  assignment_id :: string
  generated_at :: nat
  estimated_difficulty :: string
  scope_warnings :: "message list"

record AssignmentInput =
  job_title :: string
  job_description :: string
  tech_stack :: "string list"
  time_budget_hours :: rat
  seniority_level :: string
  company_context :: "string option"
  current_challenges :: "string option"
  must_evaluate :: "string list"
  avoid_topics :: "string list"
  candidate_can_use :: "string list option"
  submission_format :: string

definition AssignmentInput_valid :: "AssignmentInput \<Rightarrow> bool" where
  \<comment> \<open>the constraints of the fields of \<^verbatim>\<open>AssignmentInput\<close>, which model validation checks
      before a request reaches the generator\<close>
  "AssignmentInput_valid i =
     (1 \<le> length (job_title i) \<and> length (job_title i) \<le> 200
      \<and> 100 \<le> length (job_description i) \<and> length (job_description i) \<le> 5000
      \<and> 1 \<le> length (tech_stack i)
      \<and> 2 \<le> time_budget_hours i \<and> time_budget_hours i \<le> 8
      \<and> seniority_level i \<in> set [''junior'', ''mid'', ''senior'', ''staff'']
      \<and> submission_format i \<in> set [''github'', ''zip'', ''codesandbox''])"

section \<open>The generation capability\<close>

text \<open>
  \<^verbatim>\<open>GeminiClient.generate_json(prompt, schema)\<close> is the only effect of the pipeline. A
  call is recorded by the schema it asks for; the text of the prompt is not modelled. The
  answer of the capability is arbitrary: \<open>client w n schema\<close> is what it raises or returns
  for the call made when \<open>n\<close> calls have been made before, so that two calls for the same
  schema may be answered differently. The state threaded through the pipeline is the list
  of the calls made so far. The retries on a rate limit happen inside one call.
\<close>

datatype schema = CONTEXT_SCHEMA | SCOPE_SCHEMA | RUBRIC_SCHEMA | TIME_BREAKDOWN_SCHEMA

record scope_json =
  title_js :: "string arg"
  business_context_js :: "string arg"
  must_have_requirements_js :: "Requirement_kwargs list arg"
  nice_to_have_requirements_js :: "Requirement_kwargs list arg"
  constraints_js :: "string list arg"

record rubric_json =
  scoring_rubric_js :: "RubricItem_kwargs list arg"
  common_pitfalls_js :: "string list arg"
  red_flags_js :: "string list arg"
  green_flags_js :: "string list arg"
  calibration_notes_js :: "string arg"

text \<open>
  The parsed JSON, seen through the keys that the phase reading it looks up; \<open>OtherJson\<close>
  is a value with none of them.
\<close>

datatype response =
    ContextJson JobContext_kwargs
  | ScopeJson scope_json
  | RubricJson rubric_json
  | TimeJson TimeBreakdown_kwargs
  | OtherJson

type_synonym calls = "schema list"

text \<open>
  What the pipeline takes from its environment: the capability, the identifier and the time
  of the assembly, and the builtin \<^verbatim>\<open>sum\<close> of the interpreter on floats.
\<close>

record world =
  client :: "nat \<Rightarrow> schema \<Rightarrow> client_error + response"
  uuid4 :: string
  now :: nat
  float_sum :: "rat list \<Rightarrow> pyfloat"

definition generate_json :: "world \<Rightarrow> schema \<Rightarrow> calls \<Rightarrow> (client_error + response) \<times> calls" where
  "generate_json w schema made = (client w (length made) schema, made @ [schema])"

section \<open>The generator\<close>

definition extract_context :: "world \<Rightarrow> AssignmentInput \<Rightarrow> calls \<Rightarrow> (exn + JobContext) \<times> calls" where
  "extract_context w input_data made =
     (case generate_json w CONTEXT_SCHEMA made of
        (Inl e, made') \<Rightarrow> (Inl (ContextExtractionError (FailedToExtractContext (ClientFailure e))), made')
      | (Inr response, made') \<Rightarrow>
          (case (case response of ContextJson kw \<Rightarrow> JobContext_init kw | _ \<Rightarrow> None) of
             None \<Rightarrow> (Inl (ContextExtractionError (FailedToExtractContext ConversionFailure)), made')
           | Some context \<Rightarrow>
               (let validation = validate_context_extraction context
                in if \<not> passed validation
                   then (Inl (ContextExtractionError (ContextValidationFailed (issues validation))), made')
                   else (Inr context, made'))))"

definition scope_of_response :: "response \<Rightarrow> AssignmentScope option" where
  \<comment> \<open>the conversions inside the \<^verbatim>\<open>try\<close> of \<^verbatim>\<open>_define_scope\<close>\<close>
  "scope_of_response response =
     (case response of
        ScopeJson js \<Rightarrow>
          (case (Option.bind (required (must_have_requirements_js js)) (\<lambda>rs. those (map Requirement_init rs)),
                 Option.bind (required (nice_to_have_requirements_js js)) (\<lambda>rs. those (map Requirement_init rs)),
                 required (title_js js), required (business_context_js js),
                 required (constraints_js js)) of
             (Some mh, Some nh, Some t, Some bc, Some cs) \<Rightarrow>
               Some \<lparr>title = t, business_context = bc, must_have = mh, nice_to_have = nh,
                     constraints = cs\<rparr>
           | _ \<Rightarrow> None)
      | _ \<Rightarrow> None)"

definition define_scope ::
  "world \<Rightarrow> JobContext \<Rightarrow> AssignmentInput \<Rightarrow> calls \<Rightarrow> (exn + AssignmentScope) \<times> calls" where
  "define_scope w context input_data made =
     (case generate_json w SCOPE_SCHEMA made of
        (Inl e, made') \<Rightarrow> (Inl (GenerationError (FailedToDefineScope (ClientFailure e))), made')
      | (Inr response, made') \<Rightarrow>
          (case scope_of_response response of
             None \<Rightarrow> (Inl (GenerationError (FailedToDefineScope ConversionFailure)), made')
           | Some scope \<Rightarrow> (Inr scope, made')))"

definition validate_scope_phase :: "AssignmentScope \<Rightarrow> AssignmentInput \<Rightarrow> exn + ScopeValidation" where
  \<comment> \<open>\<^verbatim>\<open>AssignmentGenerator._validate_scope\<close>\<close>
  "validate_scope_phase scope input_data =
     (case validate_scope scope (Fin (time_budget_hours input_data)) of
        Inl e \<Rightarrow> Inl e
      | Inr validation_result \<Rightarrow>
          (case generate_scope_warnings scope (seniority_level input_data)
                  (Fin (time_budget_hours input_data)) of
             Inl e \<Rightarrow> Inl e
           | Inr ws \<Rightarrow>
               (let all_warnings = warnings validation_result @ ws
                in Inr \<lparr>passed_sv = passed validation_result, issues_sv = issues validation_result,
                        warnings_sv = all_warnings\<rparr>)))"

definition guide_of_response :: "(rat list \<Rightarrow> pyfloat) \<Rightarrow> response \<Rightarrow> EvaluatorGuide option" where
  \<comment> \<open>the conversions inside the \<^verbatim>\<open>try\<close> of \<^verbatim>\<open>_generate_rubric\<close>\<close>
  "guide_of_response py_sum response =
     (case response of
        RubricJson js \<Rightarrow>
          (case Option.bind (required (scoring_rubric_js js)) (\<lambda>is. those (map RubricItem_init is)) of
             None \<Rightarrow> None
           | Some rubric_items \<Rightarrow>
               EvaluatorGuide_init py_sum rubric_items (common_pitfalls_js js) (red_flags_js js)
                 (green_flags_js js) (calibration_notes_js js))
      | _ \<Rightarrow> None)"

definition generate_rubric ::
  "world \<Rightarrow> AssignmentScope \<Rightarrow> AssignmentInput \<Rightarrow> calls \<Rightarrow> (exn + EvaluatorGuide) \<times> calls" where
  "generate_rubric w scope input_data made =
     (case generate_json w RUBRIC_SCHEMA made of
        (Inl e, made') \<Rightarrow> (Inl (RubricGenerationError (FailedToGenerateRubric (ClientFailure e))), made')
      | (Inr response, made') \<Rightarrow>
          (case guide_of_response (float_sum w) response of
             None \<Rightarrow> (Inl (RubricGenerationError (FailedToGenerateRubric ConversionFailure)), made')
           | Some guide \<Rightarrow>
               (let validation = validate_rubric (float_sum w) (scoring_rubric guide)
                in if \<not> passed validation
                   then (Inl (RubricGenerationError (RubricValidationFailed (issues validation))), made')
                   else (Inr guide, made'))))"

definition generate_time_breakdown ::
  "world \<Rightarrow> AssignmentScope \<Rightarrow> AssignmentInput \<Rightarrow> calls \<Rightarrow> (exn + TimeBreakdown) \<times> calls" where
  "generate_time_breakdown w scope input_data made =
     (case generate_json w TIME_BREAKDOWN_SCHEMA made of
        (Inl e, made') \<Rightarrow> (Inl (GenerationError (FailedToGenerateTimeBreakdown (ClientFailure e))), made')
      | (Inr response, made') \<Rightarrow>
          (case (case response of TimeJson kw \<Rightarrow> TimeBreakdown_init kw | _ \<Rightarrow> None) of
             None \<Rightarrow> (Inl (GenerationError (FailedToGenerateTimeBreakdown ConversionFailure)), made')
           | Some tb \<Rightarrow> (Inr tb, made')))"

definition format_map :: "(string \<times> string) list" where
  "format_map =
     [(''github'',
       ''Please submit your solution as a GitHub repository. '' @
       ''Include a comprehensive README with setup instructions, '' @
       ''architecture decisions, and any assumptions made.''),
      (''zip'',
       ''Please submit your solution as a ZIP file. '' @
       ''Include a comprehensive README with setup instructions, '' @
       ''architecture decisions, and any assumptions made.''),
      (''codesandbox'',
       ''Please submit your solution as a CodeSandbox link. '' @
       ''Ensure all dependencies are properly configured and the '' @
       ''sandbox is publicly accessible.'')]"

definition build_submission_guidelines :: "AssignmentInput \<Rightarrow> string" where
  "build_submission_guidelines input_data =
     (let base_guidelines =
            (case map_of format_map (submission_format input_data) of
               Some g \<Rightarrow> g
             | None \<Rightarrow> (case map_of format_map ''github'' of Some g \<Rightarrow> g | None \<Rightarrow> []));
          additional_notes =
            (case candidate_can_use input_data of
               None \<Rightarrow> []
             | Some libraries \<Rightarrow>
                 (if libraries = [] then []
                  else [''You may use the following libraries/frameworks: '' @
                        join '', '' libraries]))
      in if additional_notes \<noteq> []
         then base_guidelines @ [CHR 0x0A, CHR 0x0A] @ join '' '' additional_notes
         else base_guidelines)"

definition estimate_difficulty :: "AssignmentScope \<Rightarrow> AssignmentInput \<Rightarrow> string" where
  "estimate_difficulty scope input_data =
     (let total_time = total_time_of (all_requirements scope);
          requirement_count = length (must_have scope)
      in if total_time \<le> 180 \<and> requirement_count \<le> 4 then ''easy''
         else if total_time \<ge> 360 \<or> requirement_count \<ge> 6 then ''hard''
         else ''medium'')"

definition assemble_assignment ::
  "world \<Rightarrow> JobContext \<Rightarrow> AssignmentScope \<Rightarrow> EvaluatorGuide \<Rightarrow> TimeBreakdown \<Rightarrow> ScopeValidation
     \<Rightarrow> AssignmentInput \<Rightarrow> exn + GeneratedAssignment" where
  "assemble_assignment w context scope rubric tb validation input_data =
     (case Requirements_init (must_have scope) (nice_to_have scope) (constraints scope) of
        None \<Rightarrow> Inl ValidationError
      | Some rs \<Rightarrow>
          (let criteria = map area (scoring_rubric rubric);
               hours = time_budget_hours input_data;
               estimate = (if hours = of_int (py_int hours) then WholeHours (py_int hours)
                           else DecimalHours hours);
               guidelines = build_submission_guidelines input_data
           in case CandidateBrief_init (title scope) (business_context scope) rs guidelines
                     criteria estimate of
                None \<Rightarrow> Inl ValidationError
              | Some brief \<Rightarrow>
                  (let difficulty = estimate_difficulty scope input_data
                   in Inr \<lparr>candidate_brief = brief, evaluator_guide = rubric, time_breakdown = tb,
                           assignment_id = uuid4 w, generated_at = now w,
                           estimated_difficulty = difficulty,
                           scope_warnings = warnings_sv validation\<rparr>)))"

definition generate :: "world \<Rightarrow> AssignmentInput \<Rightarrow> calls \<Rightarrow> (exn + GeneratedAssignment) \<times> calls" where
  "generate w input_data made =
     (case extract_context w input_data made of
        (Inl e, made1) \<Rightarrow> (Inl e, made1)
      | (Inr context, made1) \<Rightarrow>
     (case define_scope w context input_data made1 of
        (Inl e, made2) \<Rightarrow> (Inl e, made2)
      | (Inr scope, made2) \<Rightarrow>
     (case validate_scope_phase scope input_data of
        Inl e \<Rightarrow> (Inl e, made2)
      | Inr validation \<Rightarrow>
          if \<not> passed_sv validation
          then (Inl (ScopeValidationError (ScopeValidationFailed (issues_sv validation))), made2)
          else
     (case generate_rubric w scope input_data made2 of
        (Inl e, made3) \<Rightarrow> (Inl e, made3)
      | (Inr rubric, made3) \<Rightarrow>
     (case generate_time_breakdown w scope input_data made3 of
        (Inl e, made4) \<Rightarrow> (Inl e, made4)
      | (Inr tb, made4) \<Rightarrow>
          (assemble_assignment w context scope rubric tb validation input_data, made4))))))"

section \<open>The specification's wording\<close>

text \<open>
  The quantities and tables that the specification names, written from its sentences, to be
  compared with the functions of the source: the total requirement minutes (must-have plus
  nice-to-have), the thresholds of the difficulty classification, and the ranges of the
  seniority heuristic.
\<close>

definition total_requirement_minutes :: "AssignmentScope \<Rightarrow> int" where
  "total_requirement_minutes scope =
     sum_list (map estimated_time_minutes (must_have scope)) +
     sum_list (map estimated_time_minutes (nice_to_have scope))"

definition difficulty_spec :: "int \<Rightarrow> nat \<Rightarrow> string" where
  "difficulty_spec total_time requirement_count =
     (if total_time \<le> 180 \<and> requirement_count \<le> 4 then ''easy''
      else if total_time \<ge> 360 \<or> requirement_count \<ge> 6 then ''hard''
      else ''medium'')"

definition seniority_ranges :: "string \<Rightarrow> ((nat \<times> nat) \<times> (int \<times> int)) option" where
  "seniority_ranges level =
     (if level = ''junior'' then Some ((3, 4), (120, 240))
      else if level = ''mid'' then Some ((4, 5), (180, 300))
      else if level = ''senior'' then Some ((5, 6), (240, 420))
      else if level = ''staff'' then Some ((6, 7), (360, 540))
      else None)"

definition seniority_match_spec :: "string \<Rightarrow> nat \<Rightarrow> int \<Rightarrow> bool" where
  "seniority_match_spec level requirement_count total_time =
     (case seniority_ranges level of
        None \<Rightarrow> True
      | Some ((clo, chi), (tlo, thi)) \<Rightarrow>
          clo \<le> requirement_count \<and> requirement_count \<le> chi \<and> tlo \<le> total_time \<and> total_time \<le> thi)"

section \<open>Example inputs\<close>

text \<open>
  Concrete inputs on which the functions are evaluated below. The scopes, the context and the
  rubric items follow the fixtures of \<^verbatim>\<open>backend/tests/test_generator.py\<close>, with weights
  and budgets that are doubles; \<open>ex_world\<close> is a capability that answers each schema with a
  well-formed response, \<open>ex_failing_world\<close> one whose every call fails, \<open>ex_malformed_world\<close>
  one that answers with unusable JSON. Their interpreter sums from left to right.
\<close>

definition ex_req :: "int \<Rightarrow> Requirement" where
  "ex_req m = \<lparr>description = ''Feature'', estimated_time_minutes = m, why_it_matters = ''Important''\<rparr>"

definition ex_scope :: "int list \<Rightarrow> int list \<Rightarrow> AssignmentScope" where
  "ex_scope mh nh =
     \<lparr>title = ''Test Assignment'', business_context = replicate 250 (CHR ''A''),
      must_have = map ex_req mh, nice_to_have = map ex_req nh,
      constraints = [''Rate limit: 100 req/min'']\<rparr>"

definition ex_input :: "rat \<Rightarrow> string \<Rightarrow> AssignmentInput" where
  "ex_input hours level =
     \<lparr>job_title = ''Senior Backend Engineer'', job_description = replicate 500 (CHR ''A''),
      tech_stack = [''Python''], time_budget_hours = hours, seniority_level = level,
      company_context = None, current_challenges = None, must_evaluate = [], avoid_topics = [],
      candidate_can_use = None, submission_format = ''github''\<rparr>"

definition ex_context :: JobContext where
  "ex_context =
     \<lparr>responsibilities = [''Build APIs'', ''Design databases'', ''Write tests''],
      business_domain = ''Fintech - Payroll processing'',
      daily_technologies = [''Python'', ''FastAPI'', ''PostgreSQL''],
      collaboration_patterns = Some ''Agile team with daily standups''\<rparr>"

definition ex_item :: "string \<Rightarrow> rat \<Rightarrow> string \<Rightarrow> RubricItem" where
  "ex_item a w guide =
     \<lparr>area = a, weight = w, junior_expectation = ''Basic endpoints'',
      mid_expectation = ''RESTful design'', senior_expectation = ''Advanced patterns'',
      scoring_guide = guide\<rparr>"

definition ex_time_kwargs :: "int \<Rightarrow> bool \<Rightarrow> TimeBreakdown_kwargs" where
  "ex_time_kwargs t flag =
     \<lparr>total_minutes_kw = Given t, setup_minutes_kw = Given 20,
      core_implementation_minutes_kw = Given 150, testing_minutes_kw = Given 40,
      documentation_minutes_kw = Given 20, buffer_minutes_kw = Given 10,
      breakdown_valid_kw = Given flag\<rparr>"

definition ex_time_breakdown :: "int \<Rightarrow> bool \<Rightarrow> TimeBreakdown" where
  "ex_time_breakdown t flag =
     \<lparr>total_minutes = t, setup_minutes = 20, core_implementation_minutes = 150,
      testing_minutes = 40, documentation_minutes = 20, buffer_minutes = 10,
      breakdown_valid = flag\<rparr>"

definition ex_req_kwargs :: "int \<Rightarrow> Requirement_kwargs" where
  "ex_req_kwargs m =
     \<lparr>description_kw = Given ''Feature'', estimated_time_minutes_kw = Given m,
      why_it_matters_kw = Given ''Important''\<rparr>"

definition ex_scope_json :: "int list \<Rightarrow> int list \<Rightarrow> scope_json" where
  "ex_scope_json mh nh =
     \<lparr>title_js = Given ''Test Assignment'',
      business_context_js = Given (replicate 250 (CHR ''A'')),
      must_have_requirements_js = Given (map ex_req_kwargs mh),
      nice_to_have_requirements_js = Given (map ex_req_kwargs nh),
      constraints_js = Given [''Rate limit: 100 req/min'']\<rparr>"

definition ex_context_kwargs :: JobContext_kwargs where
  "ex_context_kwargs =
     \<lparr>responsibilities_kw = Given [''Build APIs'', ''Design databases'', ''Write tests''],
      business_domain_kw = Given ''Fintech - Payroll processing'',
      daily_technologies_kw = Given [''Python'', ''FastAPI'', ''PostgreSQL''],
      collaboration_patterns_kw = Given (Some ''Agile team with daily standups'')\<rparr>"

definition ex_item_kwargs :: "string \<Rightarrow> rat \<Rightarrow> RubricItem_kwargs" where
  "ex_item_kwargs a w =
     \<lparr>area_kw = Given a, weight_kw = Given w, junior_expectation_kw = Given ''Basic endpoints'',
      mid_expectation_kw = Given ''RESTful design'',
      senior_expectation_kw = Given ''Advanced patterns'', scoring_guide_kw = Given ''1-5 scale''\<rparr>"

definition ex_rubric_json :: rubric_json where
  "ex_rubric_json =
     \<lparr>scoring_rubric_js = Given [ex_item_kwargs ''API Design'' (1 / 4),
                                 ex_item_kwargs ''Error Handling'' (1 / 4),
                                 ex_item_kwargs ''Testing'' (1 / 2)],
      common_pitfalls_js = Given [''No input validation''],
      red_flags_js = Given [''No tests''],
      green_flags_js = Given [''Clear README''],
      calibration_notes_js = Given ''Score each area on its own''\<rparr>"

definition ex_client :: "int list \<Rightarrow> int list \<Rightarrow> int \<Rightarrow> bool \<Rightarrow> nat \<Rightarrow> schema \<Rightarrow> client_error + response" where
  "ex_client mh nh t flag n schema =
     (case schema of
        CONTEXT_SCHEMA \<Rightarrow> Inr (ContextJson ex_context_kwargs)
      | SCOPE_SCHEMA \<Rightarrow> Inr (ScopeJson (ex_scope_json mh nh))
      | RUBRIC_SCHEMA \<Rightarrow> Inr (RubricJson ex_rubric_json)
      | TIME_BREAKDOWN_SCHEMA \<Rightarrow> Inr (TimeJson (ex_time_kwargs t flag)))"

definition ex_world :: "int list \<Rightarrow> int list \<Rightarrow> int \<Rightarrow> bool \<Rightarrow> world" where
  "ex_world mh nh t flag =
     \<lparr>client = ex_client mh nh t flag,
      uuid4 = ''123e4567-e89b-42d3-a456-426614174000'', now = 0,
      float_sum = sum_left_to_right\<rparr>"

definition ex_failing_world :: world where
  "ex_failing_world =
     \<lparr>client = (\<lambda>n schema. Inl GeminiAPIError),
      uuid4 = ''123e4567-e89b-42d3-a456-426614174000'', now = 0,
      float_sum = sum_left_to_right\<rparr>"

definition ex_rubric_blank_guide :: "RubricItem list" where
  "ex_rubric_blank_guide =
     [ex_item ''API Design'' (1 / 4) ''1-5 scale'',
      ex_item ''Error Handling'' (1 / 4) '' '',
      ex_item ''Testing'' (1 / 2) ''1-5 scale'']"

definition ex_rubric_thirds :: "RubricItem list" where
  \<comment> \<open>three weights \<^verbatim>\<open>0.33\<close>, each the double nearest to 33/100\<close>
  "ex_rubric_thirds =
     [ex_item ''API Design'' (5944751508129055 / 18014398509481984) ''1-5 scale'',
      ex_item ''Error Handling'' (5944751508129055 / 18014398509481984) ''1-5 scale'',
      ex_item ''Testing'' (5944751508129055 / 18014398509481984) ''1-5 scale'']"

definition ex_rubric_zero_weight :: "RubricItem list" where
  "ex_rubric_zero_weight =
     [ex_item ''Documentation'' 0 ''1-5 scale'',
      ex_item ''API Design'' (1 / 2) ''1-5 scale'',
      ex_item ''Testing'' (1 / 2) ''1-5 scale'']"

definition ex_rubric_warned :: "RubricItem list" where
  "ex_rubric_warned =
     [ex_item ''API Design'' (1 / 4) ''1-5 scale'',
      ex_item ''Error Handling'' (1 / 4) ''1-5 scale'',
      ex_item ''Testing'' (15 / 32) ''1-5 scale'',
      \<lparr>area = ''Documentation'', weight = 1 / 32, junior_expectation = '''',
       mid_expectation = ''  '', senior_expectation = ''Clear README'',
       scoring_guide = ''1-5 scale''\<rparr>]"

definition ex_guide :: EvaluatorGuide where
  "ex_guide =
     \<lparr>scoring_rubric = [ex_item ''API Design'' (1 / 4) ''1-5 scale'',
                        ex_item ''Error Handling'' (1 / 4) ''1-5 scale'',
                        ex_item ''Testing'' (1 / 2) ''1-5 scale''],
      common_pitfalls = [''No input validation''],
      red_flags = [''No tests''],
      green_flags = [''Clear README''],
      calibration_notes = ''Score each area on its own''\<rparr>"

definition ex_malformed_world :: world where
  "ex_malformed_world =
     \<lparr>client = (\<lambda>n schema. Inr OtherJson),
      uuid4 = ''123e4567-e89b-42d3-a456-426614174000'', now = 0,
      float_sum = sum_left_to_right\<rparr>"

definition ex_assignment :: GeneratedAssignment where
  "ex_assignment =
     \<lparr>candidate_brief =
        \<lparr>title_cb = ''Test Assignment'',
         business_context_cb = replicate 250 (CHR ''A''),
         requirements =
           \<lparr>must_have_rs = map ex_req [80, 60, 70], nice_to_have_rs = map ex_req [30],
            constraints_rs = [''Rate limit: 100 req/min'']\<rparr>,
         submission_guidelines =
           ''Please submit your solution as a GitHub repository. '' @
           ''Include a comprehensive README with setup instructions, '' @
           ''architecture decisions, and any assumptions made.'',
         evaluation_criteria = [''API Design'', ''Error Handling'', ''Testing''],
         time_estimate = WholeHours 4\<rparr>,
      evaluator_guide = ex_guide,
      time_breakdown = ex_time_breakdown 300 False,
      assignment_id = ''123e4567-e89b-42d3-a456-426614174000'',
      generated_at = 0,
      estimated_difficulty = ''medium'',
      scope_warnings = [FewConstraints 1, SeniorityMismatch ''senior'']\<rparr>"

section \<open>Facts about rounding\<close>

text \<open>
  \<open>expo x\<close> is the binary exponent of \<open>x\<close>, so that \<open>round_double\<close> can be evaluated once the
  exponent is known (\<open>round_double_eqI\<close>). Rounding keeps a bound that is itself a multiple
  of the last bit (\<open>round_double_grid_le\<close>, \<open>round_double_grid_ge\<close>), is monotone on the
  positive rationals, and moves a normal number by at most the fraction \<open>2 ^ - 53\<close> of
  itself.
\<close>

subsection \<open>Powers of two and the binary exponent\<close>

lemma pow2_powi: "pow2 e = 2 powi e"
  by (simp add: pow2_def power_int_def inverse_eq_divide power_one_over)

lemma pow2_pos: "0 < pow2 e"
  by (simp add: pow2_def)

lemma pow2_strict_mono: "a < b \<Longrightarrow> pow2 a < pow2 b"
  by (simp add: pow2_powi power_int_strict_increasing)

lemma pow2_mono: "a \<le> b \<Longrightarrow> pow2 a \<le> pow2 b"
  by (simp add: pow2_powi power_int_increasing)

lemma pow2_nat: "pow2 (int n) = 2 ^ n"
  by (simp add: pow2_def)

lemma pow2_neg_nat: "pow2 (- int n) = 1 / 2 ^ n"
  by (simp add: pow2_powi power_int_minus inverse_eq_divide)

lemma pow2_add: "pow2 (a + b) = pow2 a * pow2 b"
  by (simp add: pow2_powi power_int_add)

lemma bit_length_bounds:
  "0 < n \<Longrightarrow> 2 ^ (bit_length n - 1) \<le> n \<and> n < 2 ^ bit_length n"
proof (induction n rule: bit_length.induct)
  case (1 n)
  show ?case
  proof (cases "n div 2 = 0")
    case True
    with "1.prems" have "n = 1" by (cases n) auto
    then show ?thesis by (simp add: bit_length.simps)
  next
    case False
    then have h: "2 ^ (bit_length (n div 2) - 1) \<le> n div 2 \<and> n div 2 < 2 ^ bit_length (n div 2)"
      using "1.IH" "1.prems" by simp
    have b: "bit_length n = Suc (bit_length (n div 2))"
      using "1.prems" by (subst bit_length.simps) simp
    have p: "0 < bit_length (n div 2)"
      using False by (subst bit_length.simps) simp
    have "2 ^ (bit_length n - 1) = 2 * 2 ^ (bit_length (n div 2) - 1)"
      using b p by (cases "bit_length (n div 2)") simp_all
    also have "\<dots> \<le> 2 * (n div 2)"
      using h by simp
    also have "\<dots> \<le> n" by simp
    finally have lo: "2 ^ (bit_length n - 1) \<le> n" .
    have "n < 2 * (n div 2) + 2" by presburger
    also have "\<dots> \<le> 2 * 2 ^ bit_length (n div 2)"
      using h by simp
    finally have "n < 2 ^ bit_length n" by (simp add: b)
    with lo show ?thesis by simp
  qed
qed

lemma bit_length_pos: "0 < n \<Longrightarrow> 0 < bit_length n"
  by (subst bit_length.simps) simp

lemma expo_bounds:
  assumes "x \<noteq> 0"
  shows "pow2 (expo x) \<le> \<bar>x\<bar>" and "\<bar>x\<bar> < pow2 (expo x + 1)"
proof -
  have "pow2 (expo x) \<le> \<bar>x\<bar> \<and> \<bar>x\<bar> < pow2 (expo x + 1)"
  proof (cases "1 \<le> \<bar>x\<bar>")
    case True
    define n where "n = nat \<lfloor>\<bar>x\<bar>\<rfloor>"
    have n: "0 < n" "of_nat n \<le> \<bar>x\<bar>" "\<bar>x\<bar> < of_nat n + 1"
      using True unfolding n_def by (simp_all add: of_nat_nat le_floor_iff) linarith+
    define k where "k = bit_length n"
    have k: "0 < k" "2 ^ (k - 1) \<le> n" "n < 2 ^ k"
      using bit_length_bounds [OF n(1)] bit_length_pos [OF n(1)] by (simp_all add: k_def)
    have e: "expo x = int k - 1"
      using True by (simp add: expo_def n_def k_def)
    have e1: "expo x = int (k - 1)"
      using e k(1) by simp
    have "pow2 (expo x) = 2 ^ (k - 1)"
      unfolding e1 by (rule pow2_nat)
    also have "\<dots> = of_nat (2 ^ (k - 1))" by simp
    also have "\<dots> \<le> of_nat n"
      using k(2) by (simp only: of_nat_le_iff)
    finally have lo: "pow2 (expo x) \<le> \<bar>x\<bar>"
      using n(2) by simp
    have "n + 1 \<le> 2 ^ k" using k(3) by simp
    then have "(of_nat (n + 1) :: rat) \<le> of_nat (2 ^ k)"
      by (simp only: of_nat_le_iff)
    then have "\<bar>x\<bar> < 2 ^ k"
      using n(3) by simp
    moreover have "pow2 (expo x + 1) = 2 ^ k"
      using pow2_nat [of k] by (simp add: e)
    ultimately show ?thesis using lo by simp
  next
    case False
    define y where "y = 1 / \<bar>x\<bar>"
    have y: "1 < y" "0 < \<bar>x\<bar>" "\<bar>x\<bar> = 1 / y"
      using False assms by (simp_all add: y_def)
    define n where "n = nat (\<lceil>y\<rceil> - 1)"
    have c: "y \<le> of_int \<lceil>y\<rceil>" "of_int \<lceil>y\<rceil> - 1 < y"
      by linarith+
    have c2: "2 \<le> \<lceil>y\<rceil>"
      using y(1) by linarith
    have n: "0 < n" "int n = \<lceil>y\<rceil> - 1"
      using c2 by (simp_all add: n_def)
    have ny: "of_nat n < y" "y \<le> of_nat n + 1"
    proof -
      have "(of_nat n :: rat) = of_int (int n)" by simp
      also have "\<dots> = of_int \<lceil>y\<rceil> - 1" by (simp add: n(2))
      finally have *: "(of_nat n :: rat) = of_int \<lceil>y\<rceil> - 1" .
      show "of_nat n < y" using c(2) * by simp
      show "y \<le> of_nat n + 1" using c(1) * by simp
    qed
    define k where "k = bit_length n"
    have k: "0 < k" "2 ^ (k - 1) \<le> n" "n < 2 ^ k"
      using bit_length_bounds [OF n(1)] bit_length_pos [OF n(1)] by (simp_all add: k_def)
    have e: "expo x = - int k"
      using False by (simp add: expo_def n_def k_def y_def)
    have "n + 1 \<le> 2 ^ k" using k(3) by simp
    then have "(of_nat (n + 1) :: rat) \<le> of_nat (2 ^ k)"
      by (simp only: of_nat_le_iff)
    then have yk: "y \<le> 2 ^ k" using ny(2) by simp
    have "(of_nat (2 ^ (k - 1)) :: rat) \<le> of_nat n"
      using k(2) by (simp only: of_nat_le_iff)
    then have "(2 :: rat) ^ (k - 1) \<le> of_nat n" by simp
    then have yk1: "2 ^ (k - 1) < y" using ny(1) by (rule le_less_trans)
    have lo: "pow2 (expo x) \<le> \<bar>x\<bar>"
      unfolding e pow2_neg_nat y(3) using yk y(1)
      by (simp add: field_simps)
    have "expo x + 1 = - int (k - 1)"
      using e k(1) by simp
    then have "pow2 (expo x + 1) = 1 / 2 ^ (k - 1)"
      by (simp only: pow2_neg_nat)
    moreover have "1 / y < 1 / 2 ^ (k - 1)"
      using yk1 y(1) by (intro divide_strict_left_mono mult_pos_pos) simp_all
    ultimately show ?thesis using lo y(3) by simp
  qed
  then show "pow2 (expo x) \<le> \<bar>x\<bar>" and "\<bar>x\<bar> < pow2 (expo x + 1)" by simp_all
qed

lemma expo_eq:
  assumes "pow2 e \<le> \<bar>x\<bar>" and "\<bar>x\<bar> < pow2 (e + 1)"
  shows "expo x = e"
proof -
  have x: "x \<noteq> 0" using assms(1) pow2_pos [of e] by auto
  note b = expo_bounds [OF x]
  have "\<not> expo x < e"
  proof
    assume "expo x < e"
    then have "pow2 (expo x + 1) \<le> pow2 e" by (intro pow2_mono) simp
    with b(2) assms(1) show False by simp
  qed
  moreover have "\<not> e < expo x"
  proof
    assume "e < expo x"
    then have "pow2 (e + 1) \<le> pow2 (expo x)" by (intro pow2_mono) simp
    with b(1) assms(2) show False by simp
  qed
  ultimately show ?thesis by simp
qed

lemma lsb_exponent_eq:
  "pow2 e \<le> \<bar>x\<bar> \<Longrightarrow> \<bar>x\<bar> < pow2 (e + 1) \<Longrightarrow> lsb_exponent x = max e (- 1022) - 52"
  by (simp add: lsb_exponent_def expo_eq)

lemma expo_mono:
  assumes "x \<noteq> 0" and "\<bar>x\<bar> \<le> \<bar>y\<bar>"
  shows "expo x \<le> expo y"
proof (rule ccontr)
  assume "\<not> expo x \<le> expo y"
  then have "pow2 (expo y + 1) \<le> pow2 (expo x)"
    by (intro pow2_mono) simp
  moreover have "y \<noteq> 0" using assms by auto
  ultimately show False
    using expo_bounds(1) [OF assms(1)] expo_bounds(2) [of y] assms(2) by simp
qed

lemma lsb_exponent_mono: "x \<noteq> 0 \<Longrightarrow> \<bar>x\<bar> \<le> \<bar>y\<bar> \<Longrightarrow> lsb_exponent x \<le> lsb_exponent y"
  using expo_mono [of x y] by (simp add: lsb_exponent_def)

lemma pow2_split:
  assumes "p \<le> q"
  shows "pow2 q = of_int (2 ^ nat (q - p)) * pow2 p"
proof -
  have "pow2 (q - p) = 2 ^ nat (q - p)"
    using pow2_nat [of "nat (q - p)"] assms by simp
  then show ?thesis
    using pow2_add [of "q - p" p] by simp
qed

subsection \<open>Rounding to an integer\<close>

lemma round_half_even_of_int: "round_half_even (of_int n) = n"
  by (simp add: round_half_even_def)

lemma round_half_even_cases:
  "round_half_even y = \<lfloor>y\<rfloor> \<and> y - of_int \<lfloor>y\<rfloor> \<le> 1 / 2
   \<or> round_half_even y = \<lfloor>y\<rfloor> + 1 \<and> 1 / 2 \<le> y - of_int \<lfloor>y\<rfloor>"
  by (simp add: round_half_even_def Let_def)

lemma round_half_even_upper: "of_int (round_half_even y) \<le> y + 1 / 2"
  using round_half_even_cases [of y] by (elim disjE conjE) (simp; linarith)+

lemma round_half_even_lower: "y - 1 / 2 \<le> of_int (round_half_even y)"
  using round_half_even_cases [of y] by (elim disjE conjE) (simp; linarith)+

lemma round_half_even_mono:
  assumes "x \<le> y"
  shows "round_half_even x \<le> round_half_even y"
proof (cases "\<lfloor>x\<rfloor> = \<lfloor>y\<rfloor>")
  case True
  then show ?thesis
    using assms by (simp add: round_half_even_def Let_def)
next
  case False
  then have "\<lfloor>x\<rfloor> + 1 \<le> \<lfloor>y\<rfloor>"
    using floor_mono [OF assms] by simp
  moreover have "round_half_even x \<le> \<lfloor>x\<rfloor> + 1"
    using round_half_even_cases [of x] by auto
  moreover have "\<lfloor>y\<rfloor> \<le> round_half_even y"
    using round_half_even_cases [of y] by auto
  ultimately show ?thesis by simp
qed

lemma round_half_even_le_int: "y \<le> of_int n \<Longrightarrow> round_half_even y \<le> n"
  using round_half_even_mono [of y "of_int n"] by (simp add: round_half_even_of_int)

lemma round_half_even_ge_int: "of_int n \<le> y \<Longrightarrow> n \<le> round_half_even y"
  using round_half_even_mono [of "of_int n" y] by (simp add: round_half_even_of_int)

lemma round_half_even_near:
  assumes "\<bar>y - of_int m\<bar> < 1 / 2"
  shows "round_half_even y = m"
proof -
  have "y - 1 / 2 \<le> of_int (round_half_even y)" "of_int (round_half_even y) \<le> y + 1 / 2"
    by (rule round_half_even_lower, rule round_half_even_upper)
  with assms have "\<bar>of_int (round_half_even y) - (of_int m :: rat)\<bar> < 1"
    by linarith
  then have "\<bar>(of_int (round_half_even y - m) :: rat)\<bar> < 1"
    by simp
  then have "\<bar>round_half_even y - m\<bar> < 1"
    by (simp only: of_int_abs [symmetric] of_int_less_1_iff)
  then show ?thesis by simp
qed

lemma round_half_even_tie_up:
  assumes "y = of_int m - 1 / 2" and "even m"
  shows "round_half_even y = m"
proof -
  have "\<lfloor>y\<rfloor> = m - 1"
    unfolding assms(1) by (rule floor_unique) simp_all
  then show ?thesis
    using assms by (simp add: round_half_even_def Let_def)
qed

lemma round_half_even_tie_down:
  assumes "y = of_int m + 1 / 2" and "even m"
  shows "round_half_even y = m"
proof -
  have "\<lfloor>y\<rfloor> = m"
    unfolding assms(1) by (rule floor_unique) simp_all
  then show ?thesis
    using assms by (simp add: round_half_even_def Let_def)
qed

lemma round_half_even_third:
  "of_int (round_half_even (of_int b / 3)) \<le> (of_int b / 3 + 1 / 3 :: rat)"
proof -
  define r where "r = round_half_even (of_int b / 3)"
  have "of_int r \<le> (of_int b / 3 + 1 / 2 :: rat)"
    unfolding r_def by (rule round_half_even_upper)
  then have "(of_int (2 * (3 * r - b)) :: rat) \<le> of_int 3"
    by simp
  then have "2 * (3 * r - b) \<le> 3"
    by (simp only: of_int_le_iff)
  then have "3 * r - b \<le> 1" by simp
  then have "(of_int (3 * r - b) :: rat) \<le> of_int 1"
    by (simp only: of_int_le_iff)
  then show ?thesis
    unfolding r_def [symmetric] by simp
qed

lemma round_half_even_fifth:
  "(of_int b / 5 - 2 / 5 :: rat) \<le> of_int (round_half_even (of_int b / 5))"
proof -
  define r where "r = round_half_even (of_int b / 5)"
  have "(of_int b / 5 - 1 / 2 :: rat) \<le> of_int r"
    unfolding r_def by (rule round_half_even_lower)
  then have "(of_int (2 * (b - 5 * r)) :: rat) \<le> of_int 5"
    by simp
  then have "2 * (b - 5 * r) \<le> 5"
    by (simp only: of_int_le_iff)
  then have "b - 5 * r \<le> 2" by simp
  then have "(of_int (b - 5 * r) :: rat) \<le> of_int 2"
    by (simp only: of_int_le_iff)
  then show ?thesis
    unfolding r_def [symmetric] by simp
qed

subsection \<open>Rounding to a double\<close>

lemma round_double_grid_le:
  assumes "x \<le> of_int n * pow2 q" and "lsb_exponent x \<le> q"
  shows "round_double x \<le> of_int n * pow2 q"
proof (cases "x = 0")
  case True
  then show ?thesis using assms(1) by (simp add: round_double_def)
next
  case False
  define p where "p = lsb_exponent x"
  have q: "pow2 q = of_int (2 ^ nat (q - p)) * pow2 p"
    using assms(2) unfolding p_def by (rule pow2_split)
  have "x / pow2 p \<le> of_int n * pow2 q / pow2 p"
    using assms(1) pow2_pos [of p] by (simp add: divide_right_mono)
  also have "\<dots> = of_int (n * 2 ^ nat (q - p))"
    using pow2_pos [of p] by (simp add: q)
  finally have "round_half_even (x / pow2 p) \<le> n * 2 ^ nat (q - p)"
    by (rule round_half_even_le_int)
  then have "(of_int (round_half_even (x / pow2 p)) :: rat) \<le> of_int (n * 2 ^ nat (q - p))"
    by (simp only: of_int_le_iff)
  then have "of_int (round_half_even (x / pow2 p)) * pow2 p \<le> of_int (n * 2 ^ nat (q - p)) * pow2 p"
    using pow2_pos [of p] by (simp only: mult_le_cancel_right) simp
  also have "\<dots> = of_int n * pow2 q"
    by (simp add: q)
  finally have "of_int (round_half_even (x / pow2 p)) * pow2 p \<le> of_int n * pow2 q" .
  moreover have "round_double x = of_int (round_half_even (x / pow2 p)) * pow2 p"
    using False by (simp add: round_double_def p_def)
  ultimately show ?thesis
    by (simp only:)
qed

lemma round_double_grid_ge:
  assumes "of_int n * pow2 q \<le> x" and "lsb_exponent x \<le> q"
  shows "of_int n * pow2 q \<le> round_double x"
proof (cases "x = 0")
  case True
  then show ?thesis using assms(1) by (simp add: round_double_def)
next
  case False
  define p where "p = lsb_exponent x"
  have q: "pow2 q = of_int (2 ^ nat (q - p)) * pow2 p"
    using assms(2) unfolding p_def by (rule pow2_split)
  have "of_int n * pow2 q / pow2 p \<le> x / pow2 p"
    using assms(1) pow2_pos [of p] by (simp add: divide_right_mono)
  moreover have "of_int n * pow2 q / pow2 p = of_int (n * 2 ^ nat (q - p))"
    using pow2_pos [of p] by (simp add: q)
  ultimately have "of_int (n * 2 ^ nat (q - p)) \<le> x / pow2 p"
    by simp
  then have "n * 2 ^ nat (q - p) \<le> round_half_even (x / pow2 p)"
    by (rule round_half_even_ge_int)
  then have "(of_int (n * 2 ^ nat (q - p)) :: rat) \<le> of_int (round_half_even (x / pow2 p))"
    by (simp only: of_int_le_iff)
  then have "of_int (n * 2 ^ nat (q - p)) * pow2 p \<le> of_int (round_half_even (x / pow2 p)) * pow2 p"
    using pow2_pos [of p] by (simp only: mult_le_cancel_right) simp
  moreover have "of_int (n * 2 ^ nat (q - p)) * pow2 p = of_int n * pow2 q"
    by (simp add: q)
  moreover have "round_double x = of_int (round_half_even (x / pow2 p)) * pow2 p"
    using False by (simp add: round_double_def p_def)
  ultimately show ?thesis
    by (simp only:)
qed

lemma round_double_exact:
  "x = of_int n * pow2 q \<Longrightarrow> lsb_exponent x \<le> q \<Longrightarrow> round_double x = x"
  using round_double_grid_le [of x n q] round_double_grid_ge [of n q x] by simp

lemma round_double_nonneg: "0 \<le> x \<Longrightarrow> 0 \<le> round_double x"
  using round_double_grid_ge [of 0 "lsb_exponent x" x] by simp

lemma round_double_nonpos: "x \<le> 0 \<Longrightarrow> round_double x \<le> 0"
  using round_double_grid_le [of x 0 "lsb_exponent x"] by simp

lemma round_double_mono_pos:
  assumes "0 < x" and "x \<le> y"
  shows "round_double x \<le> round_double y"
proof -
  have x: "x \<noteq> 0" and y: "y \<noteq> 0" and xy: "\<bar>x\<bar> \<le> \<bar>y\<bar>"
    using assms by simp_all
  note bx = expo_bounds [OF x] and bnd = expo_bounds [OF y]
  have le: "lsb_exponent x \<le> lsb_exponent y"
    using x xy by (rule lsb_exponent_mono)
  show ?thesis
  proof (cases "lsb_exponent x = lsb_exponent y")
    case True
    have "x / pow2 (lsb_exponent y) \<le> y / pow2 (lsb_exponent y)"
      using assms(2) pow2_pos [of "lsb_exponent y"] by (simp add: divide_right_mono)
    then have "round_half_even (x / pow2 (lsb_exponent y)) \<le> round_half_even (y / pow2 (lsb_exponent y))"
      by (rule round_half_even_mono)
    then have "(of_int (round_half_even (x / pow2 (lsb_exponent y))) :: rat)
                 \<le> of_int (round_half_even (y / pow2 (lsb_exponent y)))"
      by (simp only: of_int_le_iff)
    then show ?thesis
      using x y True pow2_pos [of "lsb_exponent y"] by (simp add: round_double_def)
  next
    case False
    with le have lt: "lsb_exponent x < lsb_exponent y" by simp
    then have e: "expo x < expo y" "- 1022 < expo y"
      by (auto simp add: lsb_exponent_def max_def split: if_splits)
    have "x \<le> pow2 (expo x + 1)"
      using bx(2) assms(1) by simp
    also have "\<dots> \<le> pow2 (expo y)"
      using e(1) by (intro pow2_mono) simp
    finally have "x \<le> of_int 1 * pow2 (expo y)" by simp
    moreover have "lsb_exponent x \<le> expo y"
      using e by (simp add: lsb_exponent_def)
    ultimately have "round_double x \<le> of_int 1 * pow2 (expo y)"
      by (rule round_double_grid_le)
    moreover have "of_int 1 * pow2 (expo y) \<le> y"
      using bnd(1) assms by simp
    then have "of_int 1 * pow2 (expo y) \<le> round_double y"
      by (rule round_double_grid_ge) (use e(2) in \<open>simp add: lsb_exponent_def\<close>)
    ultimately show ?thesis by simp
  qed
qed

lemma round_double_error:
  assumes "pow2 (- 1022) \<le> x"
  shows "\<bar>round_double x - x\<bar> \<le> x * pow2 (- 53)"
proof -
  have x: "x \<noteq> 0" "0 < x"
    using assms pow2_pos [of "- 1022"] by simp_all
  note b = expo_bounds [OF x(1)]
  have "\<not> expo x < - 1022"
  proof
    assume "expo x < - 1022"
    then have "pow2 (expo x + 1) \<le> pow2 (- 1022)" by (intro pow2_mono) simp
    then show False using b(2) assms x(2) by simp
  qed
  then have p: "lsb_exponent x = expo x - 52"
    by (simp add: lsb_exponent_def)
  define y where "y = x / pow2 (lsb_exponent x)"
  have xy: "x = y * pow2 (lsb_exponent x)"
    using pow2_pos [of "lsb_exponent x"] by (simp add: y_def)
  define P where "P = pow2 (lsb_exponent x)"
  have P: "0 < P" unfolding P_def by (rule pow2_pos)
  have "\<bar>of_int (round_half_even y) - y\<bar> \<le> 1 / 2"
    using round_half_even_lower [of y] round_half_even_upper [of y] by linarith
  then have A: "\<bar>of_int (round_half_even y) - y\<bar> * P \<le> 1 / 2 * P"
    using P by (simp only: mult_le_cancel_right) simp
  have "round_double x = of_int (round_half_even y) * P"
    using x(1) by (simp add: round_double_def y_def P_def)
  moreover have "x = y * P"
    using xy by (simp add: P_def)
  ultimately have "round_double x - x = (of_int (round_half_even y) - y) * P"
    by (simp add: algebra_simps)
  then have "\<bar>round_double x - x\<bar> = \<bar>of_int (round_half_even y) - y\<bar> * P"
    using P by (simp add: abs_mult)
  also note A
  also have "1 / 2 * P = pow2 (expo x) * pow2 (- 53)"
    unfolding P_def p using pow2_add [of "expo x - 52" "- 1"] pow2_add [of "expo x" "- 53"]
    by (simp add: pow2_def [of "- 1"])
  also have "pow2 (expo x) * pow2 (- 53) \<le> x * pow2 (- 53)"
    using b(1) x(2) pow2_pos [of "- 53"] by (simp only: mult_le_cancel_right) simp
  finally show ?thesis .
qed

lemma round_double_eqI:
  assumes "pow2 e \<le> \<bar>x\<bar>" and "\<bar>x\<bar> < pow2 (e + 1)" and "p = max e (- 1022) - 52"
    and "\<bar>x / pow2 p - of_int m\<bar> < 1 / 2
         \<or> even m \<and> (x / pow2 p = of_int m - 1 / 2 \<or> x / pow2 p = of_int m + 1 / 2)"
  shows "round_double x = of_int m * pow2 p"
proof -
  have x: "x \<noteq> 0" using assms(1) pow2_pos [of e] by auto
  have p: "lsb_exponent x = p"
    using assms(1,2,3) by (simp add: lsb_exponent_eq)
  have "round_half_even (x / pow2 p) = m"
    using assms(4) round_half_even_near [of "x / pow2 p" m]
      round_half_even_tie_up [of "x / pow2 p" m] round_half_even_tie_down [of "x / pow2 p" m]
    by blast
  then show ?thesis
    using x by (simp add: round_double_def p)
qed

lemma expo_less: "x \<noteq> 0 \<Longrightarrow> \<bar>x\<bar> < pow2 k \<Longrightarrow> expo x < k"
proof (rule ccontr)
  assume x: "x \<noteq> 0" and k: "\<bar>x\<bar> < pow2 k" and n: "\<not> expo x < k"
  then have "pow2 k \<le> pow2 (expo x)" by (intro pow2_mono) simp
  then show False using expo_bounds(1) [OF x] k by simp
qed

lemma expo_ge: "pow2 k \<le> \<bar>x\<bar> \<Longrightarrow> k \<le> expo x"
proof (rule ccontr)
  assume k: "pow2 k \<le> \<bar>x\<bar>" and n: "\<not> k \<le> expo x"
  have x: "x \<noteq> 0" using k pow2_pos [of k] by auto
  from n have "pow2 (expo x + 1) \<le> pow2 k" by (intro pow2_mono) simp
  then show False using expo_bounds(2) [OF x] k by simp
qed

lemma round_double_normal:
  assumes "pow2 (- 1022) \<le> x"
  shows "round_double x =
           of_int (round_half_even (x / pow2 (expo x - 52))) * pow2 (expo x - 52)"
    and "pow2 (expo x - 52) \<le> round_double x * pow2 (- 52)"
    and "0 < round_double x"
proof -
  have x: "x \<noteq> 0" "0 < x" "\<bar>x\<bar> = x"
    using assms pow2_pos [of "- 1022"] by simp_all
  have "- 1022 \<le> expo x"
    using assms x(3) expo_ge [of "- 1022" x] by simp
  then have p: "lsb_exponent x = expo x - 52"
    by (simp add: lsb_exponent_def)
  show "round_double x =
           of_int (round_half_even (x / pow2 (expo x - 52))) * pow2 (expo x - 52)"
    using x(1) by (simp add: round_double_def p)
  have "of_int 1 * pow2 (expo x) \<le> x"
    using expo_bounds(1) [OF x(1)] x(3) by simp
  then have ge: "of_int 1 * pow2 (expo x) \<le> round_double x"
    by (rule round_double_grid_ge) (simp add: p)
  then show "0 < round_double x"
    using pow2_pos [of "expo x"] by simp
  have "pow2 (expo x - 52) = pow2 (expo x) * pow2 (- 52)"
    using pow2_add [of "expo x" "- 52"] by simp
  also have "\<dots> \<le> round_double x * pow2 (- 52)"
    using ge pow2_pos [of "- 52"] by (simp only: mult_le_cancel_right) simp
  finally show "pow2 (expo x - 52) \<le> round_double x * pow2 (- 52)" .
qed

lemma round_double_int:
  assumes "0 \<le> n" and "n \<le> 2 ^ 53"
  shows "round_double (of_int n) = of_int n"
proof (cases "n = 0")
  case True
  then show ?thesis by (simp add: round_double_def)
next
  case False
  have le: "(of_int n :: rat) \<le> of_int (2 ^ 53)"
    using assms(2) by (simp only: of_int_le_iff)
  show ?thesis
  proof (cases "n = 2 ^ 53")
    case True
    have "round_double (of_int (2 ^ 53)) = of_int 1 * pow2 53"
      using round_double_eqI [of 53 "of_int (2 ^ 53)" 1 "2 ^ 52"] by (simp add: pow2_def)
    then show ?thesis
      using True by (simp add: pow2_def)
  next
    case ne: False
    with assms(2) have "n < 2 ^ 53" by simp
    then have "(of_int n :: rat) < of_int (2 ^ 53)"
      by (simp only: of_int_less_iff)
    then have "\<bar>(of_int n :: rat)\<bar> < pow2 53"
      using assms(1) by (simp add: pow2_def)
    then have "expo (of_int n) < 53"
      using False by (intro expo_less) simp_all
    then have "lsb_exponent (of_int n) \<le> 0"
      by (simp add: lsb_exponent_def)
    then show ?thesis
      using round_double_exact [of "of_int n" n 0] by (simp add: pow2_def)
  qed
qed

lemma rnd_Fin:
  "- pow2 1024 < round_double x \<Longrightarrow> round_double x < pow2 1024 \<Longrightarrow> rnd x = Fin (round_double x)"
  by (simp add: rnd_def Let_def)

lemma rnd_cases:
  "rnd x = Fin (round_double x) \<or> rnd x = PInf \<and> pow2 1024 \<le> round_double x
     \<or> rnd x = NInf \<and> round_double x \<le> - pow2 1024"
  by (simp add: rnd_def Let_def)

lemma round_double_third:
  assumes "0 < T" and "T < 2 ^ 52"
  shows "round_double (4 * of_int T / 3) * (1 - pow2 (- 52) / 3) \<le> 4 * of_int T / 3"
proof -
  define x :: rat where "x = 4 * of_int T / 3"
  have "(of_int 1 :: rat) \<le> of_int T" "(of_int T :: rat) < of_int (2 ^ 52)"
    using assms by (simp_all only: of_int_le_iff of_int_less_iff)
  then have b: "1 \<le> x" "x < pow2 53"
    by (simp_all add: x_def pow2_def)
  have n: "pow2 (- 1022) \<le> x"
    using b(1) pow2_mono [of "- 1022" 0] by (simp add: pow2_def [of 0])
  define p where "p = expo x - 52"
  have "expo x < 53"
    using b by (intro expo_less) simp_all
  moreover have "0 \<le> expo x"
    using b(1) by (intro expo_ge) (simp add: pow2_def)
  ultimately have p: "p \<le> 0" "- 52 \<le> p"
    by (simp_all add: p_def)
  define M where "M = round_double x"
  note r = round_double_normal [OF n, folded p_def M_def]
  have q: "pow2 p = 1 / 2 ^ nat (- p)"
    using p(1) pow2_neg_nat [of "nat (- p)"] by simp
  define B where "B = 4 * T * 2 ^ nat (- p)"
  have eq: "x / pow2 p = of_int B / 3"
    by (simp add: q x_def B_def)
  have "of_int (round_half_even (x / pow2 p)) \<le> x / pow2 p + 1 / 3"
    unfolding eq by (rule round_half_even_third)
  then have "of_int (round_half_even (x / pow2 p)) * pow2 p \<le> (x / pow2 p + 1 / 3) * pow2 p"
    using pow2_pos [of p] by (simp only: mult_le_cancel_right) simp
  also have "\<dots> = x + pow2 p / 3"
    using pow2_pos [of p] by (simp add: algebra_simps)
  finally have "M \<le> x + pow2 p / 3"
    by (simp only: r(1))
  also have "\<dots> \<le> x + M * pow2 (- 52) / 3"
    using r(2) by simp
  finally show ?thesis
    by (simp add: algebra_simps M_def x_def)
qed

lemma round_double_fifth:
  assumes "0 < T" and "T < 2 ^ 52"
  shows "4 * of_int T / 5 \<le> round_double (4 * of_int T / 5) * (1 + 2 * pow2 (- 52) / 5)"
proof -
  define x :: rat where "x = 4 * of_int T / 5"
  have "(of_int 1 :: rat) \<le> of_int T" "(of_int T :: rat) < of_int (2 ^ 52)"
    using assms by (simp_all only: of_int_le_iff of_int_less_iff)
  then have b: "1 / 2 \<le> x" "x < pow2 53"
    by (simp_all add: x_def pow2_def)
  have n: "pow2 (- 1022) \<le> x"
    using b(1) pow2_mono [of "- 1022" "- 1"] by (simp add: pow2_def [of "- 1"])
  define p where "p = expo x - 52"
  have "expo x < 53"
    using b by (intro expo_less) simp_all
  moreover have "- 1 \<le> expo x"
    using b(1) by (intro expo_ge) (simp add: pow2_def)
  ultimately have p: "p \<le> 0" "- 53 \<le> p"
    by (simp_all add: p_def)
  define M where "M = round_double x"
  note r = round_double_normal [OF n, folded p_def M_def]
  have q: "pow2 p = 1 / 2 ^ nat (- p)"
    using p(1) pow2_neg_nat [of "nat (- p)"] by simp
  define B where "B = 4 * T * 2 ^ nat (- p)"
  have eq: "x / pow2 p = of_int B / 5"
    by (simp add: q x_def B_def)
  have "x / pow2 p - 2 / 5 \<le> of_int (round_half_even (x / pow2 p))"
    unfolding eq by (rule round_half_even_fifth)
  then have "(x / pow2 p - 2 / 5) * pow2 p \<le> of_int (round_half_even (x / pow2 p)) * pow2 p"
    using pow2_pos [of p] by (simp only: mult_le_cancel_right) simp
  moreover have "(x / pow2 p - 2 / 5) * pow2 p = x - 2 * pow2 p / 5"
    using pow2_pos [of p] by (simp add: algebra_simps)
  ultimately have "x - 2 * pow2 p / 5 \<le> M"
    by (simp only: r(1))
  moreover have "2 * pow2 p / 5 \<le> 2 * (M * pow2 (- 52)) / 5"
    using r(2) by simp
  ultimately have "x \<le> M + 2 * (M * pow2 (- 52)) / 5"
    by linarith
  then show ?thesis
    by (simp add: algebra_simps M_def x_def)
qed

lemma round_double_le_pow2:
  assumes "x \<le> pow2 k" and "- 1074 \<le> k"
  shows "round_double x \<le> pow2 k"
proof (cases "x \<le> 0")
  case True
  then show ?thesis
    using round_double_nonpos [of x] pow2_pos [of k] by simp
next
  case False
  then have x: "x \<noteq> 0" "\<bar>x\<bar> = x" by simp_all
  have "\<bar>x\<bar> < pow2 (k + 1)"
    using assms(1) pow2_strict_mono [of k "k + 1"] x(2) by simp
  then have "expo x < k + 1"
    using x(1) by (rule expo_less [rotated])
  then have "lsb_exponent x \<le> k"
    using assms(2) by (simp add: lsb_exponent_def)
  then show ?thesis
    using round_double_grid_le [of x 1 k] assms(1) by simp
qed

lemma round_double_ge_pow2:
  assumes "pow2 k \<le> x" and "- 1074 \<le> k"
  shows "pow2 k \<le> round_double x"
proof -
  have x: "x \<noteq> 0" "\<bar>x\<bar> = x"
    using assms(1) pow2_pos [of k] by simp_all
  have e: "k \<le> expo x"
    using assms(1) x(2) expo_ge [of k x] by simp
  then have "lsb_exponent x \<le> expo x"
    using assms(2) by (simp add: lsb_exponent_def)
  moreover have "of_int 1 * pow2 (expo x) \<le> x"
    using expo_bounds(1) [OF x(1)] x(2) by simp
  ultimately have "of_int 1 * pow2 (expo x) \<le> round_double x"
    by (intro round_double_grid_ge)
  then show ?thesis
    using pow2_mono [OF e] by simp
qed

lemma rnd_bounded:
  assumes "0 \<le> x" and "x \<le> pow2 k" and "k < 1024" and "- 1074 \<le> k"
  shows "rnd x = Fin (round_double x)"
proof -
  have "round_double x \<le> pow2 k"
    using assms(2,4) by (rule round_double_le_pow2)
  then have "round_double x < pow2 1024"
    using pow2_strict_mono [OF assms(3)] by simp
  moreover have "- pow2 1024 < round_double x"
    using round_double_nonneg [OF assms(1)] pow2_pos [of 1024] by simp
  ultimately show ?thesis by (rule rnd_Fin [rotated])
qed

lemma rnd_of_int:
  assumes "0 \<le> n" and "n \<le> 2 ^ 53"
  shows "rnd (of_int n) = Fin (of_int n)"
proof -
  have "(of_int n :: rat) \<le> of_int (2 ^ 53)"
    using assms(2) by (simp only: of_int_le_iff)
  then have "(of_int n :: rat) \<le> pow2 53"
    by (simp add: pow2_def)
  then have "rnd (of_int n) = Fin (round_double (of_int n))"
    using assms(1) by (intro rnd_bounded [of _ 53]) simp_all
  then show ?thesis
    using round_double_int [OF assms] by simp
qed

subsection \<open>The time ratio\<close>

text \<open>
  The quotient that \<open>validate_scope\<close> forms, for a positive total \<open>T\<close> below \<open>2 ^ 52\<close> and
  a budget of \<open>x\<close> hours. Both roundings, of the product \<open>x * 60\<close> and of the quotient, are
  followed: an exact ratio of \<open>T\<close> to \<open>x * 60\<close> within [3/4, 5/4] gives a float within
  [0.75, 1.25], an exact ratio of at most 0.7499 a float below 0.75, and one of at least
  1.2501 a float above 1.25. The first rests on the products \<open>4 * T / 3\<close> and \<open>4 * T / 5\<close>
  being thirds and fifths of an integer, which rounding moves by at most a third and two
  fifths of the last bit.
\<close>

lemma round_double_below_075: "round_double (13510798882111487 / 18014398509481984) = 3 / 4"
  using round_double_eqI [of "- 1" "13510798882111487 / 18014398509481984" "- 53" "6755399441055744"] by (simp add: pow2_def)

lemma round_double_above_125: "round_double (11258999068426241 / 9007199254740992) = 5 / 4"
  using round_double_eqI [of "0" "11258999068426241 / 9007199254740992" "- 52" "5629499534213120"] by (simp add: pow2_def)

lemma round_double_pred_075: "round_double (6755399441055743 / 9007199254740992) = 6755399441055743 / 9007199254740992"
  using round_double_eqI [of "- 1" "6755399441055743 / 9007199254740992" "- 53" "6755399441055743"] by (simp add: pow2_def)

lemma round_double_succ_125: "round_double (5629499534213121 / 4503599627370496) = 5629499534213121 / 4503599627370496"
  using round_double_eqI [of "0" "5629499534213121 / 4503599627370496" "- 52" "5629499534213121"] by (simp add: pow2_def)

lemma time_ratio_within:
  assumes T: "0 < T" "T < 2 ^ 52"
    and lo: "3 / 4 \<le> of_int T / (x * 60)" and hi: "of_int T / (x * 60) \<le> 5 / 4"
  shows "\<exists>y. truediv_int_float T (fmul (Fin x) (Fin 60)) = Inr (Fin y) \<and> 3 / 4 \<le> y \<and> y \<le> 5 / 4"
proof -
  define t :: rat where "t = of_int T"
  define z where "z = x * 60"
  have "(of_int 1 :: rat) \<le> of_int T" "(of_int T :: rat) < of_int (2 ^ 52)"
    using T by (simp_all only: of_int_le_iff of_int_less_iff)
  then have t: "1 \<le> t" "t < 2 ^ 52"
    by (simp_all add: t_def)
  have z0: "0 < z"
  proof (rule ccontr)
    assume "\<not> 0 < z"
    then have "t / z \<le> 0"
      using t(1) by (simp add: divide_le_0_iff)
    then show False using lo by (simp add: t_def z_def)
  qed
  have zb: "4 * t / 5 \<le> z" "z \<le> 4 * t / 3"
    using lo hi z0 by (simp_all add: t_def [symmetric] z_def [symmetric] field_simps)
  define M where "M = round_double (4 * t / 3)"
  define M' where "M' = round_double (4 * t / 5)"
  define m where "m = round_double z"
  have mM: "m \<le> M"
    unfolding m_def M_def using z0 zb(2) by (rule round_double_mono_pos)
  have M'm: "M' \<le> m"
    unfolding m_def M'_def using zb(1) t(1) by (intro round_double_mono_pos) simp_all
  have "pow2 (- 1) \<le> 4 * t / 5"
    using t(1) by (simp add: pow2_def)
  then have "pow2 (- 1) \<le> M'"
    unfolding M'_def by (rule round_double_ge_pow2) simp
  then have mpos: "0 < m"
    using M'm pow2_pos [of "- 1"] by linarith
  have "4 * t / 3 \<le> pow2 53"
    using t(2) by (simp add: pow2_def)
  then have "M \<le> pow2 53"
    unfolding M_def by (rule round_double_le_pow2) simp
  have "m < pow2 1024"
    using mM \<open>M \<le> pow2 53\<close> pow2_strict_mono [of 53 1024] by simp
  then have "rnd z = Fin m"
    unfolding m_def using mpos pow2_pos [of 1024] by (intro rnd_Fin) (simp_all add: m_def)
  then have fm: "fmul (Fin x) (Fin 60) = Fin m"
    by (simp add: z_def)
  have ft: "rnd (of_int T) = Fin t"
    unfolding t_def using T by (intro rnd_of_int) simp_all
  define r where "r = t / m"
  have td: "truediv_int_float T (fmul (Fin x) (Fin 60)) = Inr (rnd r)"
    unfolding fm using ft mpos by (simp add: truediv_int_float_def r_def)
  have rpos: "0 < r"
    using t(1) mpos by (simp add: r_def)
  have "m * (1 - pow2 (- 52) / 3) \<le> M * (1 - pow2 (- 52) / 3)"
    using mM by (intro mult_right_mono) (simp_all add: pow2_def)
  also have "\<dots> \<le> 4 * t / 3"
    unfolding M_def t_def using T by (rule round_double_third)
  finally have "(3 / 4 - pow2 (- 54)) * m \<le> t"
    by (simp add: pow2_def algebra_simps)
  then have lo_r: "13510798882111487 / 18014398509481984 \<le> r"
    using mpos by (simp add: r_def pos_le_divide_eq pow2_def)
  have "4 * t / 5 \<le> M' * (1 + 2 * pow2 (- 52) / 5)"
    unfolding M'_def t_def using T by (rule round_double_fifth)
  also have "\<dots> \<le> m * (1 + 2 * pow2 (- 52) / 5)"
    using M'm by (intro mult_right_mono) (simp_all add: pow2_def)
  finally have "t \<le> (5 / 4 + pow2 (- 53)) * m"
    by (simp add: pow2_def algebra_simps)
  then have hi_r: "r \<le> 11258999068426241 / 9007199254740992"
    using mpos by (simp add: r_def pos_divide_le_eq pow2_def)
  have "round_double (13510798882111487 / 18014398509481984) \<le> round_double r"
    using lo_r by (intro round_double_mono_pos) simp_all
  then have a: "3 / 4 \<le> round_double r"
    by (simp only: round_double_below_075)
  have "round_double r \<le> round_double (11258999068426241 / 9007199254740992)"
    using rpos hi_r by (rule round_double_mono_pos)
  then have b: "round_double r \<le> 5 / 4"
    by (simp only: round_double_above_125)
  have "rnd r = Fin (round_double r)"
    using a b pow2_pos [of 1024] pow2_mono [of 1 1024]
    by (intro rnd_Fin) (simp_all add: pow2_def [of 1])
  with td a b show ?thesis by simp
qed

lemma time_ratio_below:
  assumes T: "0 < T" "T < 2 ^ 52" and x: "0 < x"
    and q: "of_int T / (x * 60) \<le> 7499 / 10000"
    and d: "truediv_int_float T (fmul (Fin x) (Fin 60)) = Inr ratio"
  shows "\<not> fle (Fin (3 / 4)) ratio"
proof -
  define t :: rat where "t = of_int T"
  define z where "z = x * 60"
  have "(of_int 1 :: rat) \<le> of_int T"
    using T by (simp only: of_int_le_iff)
  then have t: "1 \<le> t"
    by (simp add: t_def)
  have z0: "0 < z" using x by (simp add: z_def)
  have tz: "t \<le> 7499 / 10000 * z"
    using q z0 by (simp add: t_def [symmetric] z_def [symmetric] field_simps)
  have ft: "rnd (of_int T) = Fin t"
    unfolding t_def using T by (intro rnd_of_int) simp_all
  define m where "m = round_double z"
  have n: "pow2 (- 1022) \<le> z"
    using tz t pow2_mono [of "- 1022" 0] by (simp add: pow2_def [of 0])
  have "\<bar>m - z\<bar> \<le> z * pow2 (- 53)"
    unfolding m_def using n by (rule round_double_error)
  then have mz: "z * (1 - pow2 (- 53)) \<le> m"
    by (simp add: algebra_simps abs_le_iff)
  have mpos: "0 < m"
    unfolding m_def using n by (rule round_double_normal(3))
  consider "rnd z = Fin m" | "rnd z = PInf" | "rnd z = NInf"
    using rnd_cases [of z] by (auto simp: m_def)
  then show ?thesis
  proof cases
    case 1
    then have fm: "fmul (Fin x) (Fin 60) = Fin m"
      by (simp add: z_def)
    define r where "r = t / m"
    have ratio: "ratio = rnd r"
      using d unfolding fm using ft mpos by (simp add: truediv_int_float_def r_def)
    have rpos: "0 < r"
      using t mpos by (simp add: r_def)
    have "t \<le> 7499 / 10000 * z" by (rule tz)
    also have "\<dots> \<le> 6755399441055743 / 9007199254740992 * (z * (1 - pow2 (- 53)))"
      using z0 by (simp add: pow2_def)
    also have "\<dots> \<le> 6755399441055743 / 9007199254740992 * m"
      using mz by (intro mult_left_mono) simp_all
    finally have "r \<le> 6755399441055743 / 9007199254740992"
      using mpos by (simp add: r_def pos_divide_le_eq)
    with rpos have "round_double r \<le> round_double (6755399441055743 / 9007199254740992)"
      by (rule round_double_mono_pos)
    then have b: "round_double r \<le> 6755399441055743 / 9007199254740992"
      by (simp only: round_double_pred_075)
    have "0 \<le> round_double r"
      using rpos by (intro round_double_nonneg) simp
    then have "rnd r = Fin (round_double r)"
      using b pow2_pos [of 1024] pow2_mono [of 0 1024]
      by (intro rnd_Fin) (simp_all add: pow2_def [of 0])
    then show ?thesis
      using b by (simp add: ratio)
  next
    case 2
    then have "fmul (Fin x) (Fin 60) = PInf"
      by (simp add: z_def)
    with d ft show ?thesis
      by (auto simp: truediv_int_float_def)
  next
    case 3
    then have "fmul (Fin x) (Fin 60) = NInf"
      by (simp add: z_def)
    with d ft show ?thesis
      by (auto simp: truediv_int_float_def)
  qed
qed

lemma time_ratio_above:
  assumes T: "0 < T" "T < 2 ^ 52" and x: "0 < x"
    and q: "12501 / 10000 \<le> of_int T / (x * 60)"
    and d: "truediv_int_float T (fmul (Fin x) (Fin 60)) = Inr ratio"
  shows "\<not> fle ratio (Fin (5 / 4))"
proof -
  define t :: rat where "t = of_int T"
  define z where "z = x * 60"
  have "(of_int 1 :: rat) \<le> of_int T" "(of_int T :: rat) < of_int (2 ^ 52)"
    using T by (simp_all only: of_int_le_iff of_int_less_iff)
  then have t: "1 \<le> t" "t < 2 ^ 52"
    by (simp_all add: t_def)
  have z0: "0 < z" using x by (simp add: z_def)
  have tz: "12501 / 10000 * z \<le> t"
    using q z0 by (simp add: t_def [symmetric] z_def [symmetric] field_simps)
  have ft: "rnd (of_int T) = Fin t"
    unfolding t_def using T by (intro rnd_of_int) simp_all
  define m where "m = round_double z"
  have "z \<le> pow2 52"
    using tz t(2) z0 by (simp add: pow2_def)
  then have "rnd z = Fin m"
    unfolding m_def using z0 by (intro rnd_bounded [of _ 52]) simp_all
  then have fm: "fmul (Fin x) (Fin 60) = Fin m"
    by (simp add: z_def)
  have m0: "0 \<le> m"
    unfolding m_def using z0 by (intro round_double_nonneg) simp
  have mne: "m \<noteq> 0"
    using d unfolding fm using ft by (auto simp: truediv_int_float_def)
  with m0 have mpos: "0 < m" by simp
  define r where "r = t / m"
  have ratio: "ratio = rnd r"
    using d unfolding fm using ft mpos by (simp add: truediv_int_float_def r_def)
  have cm: "5629499534213121 / 4503599627370496 * m \<le> t"
  proof (cases "pow2 (- 1022) \<le> z")
    case True
    then have "\<bar>m - z\<bar> \<le> z * pow2 (- 53)"
      unfolding m_def by (rule round_double_error)
    then have "m \<le> z * (1 + pow2 (- 53))"
      by (simp add: algebra_simps abs_le_iff)
    then have "5629499534213121 / 4503599627370496 * m
                 \<le> 5629499534213121 / 4503599627370496 * (z * (1 + pow2 (- 53)))"
      by (intro mult_left_mono) simp_all
    also have "\<dots> \<le> 12501 / 10000 * z"
      using z0 by (simp add: pow2_def)
    finally show ?thesis using tz by simp
  next
    case False
    then have "m \<le> pow2 (- 1022)"
      unfolding m_def by (intro round_double_le_pow2) simp_all
    also have "\<dots> \<le> pow2 (- 1)"
      by (intro pow2_mono) simp
    finally have "m \<le> 1 / 2"
      by (simp add: pow2_def)
    then show ?thesis using t(1) by simp
  qed
  then have "5629499534213121 / 4503599627370496 \<le> r"
    using mpos by (simp add: r_def pos_le_divide_eq)
  then have "round_double (5629499534213121 / 4503599627370496) \<le> round_double r"
    by (intro round_double_mono_pos) simp_all
  then have b: "5629499534213121 / 4503599627370496 \<le> round_double r"
    by (simp only: round_double_succ_125)
  consider "rnd r = Fin (round_double r)" | "rnd r = PInf"
    | "rnd r = NInf" "round_double r \<le> - pow2 1024"
    using rnd_cases [of r] by auto
  then show ?thesis
  proof cases
    case 1
    then show ?thesis using b by (simp add: ratio)
  next
    case 2
    then show ?thesis by (simp add: ratio)
  next
    case 3
    then show ?thesis using b pow2_pos [of 1024] by simp
  qed
qed

lemma time_ratio_total:
  assumes "2 \<le> x" and "x \<le> 8" and "0 \<le> T" and "T \<le> 2 ^ 1023"
  shows "\<exists>ratio. truediv_int_float T (fmul (Fin x) (Fin 60)) = Inr ratio"
proof -
  have "pow2 6 \<le> x * 60" "x * 60 \<le> pow2 9"
    using assms(1,2) by (simp_all add: pow2_def)
  then have m: "pow2 6 \<le> round_double (x * 60)" "rnd (x * 60) = Fin (round_double (x * 60))"
    using assms(1) by (simp_all add: round_double_ge_pow2 rnd_bounded [of _ 9])
  then have m0: "round_double (x * 60) \<noteq> 0"
    using pow2_pos [of 6] by simp
  have "(of_int T :: rat) \<le> of_int (2 ^ 1023)"
    using assms(4) by (simp only: of_int_le_iff)
  then have "(of_int T :: rat) \<le> pow2 1023"
    by (simp add: pow2_def)
  then have "rnd (of_int T) = Fin (round_double (of_int T))"
    using assms(3) by (intro rnd_bounded [of _ 1023]) simp_all
  then show ?thesis
    using m(2) m0 by (simp add: truediv_int_float_def)
qed

lemma truediv_int_int_total:
  assumes "0 \<le> a" and "a \<le> b" and "0 < b"
  shows "\<exists>q. truediv_int_int a b = Inr (Fin q)"
proof -
  have "(of_int a :: rat) \<le> of_int b" "(0 :: rat) \<le> of_int a" "(0 :: rat) < of_int b"
    using assms by (simp_all only: of_int_le_iff of_int_0_le_iff of_int_0_less_iff)
  then have "0 \<le> (of_int a / of_int b :: rat)" "(of_int a / of_int b :: rat) \<le> pow2 0"
    by (simp_all add: pow2_def)
  then have "rnd (of_int a / of_int b) = Fin (round_double (of_int a / of_int b))"
    by (intro rnd_bounded [of _ 0]) simp_all
  then show ?thesis
    using assms(3) by (simp add: truediv_int_int_def)
qed
subsection \<open>Values\<close>

text \<open>
  The doubles that the literals of the source denote, and the roundings met when the
  functions are evaluated on the example inputs. Each is obtained from
  \<open>round_double_eqI\<close> with the exponent of the argument.
\<close>

lemma rnd_zero: "rnd 0 = Fin 0"
  by (simp add: rnd_def round_double_def pow2_def)

lemma rnd_one: "rnd 1 = Fin 1"
  using rnd_of_int [of 1] by simp

lemma rnd_numeral: "(numeral k :: int) \<le> 2 ^ 53 \<Longrightarrow> rnd (numeral k) = Fin (numeral k)"
  using rnd_of_int [of "numeral k"] by simp

lemma rnd_quarter: "rnd (1 / 4) = Fin (1 / 4)"
  using round_double_eqI [of "- 2" "1 / 4" "- 54" "4503599627370496"] by (simp add: pow2_def rnd_def)

lemma rnd_half: "rnd (1 / 2) = Fin (1 / 2)"
  using round_double_eqI [of "- 1" "1 / 2" "- 53" "4503599627370496"] by (simp add: pow2_def rnd_def)

lemma rnd_three_quarters: "rnd (3 / 4) = Fin (3 / 4)"
  using round_double_eqI [of "- 1" "3 / 4" "- 53" "6755399441055744"] by (simp add: pow2_def rnd_def)

lemma rnd_five_quarters: "rnd (5 / 4) = Fin (5 / 4)"
  using round_double_eqI [of "0" "5 / 4" "- 52" "5629499534213120"] by (simp add: pow2_def rnd_def)

lemma rnd_seven_eighths: "rnd (7 / 8) = Fin (7 / 8)"
  using round_double_eqI [of "- 1" "7 / 8" "- 53" "7881299347898368"] by (simp add: pow2_def rnd_def)

lemma rnd_31_32: "rnd (31 / 32) = Fin (31 / 32)"
  using round_double_eqI [of "- 1" "31 / 32" "- 53" "8725724278030336"] by (simp add: pow2_def rnd_def)

lemma rnd_1_32: "rnd (1 / 32) = Fin (1 / 32)"
  using round_double_eqI [of "- 5" "1 / 32" "- 57" "4503599627370496"] by (simp add: pow2_def rnd_def)

lemma rnd_15_32: "rnd (15 / 32) = Fin (15 / 32)"
  using round_double_eqI [of "- 2" "15 / 32" "- 54" "8444249301319680"] by (simp add: pow2_def rnd_def)

lemma rnd_neg_quarter: "rnd (- (1 / 4)) = Fin (- (1 / 4))"
  using round_double_eqI [of "- 2" "- (1 / 4)" "- 54" "- 4503599627370496"] by (simp add: pow2_def rnd_def)

lemma rnd_neg_half: "rnd (- (1 / 2)) = Fin (- (1 / 2))"
  using round_double_eqI [of "- 1" "- (1 / 2)" "- 53" "- 4503599627370496"] by (simp add: pow2_def rnd_def)

lemma rnd_0_01: "rnd (1 / 100) = Fin (5764607523034235 / 576460752303423488)"
  using round_double_eqI [of "- 7" "1 / 100" "- 59" "5764607523034235"] by (simp add: pow2_def rnd_def)

lemma rnd_0_05: "rnd (1 / 20) = Fin (3602879701896397 / 72057594037927936)"
  using round_double_eqI [of "- 5" "1 / 20" "- 57" "7205759403792794"] by (simp add: pow2_def rnd_def)

lemma rnd_0_7499: "rnd (7499 / 10000) = Fin (3377249360565135 / 4503599627370496)"
  using round_double_eqI [of "- 1" "7499 / 10000" "- 53" "6754498721130270"] by (simp add: pow2_def rnd_def)

lemma rnd_1_2501: "rnd (12501 / 10000) = Fin (5629949894175857 / 4503599627370496)"
  using round_double_eqI [of "0" "12501 / 10000" "- 52" "5629949894175857"] by (simp add: pow2_def rnd_def)

lemma rnd_5_12: "rnd (5 / 12) = Fin (7505999378950827 / 18014398509481984)"
  using round_double_eqI [of "- 2" "5 / 12" "- 54" "7505999378950827"] by (simp add: pow2_def rnd_def)

lemma rnd_0_33: "rnd (33 / 100) = Fin (5944751508129055 / 18014398509481984)"
  using round_double_eqI [of "- 2" "33 / 100" "- 54" "5944751508129055"] by (simp add: pow2_def rnd_def)

lemma rnd_w33: "rnd (5944751508129055 / 18014398509481984) = Fin (5944751508129055 / 18014398509481984)"
  using round_double_eqI [of "- 2" "5944751508129055 / 18014398509481984" "- 54" "5944751508129055"] by (simp add: pow2_def rnd_def)

lemma rnd_w66: "rnd (5944751508129055 / 9007199254740992) = Fin (5944751508129055 / 9007199254740992)"
  using round_double_eqI [of "- 1" "5944751508129055 / 9007199254740992" "- 53" "5944751508129055"] by (simp add: pow2_def rnd_def)

lemma rnd_w99: "rnd (17834254524387165 / 18014398509481984) = Fin (4458563631096791 / 4503599627370496)"
  using round_double_eqI [of "- 1" "17834254524387165 / 18014398509481984" "- 53" "8917127262193582"] by (simp add: pow2_def rnd_def)

lemma rnd_w99_minus_1: "rnd (- (45035996273705 / 4503599627370496)) = Fin (- (45035996273705 / 4503599627370496))"
  using round_double_eqI [of "- 7" "- (45035996273705 / 4503599627370496)" "- 59" "- 5764607523034240"] by (simp add: pow2_def rnd_def)

lemma rnd_cs_1: "rnd (- (5944751508129055 / 18014398509481984)) = Fin (- (5944751508129055 / 18014398509481984))"
  using round_double_eqI [of "- 2" "- (5944751508129055 / 18014398509481984)" "- 54" "- 5944751508129055"] by (simp add: pow2_def rnd_def)

lemma rnd_cs_2: "rnd (- (2972375754064527 / 9007199254740992)) = Fin (- (2972375754064527 / 9007199254740992))"
  using round_double_eqI [of "- 2" "- (2972375754064527 / 9007199254740992)" "- 54" "- 5944751508129054"] by (simp add: pow2_def rnd_def)

lemma rnd_cs_3: "rnd (1 / 18014398509481984) = Fin (1 / 18014398509481984)"
  using round_double_eqI [of "- 54" "1 / 18014398509481984" "- 106" "4503599627370496"] by (simp add: pow2_def rnd_def)

lemma rnd_2_2: "rnd (11 / 5) = Fin (2476979795053773 / 1125899906842624)"
  using round_double_eqI [of "1" "11 / 5" "- 51" "4953959590107546"] by (simp add: pow2_def rnd_def)

lemma rnd_2_4: "rnd (12 / 5) = Fin (5404319552844595 / 2251799813685248)"
  using round_double_eqI [of "1" "12 / 5" "- 51" "5404319552844595"] by (simp add: pow2_def rnd_def)

lemma rnd_h22: "rnd (2476979795053773 / 1125899906842624) = Fin (2476979795053773 / 1125899906842624)"
  using round_double_eqI [of "1" "2476979795053773 / 1125899906842624" "- 51" "4953959590107546"] by (simp add: pow2_def rnd_def)

lemma rnd_h24: "rnd (5404319552844595 / 2251799813685248) = Fin (5404319552844595 / 2251799813685248)"
  using round_double_eqI [of "1" "5404319552844595 / 2251799813685248" "- 51" "5404319552844595"] by (simp add: pow2_def rnd_def)

lemma rnd_h22_times_60: "rnd (37154696925806595 / 281474976710656) = Fin (132)"
  using round_double_eqI [of "7" "37154696925806595 / 281474976710656" "- 45" "4644337115725824"] by (simp add: pow2_def rnd_def)

lemma rnd_h24_times_60: "rnd (81064793292668925 / 562949953421312) = Fin (144)"
  using round_double_eqI [of "7" "81064793292668925 / 562949953421312" "- 45" "5066549580791808"] by (simp add: pow2_def rnd_def)

lemma rnd_budget_a: "rnd (2252100093697741 / 1125899906842624) = Fin (2252100093697741 / 1125899906842624)"
  using round_double_eqI [of "1" "2252100093697741 / 1125899906842624" "- 51" "4504200187395482"] by (simp add: pow2_def rnd_def)

lemma rnd_budget_b: "rnd (4563282559797319 / 2251799813685248) = Fin (4563282559797319 / 2251799813685248)"
  using round_double_eqI [of "1" "4563282559797319 / 2251799813685248" "- 51" "4563282559797319"] by (simp add: pow2_def rnd_def)

lemma rnd_budget_a_times_60: "rnd (33781501405466115 / 281474976710656) = Fin (8445375351366529 / 70368744177664)"
  using round_double_eqI [of "6" "33781501405466115 / 281474976710656" "- 46" "8445375351366529"] by (simp add: pow2_def rnd_def)

lemma rnd_budget_b_times_60: "rnd (68449238396959785 / 562949953421312) = Fin (8556154799619973 / 70368744177664)"
  using round_double_eqI [of "6" "68449238396959785 / 562949953421312" "- 46" "8556154799619973"] by (simp add: pow2_def rnd_def)

lemma rnd_ratio_a: "rnd (6333186975989760 / 8445375351366529) = Fin (3377249360565135 / 4503599627370496)"
  using round_double_eqI [of "- 1" "6333186975989760 / 8445375351366529" "- 53" "6754498721130270"] by (simp add: pow2_def rnd_def)

lemma rnd_ratio_b: "rnd (10696049115004928 / 8556154799619973) = Fin (5629949894175857 / 4503599627370496)"
  using round_double_eqI [of "0" "10696049115004928 / 8556154799619973" "- 52" "5629949894175857"] by (simp add: pow2_def rnd_def)

lemma rnd_share: "rnd (1152921504606846976 / 2305843009213693953) = Fin (1 / 2)"
  using round_double_eqI [of "- 2" "1152921504606846976 / 2305843009213693953" "- 54" "9007199254740992"] by (simp add: pow2_def rnd_def)

lemma rnd_large_total: "rnd (405323966463344730) = Fin (405323966463344704)"
  using round_double_eqI [of "58" "405323966463344730" "6" "6333186975989761"] by (simp add: pow2_def rnd_def)

lemma rnd_large_minutes: "rnd (540431955284459640) = Fin (540431955284459648)"
  using round_double_eqI [of "58" "540431955284459640" "6" "8444249301319682"] by (simp add: pow2_def rnd_def)

lemma rnd_large_budget: "rnd (9007199254740994) = Fin (9007199254740994)"
  using round_double_eqI [of "53" "9007199254740994" "1" "4503599627370497"] by (simp add: pow2_def rnd_def)

lemma rnd_large_ratio: "rnd (6333186975989761 / 8444249301319682) = Fin (6755399441055743 / 9007199254740992)"
  using round_double_eqI [of "- 1" "6333186975989761 / 8444249301319682" "- 53" "6755399441055743"] by (simp add: pow2_def rnd_def)

lemmas rnd_values =
  rnd_zero rnd_one rnd_numeral rnd_quarter rnd_half
  rnd_three_quarters rnd_five_quarters rnd_seven_eighths rnd_31_32 rnd_1_32
  rnd_15_32 rnd_neg_quarter rnd_neg_half rnd_0_01 rnd_0_05
  rnd_0_7499 rnd_1_2501 rnd_5_12 rnd_0_33 rnd_w33
  rnd_w66 rnd_w99 rnd_w99_minus_1 rnd_cs_1 rnd_cs_2
  rnd_cs_3 rnd_2_2 rnd_2_4 rnd_h22 rnd_h24
  rnd_h22_times_60 rnd_h24_times_60 rnd_budget_a rnd_budget_b rnd_budget_a_times_60
  rnd_budget_b_times_60 rnd_ratio_a rnd_ratio_b rnd_share rnd_large_total
  rnd_large_minutes rnd_large_budget rnd_large_ratio

lemma py_float_values:
  "py_float (3 / 4) = Fin (3 / 4)" "py_float (5 / 4) = Fin (5 / 4)" "py_float 1 = Fin 1"
  "py_float (1 / 2) = Fin (1 / 2)"
  "py_float (1 / 100) = Fin (5764607523034235 / 576460752303423488)"
  "py_float (1 / 20) = Fin (3602879701896397 / 72057594037927936)"
  by (simp_all add: py_float_def rnd_values)
section \<open>Auxiliary facts\<close>

subsection \<open>Totals and the example scope\<close>

text \<open>
  The total that the source sums over \<open>all_requirements\<close> is the total requirement minutes
  of the specification. The example scope has a business context of 250 capital letters,
  which contains none of the generic terms.
\<close>

lemma total_time_all_requirements:
  "total_time_of (all_requirements scope) = total_requirement_minutes scope"
  by (simp add: total_time_of_def all_requirements_def total_requirement_minutes_def)

lemma ex_req_minutes: "map (estimated_time_minutes \<circ> ex_req) ms = ms"
  by (induction ms) (simp_all add: ex_req_def)

lemma ex_scope_total: "total_requirement_minutes (ex_scope mh nh) = sum_list mh + sum_list nh"
  by (simp add: total_requirement_minutes_def ex_scope_def ex_req_minutes)

lemma ex_scope_count: "length (must_have (ex_scope mh nh)) = length mh"
  by (simp add: ex_scope_def)

lemma ex_scope_context: "length (business_context (ex_scope mh nh)) = 250"
  by (simp add: ex_scope_def)

lemma contains_head: "p \<notin> set s \<Longrightarrow> contains s (p # ps) = False"
  by (induction s) auto

lemma lower_char_A: "py_lower_char (CHR ''A'') = CHR ''a''"
  by code_simp

lemma ex_context_lower: "lower (replicate n (CHR ''A'')) = replicate n (CHR ''a'')"
  by (simp add: lower_def lower_char_A)

lemma ex_context_not_generic:
  "find (\<lambda>term. contains (lower (replicate 250 (CHR ''A''))) term) generic_terms = None"
  by (simp add: ex_context_lower generic_terms_def contains_head)

lemma ex_scope_must_have_time: "total_time_of (must_have (ex_scope mh nh)) = sum_list mh"
  by (simp add: total_time_of_def ex_scope_def ex_req_minutes)

lemma ex_scope_nice_count: "length (nice_to_have (ex_scope mh nh)) = length nh"
  by (simp add: ex_scope_def)

lemma ex_scope_validate:
  "truediv_int_float (sum_list mh + sum_list nh) (fmul hours (Fin 60)) = Inr ratio \<Longrightarrow>
   validate_scope (ex_scope mh nh) hours =
     Inr \<lparr>passed = (fle (Fin (3 / 4)) ratio \<and> fle ratio (Fin (5 / 4)) \<and> 3 \<le> length mh),
          issues = (if fle (Fin (3 / 4)) ratio \<and> fle ratio (Fin (5 / 4)) then []
                    else [TimeMismatch (sum_list mh + sum_list nh) (fmul hours (Fin 60)) ratio]) @
                   (if length mh < 3 then [TooFewMustHave (length mh)] else []),
          warnings = (if length mh > 7 then [ManyMustHave (length mh)] else []) @ [FewConstraints 1]\<rparr>"
  using ex_context_not_generic
  by (simp add: validate_scope_def Let_def total_time_all_requirements ex_scope_total
        ex_scope_count ex_scope_context py_float_values)
     (simp add: ex_scope_def)

text \<open>
  The time ratios of the example scopes: the total, the budget in hours, and the float
  that the division returns. A budget of 2.2 hours is the double nearest to 2.2, whose
  product with 60 rounds to 132; the exact ratio of 99 minutes to it is below 3/4, the
  computed one is 0.75.
\<close>

lemma ex_time_ratios:
  "truediv_int_float 240 (fmul (Fin 4) (Fin 60)) = Inr (Fin 1)"
  "truediv_int_float 60 (fmul (Fin 4) (Fin 60)) = Inr (Fin (1 / 4))"
  "truediv_int_float 180 (fmul (Fin 4) (Fin 60)) = Inr (Fin (3 / 4))"
  "truediv_int_float 300 (fmul (Fin 4) (Fin 60)) = Inr (Fin (5 / 4))"
  "truediv_int_float 22497 (fmul (Fin 500) (Fin 60)) = Inr (py_float (7499 / 10000))"
  "truediv_int_float 37503 (fmul (Fin 500) (Fin 60)) = Inr (py_float (12501 / 10000))"
  "truediv_int_float 99 (fmul (Fin (2476979795053773 / 1125899906842624)) (Fin 60)) = Inr (Fin (3 / 4))"
  "truediv_int_float 180 (fmul (Fin (5404319552844595 / 2251799813685248)) (Fin 60)) = Inr (Fin (5 / 4))"
  "truediv_int_float 90 (fmul (Fin (2252100093697741 / 1125899906842624)) (Fin 60)) =
     Inr (py_float (7499 / 10000))"
  "truediv_int_float 152 (fmul (Fin (4563282559797319 / 2251799813685248)) (Fin 60)) =
     Inr (py_float (12501 / 10000))"
  by (simp_all add: truediv_int_float_def py_float_def rnd_values)

subsection \<open>Seniority heuristic and scope validation\<close>

lemma check_seniority_match_spec:
  "check_seniority_match scope level =
     seniority_match_spec level (length (must_have scope)) (total_requirement_minutes scope)"
  by (simp add: check_seniority_match_def seniority_match_spec_def seniority_ranges_def
        total_time_all_requirements Let_def)

lemma count_seniority_warning:
  "generate_scope_warnings scope level hours = Inr ws \<Longrightarrow>
     count_list ws (SeniorityMismatch level) = (if check_seniority_match scope level then 0 else 1)"
  by (auto simp: generate_scope_warnings_def Let_def split: if_splits sum.splits)

lemma total_time_of_nonneg:
  "\<forall>req\<in>set reqs. 0 < estimated_time_minutes req \<Longrightarrow> 0 \<le> total_time_of reqs"
  by (induction reqs) (auto simp: total_time_of_def)

lemma generate_scope_warnings_returns:
  assumes "\<forall>req\<in>set (all_requirements scope). 0 < estimated_time_minutes req"
  shows "\<exists>ws. generate_scope_warnings scope level hours = Inr ws"
proof (cases "0 < total_time_of (all_requirements scope)")
  case True
  have m: "0 \<le> total_time_of (must_have scope)" and n: "0 \<le> total_time_of (nice_to_have scope)"
    using assms by (auto intro!: total_time_of_nonneg simp: all_requirements_def)
  have "total_time_of (all_requirements scope) =
          total_time_of (must_have scope) + total_time_of (nice_to_have scope)"
    by (simp add: total_time_of_def all_requirements_def)
  with n have "total_time_of (must_have scope) \<le> total_time_of (all_requirements scope)"
    by simp
  from truediv_int_int_total [OF m this True] obtain q where
    "truediv_int_int (total_time_of (must_have scope)) (total_time_of (all_requirements scope))
       = Inr (Fin q)" ..
  then show ?thesis
    using True by (simp add: generate_scope_warnings_def Let_def)
next
  case False
  then show ?thesis
    by (simp add: generate_scope_warnings_def Let_def)
qed

lemma validate_scope_issue_kinds:
  assumes "validate_scope scope hours = Inr r" and "m \<in> set (issues r)"
  shows "(\<exists>t e x. m = TimeMismatch t e x) \<or> (\<exists>n. m = BusinessContextTooBrief n)
         \<or> (\<exists>n. m = TooFewMustHave n)"
  using assms
  by (auto simp: validate_scope_def Let_def split: if_splits sum.splits)

lemma validate_scope_phase_Inr:
  assumes "validate_scope_phase scope input_data = Inr v"
  shows "\<exists>r ws. validate_scope scope (Fin (time_budget_hours input_data)) = Inr r
           \<and> generate_scope_warnings scope (seniority_level input_data)
                (Fin (time_budget_hours input_data)) = Inr ws
           \<and> passed_sv v = passed r \<and> issues_sv v = issues r
           \<and> warnings_sv v = warnings r @ ws"
  using assms
  by (auto simp: validate_scope_phase_def Let_def split: sum.splits)

text \<open>
  \<open>validate_scope\<close> returns a result exactly when the division of the total by the expected
  minutes returns a float; it raises what the division raises.
\<close>

lemma validate_scope_returns:
  "truediv_int_float (total_requirement_minutes scope) (fmul hours (Fin 60)) = Inr ratio \<Longrightarrow>
     \<exists>r. validate_scope scope hours = Inr r"
  by (simp add: validate_scope_def Let_def total_time_all_requirements)

lemma validate_scope_ratio:
  "validate_scope scope hours = Inr r \<Longrightarrow>
     \<exists>ratio. truediv_int_float (total_requirement_minutes scope) (fmul hours (Fin 60)) = Inr ratio"
  by (auto simp: validate_scope_def Let_def total_time_all_requirements split: sum.splits)

lemma validate_scope_raises:
  "validate_scope scope hours = Inl e \<longleftrightarrow>
     truediv_int_float (total_requirement_minutes scope) (fmul hours (Fin 60)) = Inl e"
  by (auto simp: validate_scope_def Let_def total_time_all_requirements split: sum.splits)

lemma validate_scope_issues:
  assumes "validate_scope scope hours = Inr r"
      and "truediv_int_float (total_requirement_minutes scope) (fmul hours (Fin 60)) = Inr ratio"
  shows "issues r =
     (if fle (Fin (3 / 4)) ratio \<and> fle ratio (Fin (5 / 4)) then []
      else [TimeMismatch (total_requirement_minutes scope) (fmul hours (Fin 60)) ratio]) @
     (if length (business_context scope) < 100
      then [BusinessContextTooBrief (length (business_context scope))] else []) @
     (if length (must_have scope) < 3 then [TooFewMustHave (length (must_have scope))] else [])"
  using assms
  by (auto simp: validate_scope_def Let_def total_time_all_requirements py_float_values
      split: if_splits)

lemma validate_scope_passed:
  "validate_scope scope hours = Inr r \<Longrightarrow> passed r = (issues r = [])"
  by (auto simp: validate_scope_def Let_def split: sum.splits)

lemma validate_scope_time_mismatch:
  assumes "validate_scope scope hours = Inr r"
      and "truediv_int_float (total_requirement_minutes scope) (fmul hours (Fin 60)) = Inr ratio"
  shows "(\<exists>t e x. TimeMismatch t e x \<in> set (issues r)) \<longleftrightarrow>
           \<not> (fle (Fin (3 / 4)) ratio \<and> fle ratio (Fin (5 / 4)))"
    and "\<not> (fle (Fin (3 / 4)) ratio \<and> fle ratio (Fin (5 / 4))) \<Longrightarrow>
         TimeMismatch (total_requirement_minutes scope) (fmul hours (Fin 60)) ratio \<in> set (issues r)"
  unfolding validate_scope_issues [OF assms] by auto

subsection \<open>Model validation of a time breakdown\<close>

text \<open>
  \<open>TimeBreakdown_init\<close> accepts exactly the keyword arguments whose six minute values are
  given and within their bounds and whose flag is given; the flag of the model is then the
  recomputed one.
\<close>

lemma field_gt0_Some: "field_gt0 a = Some n \<longleftrightarrow> a = Given n \<and> 0 < n"
  by (auto simp: field_gt0_def split: arg.splits)

lemma field_ge0_Some: "field_ge0 a = Some n \<longleftrightarrow> a = Given n \<and> 0 \<le> n"
  by (auto simp: field_ge0_def split: arg.splits)

lemma required_Some: "required a = Some v \<longleftrightarrow> a = Given v"
  by (auto simp: required_def split: arg.splits)

lemma info_data_lookup:
  "data_get [(''total_minutes'', t), (''setup_minutes'', s), (''core_implementation_minutes'', c),
             (''testing_minutes'', te), (''documentation_minutes'', d), (''buffer_minutes'', b)]
     ''total_minutes'' 0 = t"
  "data_get [(''total_minutes'', t), (''setup_minutes'', s), (''core_implementation_minutes'', c),
             (''testing_minutes'', te), (''documentation_minutes'', d), (''buffer_minutes'', b)]
     ''setup_minutes'' 0 = s"
  "data_get [(''total_minutes'', t), (''setup_minutes'', s), (''core_implementation_minutes'', c),
             (''testing_minutes'', te), (''documentation_minutes'', d), (''buffer_minutes'', b)]
     ''core_implementation_minutes'' 0 = c"
  "data_get [(''total_minutes'', t), (''setup_minutes'', s), (''core_implementation_minutes'', c),
             (''testing_minutes'', te), (''documentation_minutes'', d), (''buffer_minutes'', b)]
     ''testing_minutes'' 0 = te"
  "data_get [(''total_minutes'', t), (''setup_minutes'', s), (''core_implementation_minutes'', c),
             (''testing_minutes'', te), (''documentation_minutes'', d), (''buffer_minutes'', b)]
     ''documentation_minutes'' 0 = d"
  "data_get [(''total_minutes'', t), (''setup_minutes'', s), (''core_implementation_minutes'', c),
             (''testing_minutes'', te), (''documentation_minutes'', d), (''buffer_minutes'', b)]
     ''buffer_minutes'' 0 = b"
  by (simp_all add: data_get_def)

lemma TimeBreakdown_init_eq_Some:
  "TimeBreakdown_init kw = Some tb \<longleftrightarrow>
     (\<exists>b. total_minutes_kw kw = Given (total_minutes tb) \<and> 0 < total_minutes tb
        \<and> setup_minutes_kw kw = Given (setup_minutes tb) \<and> 0 \<le> setup_minutes tb
        \<and> core_implementation_minutes_kw kw = Given (core_implementation_minutes tb)
        \<and> 0 < core_implementation_minutes tb
        \<and> testing_minutes_kw kw = Given (testing_minutes tb) \<and> 0 \<le> testing_minutes tb
        \<and> documentation_minutes_kw kw = Given (documentation_minutes tb)
        \<and> 0 \<le> documentation_minutes tb
        \<and> buffer_minutes_kw kw = Given (buffer_minutes tb) \<and> 0 \<le> buffer_minutes tb
        \<and> breakdown_valid_kw kw = Given b
        \<and> breakdown_valid tb =
            (\<bar>total_minutes tb - (setup_minutes tb + core_implementation_minutes tb
               + testing_minutes tb + documentation_minutes tb + buffer_minutes tb)\<bar> < 5))"
  (is "?l \<longleftrightarrow> ?r")
proof
  assume ?l
  then obtain t s c te d b v where f:
    "field_gt0 (total_minutes_kw kw) = Some t" "field_ge0 (setup_minutes_kw kw) = Some s"
    "field_gt0 (core_implementation_minutes_kw kw) = Some c"
    "field_ge0 (testing_minutes_kw kw) = Some te"
    "field_ge0 (documentation_minutes_kw kw) = Some d"
    "field_ge0 (buffer_minutes_kw kw) = Some b"
    "breakdown_valid_kw kw = Given v"
    and tb: "tb = \<lparr>total_minutes = t, setup_minutes = s, core_implementation_minutes = c,
                 testing_minutes = te, documentation_minutes = d, buffer_minutes = b,
                 breakdown_valid = validate_breakdown_sum v
                   (info_entry ''total_minutes'' (Some t) @ info_entry ''setup_minutes'' (Some s) @
                    info_entry ''core_implementation_minutes'' (Some c) @
                    info_entry ''testing_minutes'' (Some te) @
                    info_entry ''documentation_minutes'' (Some d) @
                    info_entry ''buffer_minutes'' (Some b))\<rparr>"
    by (auto simp: TimeBreakdown_init_def Let_def bind_eq_Some_conv required_Some)
  have "breakdown_valid tb = (\<bar>t - (s + c + te + d + b)\<bar> < 5)"
    unfolding tb by (simp add: info_entry_def validate_breakdown_sum_def info_data_lookup Let_def)
  then show ?r
    using f by (simp add: tb field_gt0_Some field_ge0_Some)
next
  assume ?r
  then obtain b where r: "total_minutes_kw kw = Given (total_minutes tb)" "0 < total_minutes tb"
        "setup_minutes_kw kw = Given (setup_minutes tb)" "0 \<le> setup_minutes tb"
        "core_implementation_minutes_kw kw = Given (core_implementation_minutes tb)"
        "0 < core_implementation_minutes tb"
        "testing_minutes_kw kw = Given (testing_minutes tb)" "0 \<le> testing_minutes tb"
        "documentation_minutes_kw kw = Given (documentation_minutes tb)"
        "0 \<le> documentation_minutes tb"
        "buffer_minutes_kw kw = Given (buffer_minutes tb)" "0 \<le> buffer_minutes tb"
        "breakdown_valid_kw kw = Given b"
        "breakdown_valid tb =
            (\<bar>total_minutes tb - (setup_minutes tb + core_implementation_minutes tb
               + testing_minutes tb + documentation_minutes tb + buffer_minutes tb)\<bar> < 5)"
    by blast
  have g: "field_gt0 (Given (total_minutes tb)) = Some (total_minutes tb)"
      "field_ge0 (Given (setup_minutes tb)) = Some (setup_minutes tb)"
      "field_gt0 (Given (core_implementation_minutes tb)) = Some (core_implementation_minutes tb)"
      "field_ge0 (Given (testing_minutes tb)) = Some (testing_minutes tb)"
      "field_ge0 (Given (documentation_minutes tb)) = Some (documentation_minutes tb)"
      "field_ge0 (Given (buffer_minutes tb)) = Some (buffer_minutes tb)"
    using r by (simp_all add: field_gt0_Some field_ge0_Some)
  show ?l
    unfolding TimeBreakdown_init_def Let_def r(1,3,5,7,9,11,13) g
    by (simp add: required_def info_entry_def validate_breakdown_sum_def info_data_lookup r(14))
qed

lemma ex_time_init:
  "0 < t \<Longrightarrow> TimeBreakdown_init (ex_time_kwargs t flag) = Some (ex_time_breakdown t (\<bar>t - 240\<bar> < 5))"
  by (simp add: TimeBreakdown_init_eq_Some ex_time_kwargs_def ex_time_breakdown_def)

subsection \<open>The phases and the calls they make\<close>

lemma generate_json_eq:
  "generate_json w schema made = (r, made') \<longleftrightarrow>
     r = client w (length made) schema \<and> made' = made @ [schema]"
  by (auto simp: generate_json_def)

lemma generate_time_breakdown_Inr:
  "generate_time_breakdown w scope input_data made = (Inr tb, made') \<longleftrightarrow>
     (\<exists>kw. client w (length made) TIME_BREAKDOWN_SCHEMA = Inr (TimeJson kw)
        \<and> TimeBreakdown_init kw = Some tb) \<and> made' = made @ [TIME_BREAKDOWN_SCHEMA]"
  by (auto simp: generate_time_breakdown_def generate_json_def
      split: sum.splits option.splits response.splits)

lemma generate_time_breakdown_Inl:
  "generate_time_breakdown w scope input_data made = (Inl e, made') \<Longrightarrow>
     \<exists>c. e = GenerationError (FailedToGenerateTimeBreakdown c)"
  by (auto simp: generate_time_breakdown_def generate_json_def
      split: sum.splits option.splits response.splits)

lemma extract_context_calls:
  "extract_context w input_data made = (r, made') \<Longrightarrow> made' = made @ [CONTEXT_SCHEMA]"
  by (auto simp: extract_context_def generate_json_def Let_def
      split: sum.splits option.splits if_splits)

lemma extract_context_Inl:
  "extract_context w input_data made = (Inl e, made') \<Longrightarrow> \<exists>t. e = ContextExtractionError t"
  by (auto simp: extract_context_def generate_json_def Let_def
      split: sum.splits option.splits if_splits)

lemma define_scope_calls:
  "define_scope w context input_data made = (r, made') \<Longrightarrow> made' = made @ [SCOPE_SCHEMA]"
  by (auto simp: define_scope_def generate_json_def split: sum.splits option.splits)

lemma define_scope_Inl:
  "define_scope w context input_data made = (Inl e, made') \<Longrightarrow>
     \<exists>c. e = GenerationError (FailedToDefineScope c)"
  by (auto simp: define_scope_def generate_json_def split: sum.splits option.splits)

lemma define_scope_client_failure:
  "client w (length made) SCOPE_SCHEMA = Inl ce \<Longrightarrow>
     define_scope w context input_data made =
       (Inl (GenerationError (FailedToDefineScope (ClientFailure ce))), made @ [SCOPE_SCHEMA])"
  by (simp add: define_scope_def generate_json_def)

lemma define_scope_conversion_failure:
  "client w (length made) SCOPE_SCHEMA = Inr response \<Longrightarrow> scope_of_response response = None \<Longrightarrow>
     define_scope w context input_data made =
       (Inl (GenerationError (FailedToDefineScope ConversionFailure)), made @ [SCOPE_SCHEMA])"
  by (simp add: define_scope_def generate_json_def)

lemma define_scope_success:
  "client w (length made) SCOPE_SCHEMA = Inr response \<Longrightarrow> scope_of_response response = Some scope \<Longrightarrow>
     define_scope w context input_data made = (Inr scope, made @ [SCOPE_SCHEMA])"
  by (simp add: define_scope_def generate_json_def)

lemma generate_rubric_calls:
  "generate_rubric w scope input_data made = (r, made') \<Longrightarrow> made' = made @ [RUBRIC_SCHEMA]"
  by (auto simp: generate_rubric_def generate_json_def Let_def
      split: sum.splits option.splits if_splits)

lemma generate_rubric_Inl:
  "generate_rubric w scope input_data made = (Inl e, made') \<Longrightarrow> \<exists>t. e = RubricGenerationError t"
  by (auto simp: generate_rubric_def generate_json_def Let_def
      split: sum.splits option.splits if_splits)

lemma generate_scope_validation_failed:
  assumes "extract_context w input_data made = (Inr context, made1)"
      and "define_scope w context input_data made1 = (Inr scope, made2)"
      and "validate_scope_phase scope input_data = Inr validation"
      and "\<not> passed_sv validation"
  shows "generate w input_data made =
           (Inl (ScopeValidationError (ScopeValidationFailed (issues_sv validation))), made2)"
  using assms by (simp add: generate_def)

lemma generate_Inr:
  assumes "generate w input_data made = (Inr a, made')"
  shows "\<exists>context made1 scope made2 validation rubric made3 tb.
           extract_context w input_data made = (Inr context, made1)
         \<and> define_scope w context input_data made1 = (Inr scope, made2)
         \<and> validate_scope_phase scope input_data = Inr validation \<and> passed_sv validation
         \<and> generate_rubric w scope input_data made2 = (Inr rubric, made3)
         \<and> generate_time_breakdown w scope input_data made3 = (Inr tb, made')
         \<and> assemble_assignment w context scope rubric tb validation input_data = Inr a"
  using assms
  by (auto simp: generate_def split: prod.splits sum.splits if_splits)

subsection \<open>Blank texts and the iterations of rubric validation\<close>

text \<open>
  \<^verbatim>\<open>not s or not s.strip()\<close> holds exactly when every character of \<open>s\<close> is white space.
  Each iteration of \<open>validate_rubric\<close> over the items appends the messages of its body.
\<close>

lemma strip_eq_Nil: "strip s = [] \<longleftrightarrow> (\<forall>c\<in>set s. py_isspace c)"
proof -
  have "strip s = [] \<longleftrightarrow> (\<forall>c\<in>set (dropWhile py_isspace s). py_isspace c)"
    by (simp add: strip_def dropWhile_eq_Nil_conv)
  also have "\<dots> \<longleftrightarrow> dropWhile py_isspace s = []"
  proof
    assume a: "\<forall>c\<in>set (dropWhile py_isspace s). py_isspace c"
    show "dropWhile py_isspace s = []"
    proof (rule ccontr)
      assume n: "dropWhile py_isspace s \<noteq> []"
      then have "\<not> py_isspace (hd (dropWhile py_isspace s))"
        by (rule hd_dropWhile)
      moreover have "hd (dropWhile py_isspace s) \<in> set (dropWhile py_isspace s)"
        using n by simp
      ultimately show False using a by blast
    qed
  next
    assume "dropWhile py_isspace s = []"
    then show "\<forall>c\<in>set (dropWhile py_isspace s). py_isspace c"
      by (simp del: dropWhile_eq_Nil_conv)
  qed
  also have "\<dots> \<longleftrightarrow> (\<forall>c\<in>set s. py_isspace c)"
    by (simp add: dropWhile_eq_Nil_conv)
  finally show ?thesis .
qed

lemma is_blank_iff: "is_blank s \<longleftrightarrow> (\<forall>c\<in>set s. py_isspace c)"
  by (auto simp: is_blank_def strip_eq_Nil)

lemma foldl_check_weight:
  "foldl check_weight acc rubric =
     acc @ concat (map (\<lambda>item. if weight item \<le> 0
                              then [InvalidWeight (area item) (weight item)] else []) rubric)"
  by (induction rubric arbitrary: acc) (simp_all add: check_weight_def)

lemma foldl_check_small_weight:
  "foldl check_small_weight acc rubric =
     acc @ concat (map (\<lambda>item. if 0 < weight item \<and> flt (Fin (weight item)) (py_float (1 / 20))
                              then [SmallWeight (area item) (weight item)] else []) rubric)"
  by (induction rubric arbitrary: acc) (simp_all add: check_small_weight_def)

lemma foldl_check_expectations:
  "foldl check_expectations (is, ws) rubric =
     (is @ concat (map (\<lambda>item. if is_blank (scoring_guide item)
                               then [EmptyScoringGuide (area item)] else []) rubric),
      ws @ concat (map (\<lambda>item.
             (if is_blank (junior_expectation item) then [EmptyJuniorExpectation (area item)] else []) @
             (if is_blank (mid_expectation item) then [EmptyMidExpectation (area item)] else []) @
             (if is_blank (senior_expectation item) then [EmptySeniorExpectation (area item)] else []))
           rubric))"
  by (induction rubric arbitrary: "is" ws) (simp_all add: check_expectations_def Let_def)

lemma validate_rubric_issues:
  "issues (validate_rubric py_sum rubric) =
     (if length rubric < 3 then [TooFewRubricItems (length rubric)] else []) @
     (if flt (py_float (1 / 100)) (fabs (fsub (py_sum (map weight rubric)) (py_float 1)))
      then [WeightSum (py_sum (map weight rubric))] else []) @
     concat (map (\<lambda>item. if weight item \<le> 0
                         then [InvalidWeight (area item) (weight item)] else []) rubric) @
     concat (map (\<lambda>item. if is_blank (scoring_guide item)
                         then [EmptyScoringGuide (area item)] else []) rubric)"
  by (simp add: validate_rubric_def Let_def foldl_check_weight foldl_check_small_weight
        foldl_check_expectations)

lemma validate_rubric_warnings:
  "warnings (validate_rubric py_sum rubric) =
     (if length rubric > 7 then [ManyRubricItems (length rubric)] else []) @
     concat (map (\<lambda>item. if 0 < weight item \<and> flt (Fin (weight item)) (py_float (1 / 20))
                         then [SmallWeight (area item) (weight item)] else []) rubric) @
     concat (map (\<lambda>item.
             (if is_blank (junior_expectation item) then [EmptyJuniorExpectation (area item)] else []) @
             (if is_blank (mid_expectation item) then [EmptyMidExpectation (area item)] else []) @
             (if is_blank (senior_expectation item) then [EmptySeniorExpectation (area item)] else []))
           rubric)"
  by (simp add: validate_rubric_def Let_def foldl_check_weight foldl_check_small_weight
        foldl_check_expectations)

lemma validate_rubric_passed:
  "passed (validate_rubric py_sum rubric) \<longleftrightarrow> issues (validate_rubric py_sum rubric) = []"
  by (simp add: validate_rubric_def Let_def)

lemma concat_if_Nil:
  "concat (map (\<lambda>x. if P x then [f x] else []) xs) = [] \<longleftrightarrow> (\<forall>x\<in>set xs. \<not> P x)"
  by (induction xs) auto

lemma validate_rubric_passed_iff:
  "passed (validate_rubric py_sum rubric) \<longleftrightarrow>
     3 \<le> length rubric
     \<and> \<not> flt (py_float (1 / 100)) (fabs (fsub (py_sum (map weight rubric)) (py_float 1)))
     \<and> (\<forall>item\<in>set rubric. 0 < weight item)
     \<and> (\<forall>item\<in>set rubric. \<not> is_blank (scoring_guide item))"
proof -
  have a: "(if length rubric < 3 then [TooFewRubricItems (length rubric)] else []) = []
             \<longleftrightarrow> 3 \<le> length rubric"
    by auto
  have b: "(if flt (py_float (1 / 100)) (fabs (fsub (py_sum (map weight rubric)) (py_float 1)))
            then [WeightSum (py_sum (map weight rubric))] else []) = []
             \<longleftrightarrow> \<not> flt (py_float (1 / 100)) (fabs (fsub (py_sum (map weight rubric)) (py_float 1)))"
    by auto
  have c: "concat (map (\<lambda>item. if weight item \<le> 0
                         then [InvalidWeight (area item) (weight item)] else []) rubric) = []
             \<longleftrightarrow> (\<forall>item\<in>set rubric. 0 < weight item)"
    unfolding concat_if_Nil by (simp add: not_le)
  have d: "concat (map (\<lambda>item. if is_blank (scoring_guide item)
                         then [EmptyScoringGuide (area item)] else []) rubric) = []
             \<longleftrightarrow> (\<forall>item\<in>set rubric. \<not> is_blank (scoring_guide item))"
    unfolding concat_if_Nil by simp
  show ?thesis
    unfolding validate_rubric_passed validate_rubric_issues append_is_Nil_conv a b c d
    by (rule refl)
qed

lemma not_space_digit: "\<not> py_isspace (CHR ''1'')"
  by (simp add: py_isspace_def)

lemma ex_item_fields:
  "area (ex_item a w g) = a" "weight (ex_item a w g) = w" "scoring_guide (ex_item a w g) = g"
  "\<not> is_blank (junior_expectation (ex_item a w g))"
  "\<not> is_blank (mid_expectation (ex_item a w g))"
  "\<not> is_blank (senior_expectation (ex_item a w g))"
  by (simp_all add: ex_item_def is_blank_iff py_isspace_def)

lemma ex_guide_not_blank: "\<not> is_blank ''1-5 scale''" "is_blank '' ''" "is_blank ''''" "is_blank ''  ''"
  "\<not> is_blank ''Clear README''"
  by (simp_all add: is_blank_iff py_isspace_def)

text \<open>
  The sums of the example weights, from left to right and compensated. Three weights of
  0.33 sum to the double nearest to 0.99 under both, which is further than 0.01 from 1.0
  although the exact sum of the three doubles is not.
\<close>

lemma ex_sums:
  "sum_left_to_right [1 / 4, 1 / 4, 1 / 2] = Fin 1"
  "sum_left_to_right [1 / 4, 1 / 4] = Fin (1 / 2)"
  "sum_left_to_right [0, 1 / 2, 1 / 2] = Fin 1"
  "sum_left_to_right [1 / 4, 1 / 4, 15 / 32, 1 / 32] = Fin 1"
  "sum_left_to_right [5944751508129055 / 18014398509481984, 5944751508129055 / 18014398509481984,
     5944751508129055 / 18014398509481984] = Fin (4458563631096791 / 4503599627370496)"
  by (simp_all add: sum_left_to_right_def rnd_values)

lemma ex_sum_compensated:
  "sum_compensated [5944751508129055 / 18014398509481984, 5944751508129055 / 18014398509481984,
     5944751508129055 / 18014398509481984] = Fin (4458563631096791 / 4503599627370496)"
  "sum_compensated [1 / 4, 1 / 4, 1 / 2] = Fin 1"
  by (simp_all add: sum_compensated_def cs_add_def Let_def fsub_def rnd_values)

lemma ex_deviations:
  "\<not> flt (py_float (1 / 100)) (fabs (fsub (Fin 1) (py_float 1)))"
  "flt (py_float (1 / 100)) (fabs (fsub (Fin (1 / 2)) (py_float 1)))"
  "flt (py_float (1 / 100)) (fabs (fsub (Fin (4458563631096791 / 4503599627370496)) (py_float 1)))"
  by (simp_all add: py_float_values fsub_def rnd_values)

lemma ValidationResult_eqI:
  "passed r = p \<Longrightarrow> issues r = i \<Longrightarrow> warnings r = w \<Longrightarrow>
     r = \<lparr>passed = p, issues = i, warnings = w\<rparr>"
  by (cases r) simp

subsection \<open>The pipeline on the example capability\<close>

lemma ex_requirements_init:
  "\<forall>m\<in>set ms. 0 < m \<Longrightarrow>
     those (map (Requirement_init \<circ> ex_req_kwargs) ms) = Some (map ex_req ms)"
  by (induction ms)
     (simp_all add: Requirement_init_def ex_req_kwargs_def ex_req_def required_def field_gt0_def)

lemma ex_scope_of_response:
  "\<forall>m\<in>set mh. 0 < m \<Longrightarrow> \<forall>m\<in>set nh. 0 < m \<Longrightarrow>
     scope_of_response (ScopeJson (ex_scope_json mh nh)) = Some (ex_scope mh nh)"
  by (simp add: scope_of_response_def ex_scope_json_def ex_requirements_init required_def
        ex_scope_def)

lemma ex_world_client:
  "client (ex_world mh nh t flag) n CONTEXT_SCHEMA = Inr (ContextJson ex_context_kwargs)"
  "client (ex_world mh nh t flag) n SCOPE_SCHEMA = Inr (ScopeJson (ex_scope_json mh nh))"
  "client (ex_world mh nh t flag) n RUBRIC_SCHEMA = Inr (RubricJson ex_rubric_json)"
  "client (ex_world mh nh t flag) n TIME_BREAKDOWN_SCHEMA = Inr (TimeJson (ex_time_kwargs t flag))"
  "float_sum (ex_world mh nh t flag) = sum_left_to_right"
  by (simp_all add: ex_world_def ex_client_def)

lemma ex_context_init: "JobContext_init ex_context_kwargs = Some ex_context"
  by (simp add: JobContext_init_def ex_context_kwargs_def ex_context_def required_def)

lemma ex_context_valid: "validate_context_extraction ex_context =
    \<lparr>passed = True, issues = [], warnings = []\<rparr>"
  by (simp add: validate_context_extraction_def ex_context_def Let_def strip_def py_isspace_def)

lemma ex_extract_context:
  "extract_context (ex_world mh nh t flag) input_data made =
     (Inr ex_context, made @ [CONTEXT_SCHEMA])"
  by (simp add: extract_context_def generate_json_def ex_world_client ex_context_init
        ex_context_valid)

lemma ex_define_scope:
  "\<forall>m\<in>set mh. 0 < m \<Longrightarrow> \<forall>m\<in>set nh. 0 < m \<Longrightarrow>
     define_scope (ex_world mh nh t flag) context input_data made =
       (Inr (ex_scope mh nh), made @ [SCOPE_SCHEMA])"
  by (simp add: define_scope_success ex_world_client ex_scope_of_response)

lemma ex_item_init:
  "0 \<le> w \<Longrightarrow> w \<le> 1 \<Longrightarrow> RubricItem_init (ex_item_kwargs a w) = Some (ex_item a w ''1-5 scale'')"
  by (simp add: RubricItem_init_def ex_item_kwargs_def ex_item_def required_def field_weight_def)

lemma ex_guide_of_response:
  "guide_of_response sum_left_to_right (RubricJson ex_rubric_json) = Some ex_guide"
  by (simp add: guide_of_response_def ex_rubric_json_def ex_item_init required_def
        EvaluatorGuide_init_def validate_weights_sum_to_one_def ex_item_fields ex_guide_def
        ex_sums ex_deviations)

lemma ex_guide_valid: "passed (validate_rubric sum_left_to_right (scoring_rubric ex_guide))"
  by (simp add: validate_rubric_passed_iff ex_guide_def ex_item_fields ex_guide_not_blank
        ex_sums ex_deviations)

lemma ex_generate_rubric:
  "generate_rubric (ex_world mh nh t flag) scope input_data made =
     (Inr ex_guide, made @ [RUBRIC_SCHEMA])"
  by (simp add: generate_rubric_def generate_json_def ex_world_client ex_guide_of_response
        ex_guide_valid)

lemma ex_generate_time_breakdown:
  "0 < t \<Longrightarrow> generate_time_breakdown (ex_world mh nh t flag) scope input_data made =
     (Inr (ex_time_breakdown t (\<bar>t - 240\<bar> < 5)), made @ [TIME_BREAKDOWN_SCHEMA])"
  by (simp add: generate_time_breakdown_def generate_json_def ex_world_client ex_time_init)

lemma ex_validate_scope_pass:
  "validate_scope (ex_scope [80, 60, 70] [30]) (Fin 4) =
     Inr \<lparr>passed = True, issues = [], warnings = [FewConstraints 1]\<rparr>"
  using ex_scope_validate [of "[80, 60, 70]" "[30]" "Fin 4" "Fin 1"]
  by (simp add: truediv_int_float_def rnd_values)

lemma ex_validate_scope_fail:
  "validate_scope (ex_scope [60] []) (Fin 4) =
     Inr \<lparr>passed = False, issues = [TimeMismatch 60 (Fin 240) (Fin (1 / 4)), TooFewMustHave 1],
          warnings = [FewConstraints 1]\<rparr>"
  using ex_scope_validate [of "[60]" "[]" "Fin 4" "Fin (1 / 4)"]
  by (simp add: truediv_int_float_def rnd_values)

lemma ex_validate_scope_fail2:
  "validate_scope (ex_scope [50, 50] []) (Fin 4) =
     Inr \<lparr>passed = False,
          issues = [TimeMismatch 100 (Fin 240) (Fin (7505999378950827 / 18014398509481984)),
                    TooFewMustHave 2],
          warnings = [FewConstraints 1]\<rparr>"
  using ex_scope_validate [of "[50, 50]" "[]" "Fin 4" "Fin (7505999378950827 / 18014398509481984)"]
  by (simp add: truediv_int_float_def rnd_values)

text \<open>
  Where \<open>validate_scope\<close> returns no result: a budget of zero hours makes the division
  raise ZeroDivisionError, and a total beyond the doubles makes the conversion of the total
  raise OverflowError. Where the exact ratio and the float part: with a budget of
  \<open>2 ^ 53 + 2\<close> hours and 45 times as many minutes the exact ratio is 3/4, the total and
  the product with 60 are both rounded, and the float is the double below 0.75.
\<close>

lemma ex_validate_scope_raises:
  "validate_scope (ex_scope [80, 60, 70] [30]) (Fin 0) = Inl ZeroDivisionError"
  "validate_scope (ex_scope [10 ^ 400] []) (Fin 4) = Inl OverflowError"
proof -
  show "validate_scope (ex_scope [80, 60, 70] [30]) (Fin 0) = Inl ZeroDivisionError"
    by (simp add: validate_scope_raises ex_scope_total truediv_int_float_def rnd_values)
  have "pow2 1024 \<le> of_int (10 ^ 400)"
    by (simp add: pow2_def)
  then have "pow2 1024 \<le> round_double (of_int (10 ^ 400))"
    by (rule round_double_ge_pow2) simp
  then have "rnd (of_int (10 ^ 400)) = PInf"
    by (simp add: rnd_def Let_def)
  then show "validate_scope (ex_scope [10 ^ 400] []) (Fin 4) = Inl OverflowError"
    by (simp add: validate_scope_raises ex_scope_total truediv_int_float_def)
qed

lemma ex_large_budget:
  "of_int (total_requirement_minutes (ex_scope [405323966463344730] []))
     / ((9007199254740994 :: rat) * 60) = 3 / 4"
  "truediv_int_float (total_requirement_minutes (ex_scope [405323966463344730] []))
     (fmul (Fin 9007199254740994) (Fin 60)) = Inr (Fin (6755399441055743 / 9007199254740992))"
  by (simp_all add: ex_scope_total truediv_int_float_def rnd_values)

lemma ex_scope_warnings:
  "generate_scope_warnings (ex_scope [80, 60, 70] [30]) ''senior'' (Fin 4) =
     Inr [SeniorityMismatch ''senior'']"
  "generate_scope_warnings (ex_scope [60] []) ''senior'' (Fin 4) =
     Inr [SeniorityMismatch ''senior'', NoNiceToHave]"
  "generate_scope_warnings (ex_scope [50, 50] []) ''senior'' (Fin 4) =
     Inr [SeniorityMismatch ''senior'', NoNiceToHave]"
  by (simp_all add: generate_scope_warnings_def check_seniority_match_def Let_def
        total_time_all_requirements ex_scope_total ex_scope_count ex_scope_must_have_time
        ex_scope_nice_count truediv_int_int_def rnd_values py_float_values)

text \<open>
  The share of the must-have minutes is a rounded quotient: \<open>2 ^ 60\<close> must-have minutes out
  of \<open>2 ^ 61 + 1\<close> are less than half, the quotient rounds to 0.5, and no warning about the
  share is given.
\<close>

lemma ex_share_rounding:
  "generate_scope_warnings (ex_scope [1152921504606846976] [1152921504606846977]) ''other'' (Fin 4) =
     Inr []"
  by (simp add: generate_scope_warnings_def check_seniority_match_def Let_def
        total_time_all_requirements ex_scope_total ex_scope_count ex_scope_must_have_time
        ex_scope_nice_count truediv_int_int_def rnd_values py_float_values)

lemma ex_validate_scope_phase_pass:
  "validate_scope_phase (ex_scope [80, 60, 70] [30]) (ex_input 4 ''senior'') =
     Inr \<lparr>passed_sv = True, issues_sv = [],
          warnings_sv = [FewConstraints 1, SeniorityMismatch ''senior'']\<rparr>"
  by (simp add: validate_scope_phase_def ex_input_def ex_validate_scope_pass ex_scope_warnings)

lemma ex_validate_scope_phase_fail:
  "validate_scope_phase (ex_scope [60] []) (ex_input 4 ''senior'') =
     Inr \<lparr>passed_sv = False,
          issues_sv = [TimeMismatch 60 (Fin 240) (Fin (1 / 4)), TooFewMustHave 1],
          warnings_sv = [FewConstraints 1, SeniorityMismatch ''senior'', NoNiceToHave]\<rparr>"
  by (simp add: validate_scope_phase_def ex_input_def ex_validate_scope_fail ex_scope_warnings)

lemma assemble_assignment_Inr:
  "assemble_assignment w context scope rubric tb validation input_data = Inr a \<Longrightarrow>
     time_breakdown a = tb \<and> evaluator_guide a = rubric \<and> scope_warnings a = warnings_sv validation
     \<and> assignment_id a = uuid4 w \<and> generated_at a = now w
     \<and> estimated_difficulty a = estimate_difficulty scope input_data"
  by (auto simp: assemble_assignment_def Let_def split: option.splits)

lemma ex_generate:
  "generate (ex_world [80, 60, 70] [30] 300 True) (ex_input 4 ''senior'') [] =
     (assemble_assignment (ex_world [80, 60, 70] [30] 300 True) ex_context
        (ex_scope [80, 60, 70] [30]) ex_guide (ex_time_breakdown 300 False)
        \<lparr>passed_sv = True, issues_sv = [],
          warnings_sv = [FewConstraints 1, SeniorityMismatch ''senior'']\<rparr>
        (ex_input 4 ''senior''),
      [CONTEXT_SCHEMA, SCOPE_SCHEMA, RUBRIC_SCHEMA, TIME_BREAKDOWN_SCHEMA])"
  by (simp add: generate_def ex_extract_context ex_define_scope ex_validate_scope_phase_pass
        ex_generate_rubric ex_generate_time_breakdown)

lemma ex_submission_guidelines:
  "build_submission_guidelines (ex_input hours level) =
     ''Please submit your solution as a GitHub repository. '' @
     ''Include a comprehensive README with setup instructions, '' @
     ''architecture decisions, and any assumptions made.''"
  by (simp add: build_submission_guidelines_def ex_input_def format_map_def)

lemma ex_assemble_full:
  "assemble_assignment (ex_world [80, 60, 70] [30] 300 True) ex_context
      (ex_scope [80, 60, 70] [30]) ex_guide (ex_time_breakdown 300 False)
      \<lparr>passed_sv = True, issues_sv = [],
        warnings_sv = [FewConstraints 1, SeniorityMismatch ''senior'']\<rparr>
      (ex_input 4 ''senior'') = Inr ex_assignment"
  unfolding assemble_assignment_def ex_submission_guidelines
  by (simp add: Requirements_init_def CandidateBrief_init_def Let_def ex_scope_count
        ex_scope_context estimate_difficulty_def total_time_all_requirements ex_scope_total)
     (simp add: ex_scope_def ex_input_def py_int_def ex_guide_def ex_item_fields ex_world_def
        ex_assignment_def)

lemma ex_generate_full:
  "generate (ex_world [80, 60, 70] [30] 300 True) (ex_input 4 ''senior'') [] =
     (Inr ex_assignment, [CONTEXT_SCHEMA, SCOPE_SCHEMA, RUBRIC_SCHEMA, TIME_BREAKDOWN_SCHEMA])"
  unfolding ex_generate ex_assemble_full by (rule refl)

lemma generate_time_breakdown_calls:
  "generate_time_breakdown w scope input_data made = (r, made') \<Longrightarrow>
     made' = made @ [TIME_BREAKDOWN_SCHEMA]"
  by (auto simp: generate_time_breakdown_def generate_json_def
      split: sum.splits option.splits)

section \<open>Difficulty classification\<close>

text \<open>
  Claim C6. \<^verbatim>\<open>_estimate_difficulty\<close> is the three-way thresholding of the specification on
  the total requirement minutes (must-have plus nice-to-have) and the must-have count: easy
  when the total is at most 180 and the count at most 4, otherwise hard when the total is at
  least 360 or the count at least 6, otherwise medium. A total of 150 with 3 must-haves is
  easy, 400 with 5 is hard, 300 with 5 is medium.
\<close>

theorem estimate_difficulty_thresholds:
  "estimate_difficulty scope input_data =
     difficulty_spec (total_requirement_minutes scope) (length (must_have scope))
   \<and> (total_requirement_minutes scope = 150 \<and> length (must_have scope) = 3
        \<longrightarrow> estimate_difficulty scope input_data = ''easy'')
   \<and> (total_requirement_minutes scope = 400 \<and> length (must_have scope) = 5
        \<longrightarrow> estimate_difficulty scope input_data = ''hard'')
   \<and> (total_requirement_minutes scope = 300 \<and> length (must_have scope) = 5
        \<longrightarrow> estimate_difficulty scope input_data = ''medium'')"
  by (simp add: estimate_difficulty_def difficulty_spec_def total_time_all_requirements Let_def)

theorem estimate_difficulty_thresholds_witness:
  "(total_requirement_minutes (ex_scope [50, 50, 50] []) = 150
      \<and> length (must_have (ex_scope [50, 50, 50] [])) = 3
      \<and> estimate_difficulty (ex_scope [50, 50, 50] []) (ex_input 4 ''senior'') = ''easy'')
   \<and> (total_requirement_minutes (ex_scope [80, 80, 80, 80, 80] []) = 400
      \<and> length (must_have (ex_scope [80, 80, 80, 80, 80] [])) = 5
      \<and> estimate_difficulty (ex_scope [80, 80, 80, 80, 80] []) (ex_input 4 ''senior'') = ''hard'')
   \<and> (total_requirement_minutes (ex_scope [60, 60, 60, 60, 60] []) = 300
      \<and> length (must_have (ex_scope [60, 60, 60, 60, 60] [])) = 5
      \<and> estimate_difficulty (ex_scope [60, 60, 60, 60, 60] []) (ex_input 4 ''senior'') = ''medium'')"
  using estimate_difficulty_thresholds [of "ex_scope [50, 50, 50] []" "ex_input 4 ''senior''"]
        estimate_difficulty_thresholds [of "ex_scope [80, 80, 80, 80, 80] []" "ex_input 4 ''senior''"]
        estimate_difficulty_thresholds [of "ex_scope [60, 60, 60, 60, 60] []" "ex_input 4 ''senior''"]
  by (simp add: ex_scope_total ex_scope_count difficulty_spec_def)

section \<open>Seniority match\<close>

text \<open>
  Claim C7. \<^verbatim>\<open>check_seniority_match\<close> is true exactly when the must-have count and the
  total requirement minutes both lie in the ranges of the level (junior 3-4 and 120-240, mid
  4-5 and 180-300, senior 5-6 and 240-420, staff 6-7 and 360-540), and true for every other
  level string. A mismatch puts exactly one seniority warning into the list returned by
  \<^verbatim>\<open>generate_scope_warnings\<close> and a match none; the list is returned whenever every
  requirement has a positive estimate, as the schema demands (the share of the must-have
  minutes is a quotient of two ints, which is then between 0 and 1). The phase that merges
  this list takes \<open>passed\<close> and \<open>issues\<close> from \<open>validate_scope\<close> unchanged, so the warning
  is never a blocking issue. For the level senior, 5 must-haves with 300 minutes match, and
  neither 2 must-haves nor 100 minutes do.
\<close>

theorem check_seniority_match_ranges:
  "check_seniority_match scope level =
     seniority_match_spec level (length (must_have scope)) (total_requirement_minutes scope)
   \<and> (level \<notin> {''junior'', ''mid'', ''senior'', ''staff''} \<longrightarrow> check_seniority_match scope level)
   \<and> (generate_scope_warnings scope level hours = Inr ws \<longrightarrow>
        count_list ws (SeniorityMismatch level) =
          (if check_seniority_match scope level then 0 else 1))
   \<and> ((\<forall>req\<in>set (all_requirements scope). 0 < estimated_time_minutes req) \<longrightarrow>
        (\<exists>ws. generate_scope_warnings scope level hours = Inr ws))
   \<and> (validate_scope_phase scope input_data = Inr v \<longrightarrow>
        (\<exists>r. validate_scope scope (Fin (time_budget_hours input_data)) = Inr r
           \<and> passed_sv v = passed r \<and> issues_sv v = issues r)
        \<and> SeniorityMismatch l \<notin> set (issues_sv v))
   \<and> (length (must_have scope) = 5 \<and> total_requirement_minutes scope = 300
        \<longrightarrow> check_seniority_match scope ''senior'')
   \<and> (length (must_have scope) = 2 \<or> total_requirement_minutes scope = 100
        \<longrightarrow> \<not> check_seniority_match scope ''senior'')"
proof -
  have a: "level \<notin> {''junior'', ''mid'', ''senior'', ''staff''} \<longrightarrow> check_seniority_match scope level"
    by (simp add: check_seniority_match_def)
  have b: "validate_scope_phase scope input_data = Inr v \<longrightarrow>
        (\<exists>r. validate_scope scope (Fin (time_budget_hours input_data)) = Inr r
           \<and> passed_sv v = passed r \<and> issues_sv v = issues r)
        \<and> SeniorityMismatch l \<notin> set (issues_sv v)"
  proof
    assume h: "validate_scope_phase scope input_data = Inr v"
    from validate_scope_phase_Inr [OF h] obtain r where
      r: "validate_scope scope (Fin (time_budget_hours input_data)) = Inr r"
         "passed_sv v = passed r" "issues_sv v = issues r" by blast
    have "SeniorityMismatch l \<notin> set (issues r)"
      using validate_scope_issue_kinds [OF r(1), of "SeniorityMismatch l"] by auto
    with r show "(\<exists>r. validate_scope scope (Fin (time_budget_hours input_data)) = Inr r
           \<and> passed_sv v = passed r \<and> issues_sv v = issues r)
        \<and> SeniorityMismatch l \<notin> set (issues_sv v)" by auto
  qed
  have c: "length (must_have scope) = 5 \<and> total_requirement_minutes scope = 300
        \<longrightarrow> check_seniority_match scope ''senior''"
    by (simp add: check_seniority_match_def total_time_all_requirements)
  have d: "length (must_have scope) = 2 \<or> total_requirement_minutes scope = 100
        \<longrightarrow> \<not> check_seniority_match scope ''senior''"
    by (auto simp: check_seniority_match_def total_time_all_requirements)
  have e: "generate_scope_warnings scope level hours = Inr ws \<longrightarrow>
        count_list ws (SeniorityMismatch level) =
          (if check_seniority_match scope level then 0 else 1)"
    using count_seniority_warning [of scope level hours ws] by blast
  have f: "(\<forall>req\<in>set (all_requirements scope). 0 < estimated_time_minutes req) \<longrightarrow>
        (\<exists>ws. generate_scope_warnings scope level hours = Inr ws)"
    using generate_scope_warnings_returns [of scope level hours] by blast
  show ?thesis
    using a b c d e f check_seniority_match_spec [of scope level] by blast
qed

theorem check_seniority_match_ranges_witness:
  "length (must_have (ex_scope [60, 60, 60, 60, 60] [])) = 5
   \<and> total_requirement_minutes (ex_scope [60, 60, 60, 60, 60] []) = 300
   \<and> check_seniority_match (ex_scope [60, 60, 60, 60, 60] []) ''senior''
   \<and> length (must_have (ex_scope [50, 50] [])) = 2
   \<and> total_requirement_minutes (ex_scope [50, 50] []) = 100
   \<and> \<not> check_seniority_match (ex_scope [50, 50] []) ''senior''
   \<and> generate_scope_warnings (ex_scope [50, 50] []) ''senior'' (Fin 4) =
       Inr [SeniorityMismatch ''senior'', NoNiceToHave]
   \<and> count_list [SeniorityMismatch ''senior'', NoNiceToHave] (SeniorityMismatch ''senior'') = 1
   \<and> validate_scope_phase (ex_scope [50, 50] []) (ex_input 4 ''senior'') =
       Inr \<lparr>passed_sv = False,
            issues_sv = [TimeMismatch 100 (Fin 240) (Fin (7505999378950827 / 18014398509481984)),
                         TooFewMustHave 2],
            warnings_sv = [FewConstraints 1, SeniorityMismatch ''senior'', NoNiceToHave]\<rparr>
   \<and> SeniorityMismatch ''senior'' \<notin>
       set [TimeMismatch 100 (Fin 240) (Fin (7505999378950827 / 18014398509481984)),
            TooFewMustHave 2]"
proof -
  let ?v = "\<lparr>passed_sv = False,
            issues_sv = [TimeMismatch 100 (Fin 240) (Fin (7505999378950827 / 18014398509481984)),
                         TooFewMustHave 2],
            warnings_sv = [FewConstraints 1, SeniorityMismatch ''senior'', NoNiceToHave]\<rparr>"
  have v: "validate_scope_phase (ex_scope [50, 50] []) (ex_input 4 ''senior'') = Inr ?v"
    by (simp add: validate_scope_phase_def ex_input_def ex_validate_scope_fail2 ex_scope_warnings)
  have h: "length (must_have (ex_scope [60, 60, 60, 60, 60] [])) = 5"
      "total_requirement_minutes (ex_scope [60, 60, 60, 60, 60] []) = 300"
      "length (must_have (ex_scope [50, 50] [])) = 2"
      "total_requirement_minutes (ex_scope [50, 50] []) = 100"
    by (simp_all add: ex_scope_total ex_scope_count)
  note t1 = check_seniority_match_ranges [of "ex_scope [60, 60, 60, 60, 60] []" "''senior''"
      "Fin 4" "[]" "ex_input 4 ''senior''" ?v "''senior''"]
  note t2 = check_seniority_match_ranges [of "ex_scope [50, 50] []" "''senior''" "Fin 4"
      "[SeniorityMismatch ''senior'', NoNiceToHave]" "ex_input 4 ''senior''" ?v "''senior''"]
  have a: "check_seniority_match (ex_scope [60, 60, 60, 60, 60] []) ''senior''"
    using t1 h(1,2) by blast
  have b: "\<not> check_seniority_match (ex_scope [50, 50] []) ''senior''"
    using t2 h(3) by blast
  have c: "count_list [SeniorityMismatch ''senior'', NoNiceToHave] (SeniorityMismatch ''senior'') =
             (if check_seniority_match (ex_scope [50, 50] []) ''senior'' then 0 else 1)"
    using t2 ex_scope_warnings(3) by blast
  have d: "SeniorityMismatch ''senior'' \<notin> set (issues_sv ?v)"
    using t2 v by blast
  show ?thesis
    using h a b c d v ex_scope_warnings(3) by simp
qed
section \<open>Scope validation\<close>

text \<open>
  Claim C2. If the total requirement minutes (must-have plus nice-to-have) divided by
  \<open>hours * 60\<close> lies between 0.75 and 1.25, the business context has between 100 and 2000
  characters and there are between 3 and 7 must-have requirements, then \<open>validate_scope\<close>
  returns a result, with \<open>passed\<close> true and no issue. This holds of the ratio as a rational
  number, for every positive total below \<open>2 ^ 52\<close> minutes and every budget: the two
  roundings of the source, of \<open>hours * 60\<close> and of the quotient, never take a ratio of the
  interval out of it. It holds as well, for every total and every float budget, of the ratio
  as the source computes it. A budget of zero hours has no ratio (the division raises), and
  the first hypothesis excludes it. Warnings may remain: the scope of the witness has a
  single constraint and is warned about it.
\<close>

theorem validate_scope_passes_within_tolerance:
  "(0 < total_requirement_minutes scope \<and> total_requirement_minutes scope < 2 ^ 52
      \<and> 3 / 4 \<le> of_int (total_requirement_minutes scope) / (x * 60)
      \<and> of_int (total_requirement_minutes scope) / (x * 60) \<le> 5 / 4
      \<and> 100 \<le> length (business_context scope) \<and> length (business_context scope) \<le> 2000
      \<and> 3 \<le> length (must_have scope) \<and> length (must_have scope) \<le> 7
    \<longrightarrow> (\<exists>r. validate_scope scope (Fin x) = Inr r \<and> passed r \<and> issues r = []))
   \<and> (truediv_int_float (total_requirement_minutes scope) (fmul hours (Fin 60)) = Inr ratio
      \<and> fle (Fin (3 / 4)) ratio \<and> fle ratio (Fin (5 / 4))
      \<and> 100 \<le> length (business_context scope) \<and> length (business_context scope) \<le> 2000
      \<and> 3 \<le> length (must_have scope) \<and> length (must_have scope) \<le> 7
    \<longrightarrow> (\<exists>r. validate_scope scope hours = Inr r \<and> passed r \<and> issues r = []))"
proof (rule conjI; rule impI)
  assume h: "truediv_int_float (total_requirement_minutes scope) (fmul hours (Fin 60)) = Inr ratio
      \<and> fle (Fin (3 / 4)) ratio \<and> fle ratio (Fin (5 / 4))
      \<and> 100 \<le> length (business_context scope) \<and> length (business_context scope) \<le> 2000
      \<and> 3 \<le> length (must_have scope) \<and> length (must_have scope) \<le> 7"
  then obtain r where r: "validate_scope scope hours = Inr r"
    using validate_scope_returns by blast
  have "issues r = []"
    using validate_scope_issues [OF r, of ratio] h by simp
  moreover have "passed r"
    using validate_scope_passed [OF r] \<open>issues r = []\<close> by simp
  ultimately show "\<exists>r. validate_scope scope hours = Inr r \<and> passed r \<and> issues r = []"
    using r by blast
next
  assume h: "0 < total_requirement_minutes scope \<and> total_requirement_minutes scope < 2 ^ 52
      \<and> 3 / 4 \<le> of_int (total_requirement_minutes scope) / (x * 60)
      \<and> of_int (total_requirement_minutes scope) / (x * 60) \<le> 5 / 4
      \<and> 100 \<le> length (business_context scope) \<and> length (business_context scope) \<le> 2000
      \<and> 3 \<le> length (must_have scope) \<and> length (must_have scope) \<le> 7"
  then obtain y where y:
      "truediv_int_float (total_requirement_minutes scope) (fmul (Fin x) (Fin 60)) = Inr (Fin y)"
      "3 / 4 \<le> y" "y \<le> 5 / 4"
    using time_ratio_within [of "total_requirement_minutes scope" x] by blast
  then obtain r where r: "validate_scope scope (Fin x) = Inr r"
    using validate_scope_returns by blast
  have "issues r = []"
    using validate_scope_issues [OF r y(1)] y(2,3) h by simp
  moreover have "passed r"
    using validate_scope_passed [OF r] \<open>issues r = []\<close> by simp
  ultimately show "\<exists>r. validate_scope scope (Fin x) = Inr r \<and> passed r \<and> issues r = []"
    using r by blast
qed

theorem validate_scope_passes_within_tolerance_witness:
  "0 < total_requirement_minutes (ex_scope [80, 60, 70] [30])
   \<and> total_requirement_minutes (ex_scope [80, 60, 70] [30]) < 2 ^ 52
   \<and> 3 / 4 \<le> of_int (total_requirement_minutes (ex_scope [80, 60, 70] [30])) / ((4::rat) * 60)
   \<and> of_int (total_requirement_minutes (ex_scope [80, 60, 70] [30])) / ((4::rat) * 60) \<le> 5 / 4
   \<and> 100 \<le> length (business_context (ex_scope [80, 60, 70] [30]))
   \<and> length (business_context (ex_scope [80, 60, 70] [30])) \<le> 2000
   \<and> 3 \<le> length (must_have (ex_scope [80, 60, 70] [30]))
   \<and> length (must_have (ex_scope [80, 60, 70] [30])) \<le> 7
   \<and> validate_scope (ex_scope [80, 60, 70] [30]) (Fin 4) =
       Inr \<lparr>passed = True, issues = [], warnings = [FewConstraints 1]\<rparr>
   \<and> py_float (22 / 10) = Fin (2476979795053773 / 1125899906842624)
   \<and> truediv_int_float (total_requirement_minutes (ex_scope [33, 33, 33] []))
       (fmul (Fin (2476979795053773 / 1125899906842624)) (Fin 60)) = Inr (Fin (3 / 4))
   \<and> fle (Fin (3 / 4)) (Fin (3 / 4)) \<and> fle (Fin (3 / 4)) (Fin (5 / 4))
   \<and> 3 \<le> length (must_have (ex_scope [33, 33, 33] []))
   \<and> length (must_have (ex_scope [33, 33, 33] [])) \<le> 7
   \<and> validate_scope (ex_scope [33, 33, 33] []) (Fin (2476979795053773 / 1125899906842624)) =
       Inr \<lparr>passed = True, issues = [], warnings = [FewConstraints 1]\<rparr>"
proof -
  have h: "0 < total_requirement_minutes (ex_scope [80, 60, 70] [30])
      \<and> total_requirement_minutes (ex_scope [80, 60, 70] [30]) < 2 ^ 52
      \<and> 3 / 4 \<le> of_int (total_requirement_minutes (ex_scope [80, 60, 70] [30])) / ((4::rat) * 60)
      \<and> of_int (total_requirement_minutes (ex_scope [80, 60, 70] [30])) / ((4::rat) * 60) \<le> 5 / 4
      \<and> 100 \<le> length (business_context (ex_scope [80, 60, 70] [30]))
      \<and> length (business_context (ex_scope [80, 60, 70] [30])) \<le> 2000
      \<and> 3 \<le> length (must_have (ex_scope [80, 60, 70] [30]))
      \<and> length (must_have (ex_scope [80, 60, 70] [30])) \<le> 7"
    by (simp add: ex_scope_total ex_scope_count ex_scope_context)
  have k: "truediv_int_float (total_requirement_minutes (ex_scope [33, 33, 33] []))
       (fmul (Fin (2476979795053773 / 1125899906842624)) (Fin 60)) = Inr (Fin (3 / 4))
      \<and> fle (Fin (3 / 4)) (Fin (3 / 4)) \<and> fle (Fin (3 / 4)) (Fin (5 / 4))
      \<and> 100 \<le> length (business_context (ex_scope [33, 33, 33] []))
      \<and> length (business_context (ex_scope [33, 33, 33] [])) \<le> 2000
      \<and> 3 \<le> length (must_have (ex_scope [33, 33, 33] []))
      \<and> length (must_have (ex_scope [33, 33, 33] [])) \<le> 7"
    by (simp add: ex_scope_total ex_scope_count ex_scope_context truediv_int_float_def rnd_values)
  have e: "validate_scope (ex_scope [33, 33, 33] []) (Fin (2476979795053773 / 1125899906842624)) =
       Inr \<lparr>passed = True, issues = [], warnings = [FewConstraints 1]\<rparr>"
    using ex_scope_validate [of "[33, 33, 33]" "[]" "Fin (2476979795053773 / 1125899906842624)"
        "Fin (3 / 4)"]
    by (simp add: truediv_int_float_def rnd_values)
  have l: "py_float (22 / 10) = Fin (2476979795053773 / 1125899906842624)"
    by (simp add: py_float_def rnd_values)
  from validate_scope_passes_within_tolerance
         [of "ex_scope [80, 60, 70] [30]" 4 "Fin 4" "Fin 1"] h
  have "\<exists>r. validate_scope (ex_scope [80, 60, 70] [30]) (Fin 4) = Inr r \<and> passed r \<and> issues r = []"
    by blast
  moreover from validate_scope_passes_within_tolerance
         [of "ex_scope [33, 33, 33] []" 4 "Fin (2476979795053773 / 1125899906842624)" "Fin (3 / 4)"] k
  have "\<exists>r. validate_scope (ex_scope [33, 33, 33] [])
               (Fin (2476979795053773 / 1125899906842624)) = Inr r \<and> passed r \<and> issues r = []"
    by blast
  ultimately show ?thesis
    using h k e l ex_validate_scope_pass by simp
qed
text \<open>
  Claim C4. The bounds on the ratio of the total requirement minutes to \<open>hours * 60\<close> are
  inclusive. Whenever \<open>validate_scope\<close> returns a result, its issues contain a time mismatch
  exactly when the ratio that the source computes is not within [0.75, 1.25]: a computed
  ratio equal to 0.75 or to 1.25 gives no time-mismatch issue, a computed ratio equal to
  0.7499 or to 1.2501 gives one, and the result has not passed. Of the ratio as a rational
  number the same holds for every positive total below \<open>2 ^ 52\<close> minutes: a ratio of exactly
  3/4 or 5/4 gives a result without a time mismatch, and with a positive budget a ratio of
  at most 0.7499 or at least 1.2501 gives a time mismatch in every result returned.
\<close>

theorem validate_scope_ratio_bounds_inclusive:
  "(validate_scope scope hours = Inr r \<longrightarrow>
      (\<exists>ratio. truediv_int_float (total_requirement_minutes scope) (fmul hours (Fin 60)) = Inr ratio
         \<and> ((\<exists>t e y. TimeMismatch t e y \<in> set (issues r)) \<longleftrightarrow>
              \<not> (fle (Fin (3 / 4)) ratio \<and> fle ratio (Fin (5 / 4))))
         \<and> (ratio = Fin (3 / 4) \<or> ratio = Fin (5 / 4) \<longrightarrow>
              (\<forall>t e y. TimeMismatch t e y \<notin> set (issues r)))
         \<and> (ratio = py_float (7499 / 10000) \<or> ratio = py_float (12501 / 10000) \<longrightarrow>
              \<not> passed r
              \<and> TimeMismatch (total_requirement_minutes scope) (fmul hours (Fin 60)) ratio
                   \<in> set (issues r))))
   \<and> (0 < total_requirement_minutes scope \<and> total_requirement_minutes scope < 2 ^ 52
        \<and> (of_int (total_requirement_minutes scope) / (x * 60) = 3 / 4
             \<or> of_int (total_requirement_minutes scope) / (x * 60) = 5 / 4) \<longrightarrow>
      (\<exists>r'. validate_scope scope (Fin x) = Inr r'
         \<and> (\<forall>t e y. TimeMismatch t e y \<notin> set (issues r'))))
   \<and> (0 < total_requirement_minutes scope \<and> total_requirement_minutes scope < 2 ^ 52 \<and> 0 < x
        \<and> (of_int (total_requirement_minutes scope) / (x * 60) \<le> 7499 / 10000
             \<or> 12501 / 10000 \<le> of_int (total_requirement_minutes scope) / (x * 60))
        \<and> validate_scope scope (Fin x) = Inr r' \<longrightarrow>
      \<not> passed r' \<and> (\<exists>e y. TimeMismatch (total_requirement_minutes scope) e y \<in> set (issues r')))"
proof (intro conjI impI)
  assume r: "validate_scope scope hours = Inr r"
  then obtain ratio where
    d: "truediv_int_float (total_requirement_minutes scope) (fmul hours (Fin 60)) = Inr ratio"
    using validate_scope_ratio by blast
  note m = validate_scope_time_mismatch [OF r d]
  have a: "ratio = Fin (3 / 4) \<or> ratio = Fin (5 / 4) \<longrightarrow>
              (\<forall>t e y. TimeMismatch t e y \<notin> set (issues r))"
  proof
    assume "ratio = Fin (3 / 4) \<or> ratio = Fin (5 / 4)"
    then have "fle (Fin (3 / 4)) ratio \<and> fle ratio (Fin (5 / 4))"
      by auto
    then show "\<forall>t e y. TimeMismatch t e y \<notin> set (issues r)"
      using m(1) by blast
  qed
  have b: "ratio = py_float (7499 / 10000) \<or> ratio = py_float (12501 / 10000) \<longrightarrow>
              \<not> passed r
              \<and> TimeMismatch (total_requirement_minutes scope) (fmul hours (Fin 60)) ratio
                   \<in> set (issues r)"
  proof
    assume "ratio = py_float (7499 / 10000) \<or> ratio = py_float (12501 / 10000)"
    then have "\<not> (fle (Fin (3 / 4)) ratio \<and> fle ratio (Fin (5 / 4)))"
      by (auto simp: py_float_def rnd_values)
    then have i: "TimeMismatch (total_requirement_minutes scope) (fmul hours (Fin 60)) ratio
                   \<in> set (issues r)"
      by (rule m(2))
    then have "issues r \<noteq> []" by auto
    then have "\<not> passed r"
      using validate_scope_passed [OF r] by simp
    with i show "\<not> passed r
              \<and> TimeMismatch (total_requirement_minutes scope) (fmul hours (Fin 60)) ratio
                   \<in> set (issues r)" by simp
  qed
  show "\<exists>ratio. truediv_int_float (total_requirement_minutes scope) (fmul hours (Fin 60)) = Inr ratio
         \<and> ((\<exists>t e y. TimeMismatch t e y \<in> set (issues r)) \<longleftrightarrow>
              \<not> (fle (Fin (3 / 4)) ratio \<and> fle ratio (Fin (5 / 4))))
         \<and> (ratio = Fin (3 / 4) \<or> ratio = Fin (5 / 4) \<longrightarrow>
              (\<forall>t e y. TimeMismatch t e y \<notin> set (issues r)))
         \<and> (ratio = py_float (7499 / 10000) \<or> ratio = py_float (12501 / 10000) \<longrightarrow>
              \<not> passed r
              \<and> TimeMismatch (total_requirement_minutes scope) (fmul hours (Fin 60)) ratio
                   \<in> set (issues r))"
    using d m(1) a b by blast
next
  assume h: "0 < total_requirement_minutes scope \<and> total_requirement_minutes scope < 2 ^ 52
        \<and> (of_int (total_requirement_minutes scope) / (x * 60) = 3 / 4
             \<or> of_int (total_requirement_minutes scope) / (x * 60) = 5 / 4)"
  then have "3 / 4 \<le> of_int (total_requirement_minutes scope) / (x * 60)"
      "of_int (total_requirement_minutes scope) / (x * 60) \<le> 5 / 4"
    by auto
  with h obtain y where y:
      "truediv_int_float (total_requirement_minutes scope) (fmul (Fin x) (Fin 60)) = Inr (Fin y)"
      "3 / 4 \<le> y" "y \<le> 5 / 4"
    using time_ratio_within [of "total_requirement_minutes scope" x] by blast
  then obtain r' where r': "validate_scope scope (Fin x) = Inr r'"
    using validate_scope_returns by blast
  have "\<forall>t e y. TimeMismatch t e y \<notin> set (issues r')"
    using validate_scope_time_mismatch(1) [OF r' y(1)] y(2,3) by simp
  with r' show "\<exists>r'. validate_scope scope (Fin x) = Inr r'
         \<and> (\<forall>t e y. TimeMismatch t e y \<notin> set (issues r'))"
    by blast
next
  assume h: "0 < total_requirement_minutes scope \<and> total_requirement_minutes scope < 2 ^ 52 \<and> 0 < x
        \<and> (of_int (total_requirement_minutes scope) / (x * 60) \<le> 7499 / 10000
             \<or> 12501 / 10000 \<le> of_int (total_requirement_minutes scope) / (x * 60))
        \<and> validate_scope scope (Fin x) = Inr r'"
  then have r': "validate_scope scope (Fin x) = Inr r'" by simp
  then obtain ratio where
    d: "truediv_int_float (total_requirement_minutes scope) (fmul (Fin x) (Fin 60)) = Inr ratio"
    using validate_scope_ratio by blast
  have "\<not> (fle (Fin (3 / 4)) ratio \<and> fle ratio (Fin (5 / 4)))"
    using h time_ratio_below [of "total_requirement_minutes scope" x ratio]
      time_ratio_above [of "total_requirement_minutes scope" x ratio] d by blast
  then have i: "TimeMismatch (total_requirement_minutes scope) (fmul (Fin x) (Fin 60)) ratio
                   \<in> set (issues r')"
    by (rule validate_scope_time_mismatch(2) [OF r' d])
  then have "issues r' \<noteq> []" by auto
  then have "\<not> passed r'"
    using validate_scope_passed [OF r'] by simp
  with i show "\<not> passed r'" and
    "\<exists>e y. TimeMismatch (total_requirement_minutes scope) e y \<in> set (issues r')"
    by blast+
qed

theorem validate_scope_ratio_bounds_inclusive_witness:
  "py_float (22 / 10) = Fin (2476979795053773 / 1125899906842624)
   \<and> validate_scope (ex_scope [33, 33, 33] []) (Fin (2476979795053773 / 1125899906842624)) =
       Inr \<lparr>passed = True, issues = [], warnings = [FewConstraints 1]\<rparr>
   \<and> truediv_int_float (total_requirement_minutes (ex_scope [33, 33, 33] []))
       (fmul (Fin (2476979795053773 / 1125899906842624)) (Fin 60)) = Inr (Fin (3 / 4))
   \<and> py_float (24 / 10) = Fin (5404319552844595 / 2251799813685248)
   \<and> validate_scope (ex_scope [60, 60, 60] []) (Fin (5404319552844595 / 2251799813685248)) =
       Inr \<lparr>passed = True, issues = [], warnings = [FewConstraints 1]\<rparr>
   \<and> truediv_int_float (total_requirement_minutes (ex_scope [60, 60, 60] []))
       (fmul (Fin (5404319552844595 / 2251799813685248)) (Fin 60)) = Inr (Fin (5 / 4))
   \<and> rnd (2252100093697741 / 1125899906842624) = Fin (2252100093697741 / 1125899906842624)
   \<and> (2 :: rat) \<le> 2252100093697741 / 1125899906842624
   \<and> (2252100093697741 / 1125899906842624 :: rat) \<le> 8
   \<and> validate_scope (ex_scope [30, 30, 30] []) (Fin (2252100093697741 / 1125899906842624)) =
       Inr \<lparr>passed = False,
            issues = [TimeMismatch 90 (Fin (8445375351366529 / 70368744177664))
                        (py_float (7499 / 10000))],
            warnings = [FewConstraints 1]\<rparr>
   \<and> rnd (4563282559797319 / 2251799813685248) = Fin (4563282559797319 / 2251799813685248)
   \<and> (2 :: rat) \<le> 4563282559797319 / 2251799813685248
   \<and> (4563282559797319 / 2251799813685248 :: rat) \<le> 8
   \<and> validate_scope (ex_scope [50, 51, 51] []) (Fin (4563282559797319 / 2251799813685248)) =
       Inr \<lparr>passed = False,
            issues = [TimeMismatch 152 (Fin (8556154799619973 / 70368744177664))
                        (py_float (12501 / 10000))],
            warnings = [FewConstraints 1]\<rparr>
   \<and> of_int (total_requirement_minutes (ex_scope [60, 60, 60] [])) / ((4::rat) * 60) = 3 / 4
   \<and> validate_scope (ex_scope [60, 60, 60] []) (Fin 4) =
       Inr \<lparr>passed = True, issues = [], warnings = [FewConstraints 1]\<rparr>
   \<and> of_int (total_requirement_minutes (ex_scope [100, 100, 100] [])) / ((4::rat) * 60) = 5 / 4
   \<and> validate_scope (ex_scope [100, 100, 100] []) (Fin 4) =
       Inr \<lparr>passed = True, issues = [], warnings = [FewConstraints 1]\<rparr>
   \<and> of_int (total_requirement_minutes (ex_scope [7499, 7499, 7499] [])) / ((500::rat) * 60)
       = 7499 / 10000
   \<and> validate_scope (ex_scope [7499, 7499, 7499] []) (Fin 500) =
       Inr \<lparr>passed = False,
            issues = [TimeMismatch 22497 (Fin 30000) (py_float (7499 / 10000))],
            warnings = [FewConstraints 1]\<rparr>
   \<and> of_int (total_requirement_minutes (ex_scope [12501, 12501, 12501] [])) / ((500::rat) * 60)
       = 12501 / 10000
   \<and> validate_scope (ex_scope [12501, 12501, 12501] []) (Fin 500) =
       Inr \<lparr>passed = False,
            issues = [TimeMismatch 37503 (Fin 30000) (py_float (12501 / 10000))],
            warnings = [FewConstraints 1]\<rparr>"
proof -
  let ?h22 = "Fin (2476979795053773 / 1125899906842624)"
  let ?h24 = "Fin (5404319552844595 / 2251799813685248)"
  let ?ha = "Fin (2252100093697741 / 1125899906842624)"
  let ?hb = "Fin (4563282559797319 / 2251799813685248)"
  have v: "validate_scope (ex_scope [33, 33, 33] []) ?h22 =
       Inr \<lparr>passed = True, issues = [], warnings = [FewConstraints 1]\<rparr>"
      "validate_scope (ex_scope [60, 60, 60] []) ?h24 =
       Inr \<lparr>passed = True, issues = [], warnings = [FewConstraints 1]\<rparr>"
      "validate_scope (ex_scope [30, 30, 30] []) ?ha =
       Inr \<lparr>passed = False,
            issues = [TimeMismatch 90 (Fin (8445375351366529 / 70368744177664))
                        (py_float (7499 / 10000))],
            warnings = [FewConstraints 1]\<rparr>"
      "validate_scope (ex_scope [50, 51, 51] []) ?hb =
       Inr \<lparr>passed = False,
            issues = [TimeMismatch 152 (Fin (8556154799619973 / 70368744177664))
                        (py_float (12501 / 10000))],
            warnings = [FewConstraints 1]\<rparr>"
      "validate_scope (ex_scope [60, 60, 60] []) (Fin 4) =
       Inr \<lparr>passed = True, issues = [], warnings = [FewConstraints 1]\<rparr>"
      "validate_scope (ex_scope [100, 100, 100] []) (Fin 4) =
       Inr \<lparr>passed = True, issues = [], warnings = [FewConstraints 1]\<rparr>"
      "validate_scope (ex_scope [7499, 7499, 7499] []) (Fin 500) =
       Inr \<lparr>passed = False,
            issues = [TimeMismatch 22497 (Fin 30000) (py_float (7499 / 10000))],
            warnings = [FewConstraints 1]\<rparr>"
      "validate_scope (ex_scope [12501, 12501, 12501] []) (Fin 500) =
       Inr \<lparr>passed = False,
            issues = [TimeMismatch 37503 (Fin 30000) (py_float (12501 / 10000))],
            warnings = [FewConstraints 1]\<rparr>"
    using ex_scope_validate [of "[33, 33, 33]" "[]" ?h22 "Fin (3 / 4)"]
      ex_scope_validate [of "[60, 60, 60]" "[]" ?h24 "Fin (5 / 4)"]
      ex_scope_validate [of "[30, 30, 30]" "[]" ?ha "py_float (7499 / 10000)"]
      ex_scope_validate [of "[50, 51, 51]" "[]" ?hb "py_float (12501 / 10000)"]
      ex_scope_validate [of "[60, 60, 60]" "[]" "Fin 4" "Fin (3 / 4)"]
      ex_scope_validate [of "[100, 100, 100]" "[]" "Fin 4" "Fin (5 / 4)"]
      ex_scope_validate [of "[7499, 7499, 7499]" "[]" "Fin 500" "py_float (7499 / 10000)"]
      ex_scope_validate [of "[12501, 12501, 12501]" "[]" "Fin 500" "py_float (12501 / 10000)"]
    by (simp_all add: truediv_int_float_def py_float_def rnd_values)
  have d: "truediv_int_float (total_requirement_minutes (ex_scope [33, 33, 33] []))
       (fmul ?h22 (Fin 60)) = Inr (Fin (3 / 4))"
      "truediv_int_float (total_requirement_minutes (ex_scope [60, 60, 60] []))
       (fmul ?h24 (Fin 60)) = Inr (Fin (5 / 4))"
    by (simp_all add: ex_scope_total truediv_int_float_def rnd_values)
  have l: "py_float (22 / 10) = ?h22" "py_float (24 / 10) = ?h24" "rnd (2252100093697741 / 1125899906842624) = ?ha"
      "rnd (4563282559797319 / 2251799813685248) = ?hb"
    by (simp_all add: py_float_def rnd_values)
  have q: "of_int (total_requirement_minutes (ex_scope [60, 60, 60] [])) / ((4::rat) * 60) = 3 / 4"
      "of_int (total_requirement_minutes (ex_scope [100, 100, 100] [])) / ((4::rat) * 60) = 5 / 4"
      "of_int (total_requirement_minutes (ex_scope [7499, 7499, 7499] [])) / ((500::rat) * 60)
         = 7499 / 10000"
      "of_int (total_requirement_minutes (ex_scope [12501, 12501, 12501] [])) / ((500::rat) * 60)
         = 12501 / 10000"
    by (simp_all add: ex_scope_total)
  have b: "0 < total_requirement_minutes (ex_scope [60, 60, 60] [])"
      "total_requirement_minutes (ex_scope [60, 60, 60] []) < 2 ^ 52"
      "0 < total_requirement_minutes (ex_scope [7499, 7499, 7499] [])"
      "total_requirement_minutes (ex_scope [7499, 7499, 7499] []) < 2 ^ 52"
    by (simp_all add: ex_scope_total)
  note t1 = validate_scope_ratio_bounds_inclusive
      [of "ex_scope [60, 60, 60] []" ?h24
          "\<lparr>passed = True, issues = [], warnings = [FewConstraints 1]\<rparr>" 4]
  note t2 = validate_scope_ratio_bounds_inclusive
      [of "ex_scope [7499, 7499, 7499] []" "Fin 500"
          "\<lparr>passed = False,
            issues = [TimeMismatch 22497 (Fin 30000) (py_float (7499 / 10000))],
            warnings = [FewConstraints 1]\<rparr>" 500
          "\<lparr>passed = False,
            issues = [TimeMismatch 22497 (Fin 30000) (py_float (7499 / 10000))],
            warnings = [FewConstraints 1]\<rparr>"]
  have w1: "\<exists>r'. validate_scope (ex_scope [60, 60, 60] []) (Fin 4) = Inr r'
              \<and> (\<forall>t e y. TimeMismatch t e y \<notin> set (issues r'))"
    using t1 b(1,2) q(1) by blast
  have w2: "\<exists>ratio. truediv_int_float (total_requirement_minutes (ex_scope [60, 60, 60] []))
                (fmul ?h24 (Fin 60)) = Inr ratio"
    using t1 v(2) by blast
  have w3: "\<not> passed \<lparr>passed = False,
            issues = [TimeMismatch 22497 (Fin 30000) (py_float (7499 / 10000))],
            warnings = [FewConstraints 1]\<rparr>"
    using t2 b(3,4) q(3) v(7) by simp
  show ?thesis
    using v d l q w1 w2 w3 by simp
qed

section \<open>The result of a validator\<close>

text \<open>
  Claim C5. Each of the three validators returns results in which \<open>passed\<close> holds exactly
  when the list of issues is empty: \<open>validate_context_extraction\<close> and \<open>validate_rubric\<close>
  for every input, and \<open>validate_scope\<close> in every result that it returns. \<open>validate_scope\<close>
  returns a result exactly when the division of the total by \<open>time_budget_hours * 60\<close>
  returns a float, which it does for every budget between 2 and 8 hours, the budgets that
  \<^verbatim>\<open>AssignmentInput\<close> admits, and every total between 0 and \<open>2 ^ 1023\<close> minutes; for such
  an input with positive estimates the validation phase of the generator returns a result
  with the same property.
\<close>

theorem validators_passed_iff_no_issues:
  "(passed (validate_context_extraction context) \<longleftrightarrow>
      issues (validate_context_extraction context) = [])
   \<and> (passed (validate_rubric py_sum rubric) \<longleftrightarrow> issues (validate_rubric py_sum rubric) = [])
   \<and> (validate_scope scope hours = Inr r \<longrightarrow> (passed r \<longleftrightarrow> issues r = []))
   \<and> ((\<exists>r. validate_scope scope hours = Inr r) \<longleftrightarrow>
        (\<exists>ratio. truediv_int_float (total_requirement_minutes scope) (fmul hours (Fin 60))
                   = Inr ratio))
   \<and> (2 \<le> x \<and> x \<le> 8
        \<and> 0 \<le> total_requirement_minutes scope \<and> total_requirement_minutes scope \<le> 2 ^ 1023 \<longrightarrow>
        (\<exists>r. validate_scope scope (Fin x) = Inr r \<and> (passed r \<longleftrightarrow> issues r = [])))
   \<and> (AssignmentInput_valid input_data
        \<and> (\<forall>req\<in>set (all_requirements scope). 0 < estimated_time_minutes req)
        \<and> total_requirement_minutes scope \<le> 2 ^ 1023 \<longrightarrow>
        (\<exists>v. validate_scope_phase scope input_data = Inr v
           \<and> (passed_sv v \<longleftrightarrow> issues_sv v = [])))"
proof (intro conjI impI)
  show "passed (validate_context_extraction context) \<longleftrightarrow>
      issues (validate_context_extraction context) = []"
    by (simp add: validate_context_extraction_def Let_def)
  show "passed (validate_rubric py_sum rubric) \<longleftrightarrow> issues (validate_rubric py_sum rubric) = []"
    by (rule validate_rubric_passed)
  show "(\<exists>r. validate_scope scope hours = Inr r) \<longleftrightarrow>
        (\<exists>ratio. truediv_int_float (total_requirement_minutes scope) (fmul hours (Fin 60))
                   = Inr ratio)"
    using validate_scope_ratio [of scope hours] validate_scope_returns [of scope hours] by blast
next
  assume "validate_scope scope hours = Inr r"
  then show "passed r \<longleftrightarrow> issues r = []"
    by (simp add: validate_scope_passed)
next
  assume "2 \<le> x \<and> x \<le> 8
        \<and> 0 \<le> total_requirement_minutes scope \<and> total_requirement_minutes scope \<le> 2 ^ 1023"
  then obtain ratio where
    "truediv_int_float (total_requirement_minutes scope) (fmul (Fin x) (Fin 60)) = Inr ratio"
    using time_ratio_total [of x "total_requirement_minutes scope"] by blast
  then obtain r where r: "validate_scope scope (Fin x) = Inr r"
    using validate_scope_returns by blast
  then show "\<exists>r. validate_scope scope (Fin x) = Inr r \<and> (passed r \<longleftrightarrow> issues r = [])"
    using validate_scope_passed [OF r] by blast
next
  assume h: "AssignmentInput_valid input_data
        \<and> (\<forall>req\<in>set (all_requirements scope). 0 < estimated_time_minutes req)
        \<and> total_requirement_minutes scope \<le> 2 ^ 1023"
  then have b: "2 \<le> time_budget_hours input_data" "time_budget_hours input_data \<le> 8"
    by (simp_all add: AssignmentInput_valid_def)
  have "0 \<le> total_requirement_minutes scope"
    using h total_time_of_nonneg [of "all_requirements scope"]
    by (simp add: total_time_all_requirements)
  then obtain ratio where
    "truediv_int_float (total_requirement_minutes scope)
       (fmul (Fin (time_budget_hours input_data)) (Fin 60)) = Inr ratio"
    using h b time_ratio_total [of "time_budget_hours input_data" "total_requirement_minutes scope"]
    by blast
  then obtain r where r: "validate_scope scope (Fin (time_budget_hours input_data)) = Inr r"
    using validate_scope_returns by blast
  obtain ws where ws: "generate_scope_warnings scope (seniority_level input_data)
                         (Fin (time_budget_hours input_data)) = Inr ws"
    using h generate_scope_warnings_returns by blast
  show "\<exists>v. validate_scope_phase scope input_data = Inr v
           \<and> (passed_sv v \<longleftrightarrow> issues_sv v = [])"
    using validate_scope_passed [OF r] by (simp add: validate_scope_phase_def r ws)
qed

theorem validators_passed_iff_no_issues_witness:
  "(2::rat) \<le> 4 \<and> (4::rat) \<le> 8
   \<and> 0 \<le> total_requirement_minutes (ex_scope [80, 60, 70] [30])
   \<and> total_requirement_minutes (ex_scope [80, 60, 70] [30]) \<le> 2 ^ 1023
   \<and> AssignmentInput_valid (ex_input 4 ''senior'')
   \<and> list_all (\<lambda>req. 0 < estimated_time_minutes req) (all_requirements (ex_scope [80, 60, 70] [30]))
   \<and> validate_scope (ex_scope [80, 60, 70] [30]) (Fin 4) =
       Inr \<lparr>passed = True, issues = [], warnings = [FewConstraints 1]\<rparr>
   \<and> validate_scope (ex_scope [60] []) (Fin 4) =
       Inr \<lparr>passed = False, issues = [TimeMismatch 60 (Fin 240) (Fin (1 / 4)), TooFewMustHave 1],
            warnings = [FewConstraints 1]\<rparr>
   \<and> validate_scope_phase (ex_scope [80, 60, 70] [30]) (ex_input 4 ''senior'') =
       Inr \<lparr>passed_sv = True, issues_sv = [],
            warnings_sv = [FewConstraints 1, SeniorityMismatch ''senior'']\<rparr>
   \<and> passed (validate_context_extraction ex_context)
   \<and> issues (validate_context_extraction ex_context) = []
   \<and> \<not> passed (validate_rubric sum_left_to_right
                   [ex_item ''API Design'' (1 / 4) ''1-5 scale'',
                    ex_item ''Error Handling'' (1 / 4) ''1-5 scale''])
   \<and> issues (validate_rubric sum_left_to_right
                [ex_item ''API Design'' (1 / 4) ''1-5 scale'',
                 ex_item ''Error Handling'' (1 / 4) ''1-5 scale'']) =
       [TooFewRubricItems 2, WeightSum (Fin (1 / 2))]"
proof -
  let ?rubric = "[ex_item ''API Design'' (1 / 4) ''1-5 scale'',
                  ex_item ''Error Handling'' (1 / 4) ''1-5 scale'']"
  note a = ex_validate_scope_pass and b = ex_validate_scope_fail
  have c: "issues (validate_context_extraction ex_context) = []"
    by (simp add: ex_context_valid)
  have d: "issues (validate_rubric sum_left_to_right ?rubric) =
             [TooFewRubricItems 2, WeightSum (Fin (1 / 2))]"
    by (simp add: validate_rubric_issues ex_item_fields ex_guide_not_blank ex_sums ex_deviations)
  have e: "AssignmentInput_valid (ex_input 4 ''senior'')"
    by (simp add: AssignmentInput_valid_def ex_input_def)
  have f: "\<forall>req\<in>set (all_requirements (ex_scope [80, 60, 70] [30])). 0 < estimated_time_minutes req"
    by (simp add: all_requirements_def ex_scope_def ex_req_def)
  have g: "0 \<le> total_requirement_minutes (ex_scope [80, 60, 70] [30])"
      "total_requirement_minutes (ex_scope [80, 60, 70] [30]) \<le> 2 ^ 1023"
    by (simp_all add: ex_scope_total)
  note t = validators_passed_iff_no_issues [of ex_context sum_left_to_right ?rubric
      "ex_scope [80, 60, 70] [30]" "Fin 4"
      "\<lparr>passed = True, issues = [], warnings = [FewConstraints 1]\<rparr>" 4 "ex_input 4 ''senior''"]
  have p1: "passed (validate_context_extraction ex_context)"
    using t c by blast
  have p2: "\<not> passed (validate_rubric sum_left_to_right ?rubric)"
    using t d by simp
  have p3: "\<exists>r. validate_scope (ex_scope [80, 60, 70] [30]) (Fin 4) = Inr r
              \<and> (passed r \<longleftrightarrow> issues r = [])"
    using t g by simp
  have p4: "\<exists>v. validate_scope_phase (ex_scope [80, 60, 70] [30]) (ex_input 4 ''senior'') = Inr v
              \<and> (passed_sv v \<longleftrightarrow> issues_sv v = [])"
    using t e f g(2) by blast
  show ?thesis
    using a b c d e f g p1 p2 ex_validate_scope_phase_pass by (simp add: list_all_iff)
qed
section \<open>The validity flag of a time breakdown\<close>

text \<open>
  Claim C10. Every \<^verbatim>\<open>TimeBreakdown\<close> accepted by model validation has
  \<open>breakdown_valid\<close> equal to the test that the total differs from the sum of the five
  category minutes by less than 5, whatever boolean was supplied: replacing the supplied
  boolean by any other gives the same model. The comparison is strict, so a difference of
  exactly 5 minutes makes \<open>breakdown_valid\<close> false.
\<close>

theorem TimeBreakdown_breakdown_valid_recomputed:
  assumes "TimeBreakdown_init kw = Some tb"
  shows "breakdown_valid tb =
           (\<bar>total_minutes tb - (setup_minutes tb + core_implementation_minutes tb
              + testing_minutes tb + documentation_minutes tb + buffer_minutes tb)\<bar> < 5)
         \<and> (\<bar>total_minutes tb - (setup_minutes tb + core_implementation_minutes tb
              + testing_minutes tb + documentation_minutes tb + buffer_minutes tb)\<bar> = 5
            \<longrightarrow> \<not> breakdown_valid tb)
         \<and> TimeBreakdown_init (kw\<lparr>breakdown_valid_kw := Given b\<rparr>) = Some tb"
proof -
  have v: "breakdown_valid tb =
           (\<bar>total_minutes tb - (setup_minutes tb + core_implementation_minutes tb
              + testing_minutes tb + documentation_minutes tb + buffer_minutes tb)\<bar> < 5)"
    using assms unfolding TimeBreakdown_init_eq_Some by blast
  have "TimeBreakdown_init (kw\<lparr>breakdown_valid_kw := Given b\<rparr>) = Some tb"
    using assms unfolding TimeBreakdown_init_eq_Some by simp
  with v show ?thesis by simp
qed

theorem TimeBreakdown_breakdown_valid_recomputed_witness:
  "TimeBreakdown_init (ex_time_kwargs 245 True) = Some (ex_time_breakdown 245 False)
   \<and> \<bar>total_minutes (ex_time_breakdown 245 False)
        - (setup_minutes (ex_time_breakdown 245 False)
           + core_implementation_minutes (ex_time_breakdown 245 False)
           + testing_minutes (ex_time_breakdown 245 False)
           + documentation_minutes (ex_time_breakdown 245 False)
           + buffer_minutes (ex_time_breakdown 245 False))\<bar> = 5
   \<and> breakdown_valid_kw (ex_time_kwargs 245 True) = Given True
   \<and> \<not> breakdown_valid (ex_time_breakdown 245 False)
   \<and> TimeBreakdown_init (ex_time_kwargs 245 False) = Some (ex_time_breakdown 245 False)"
proof -
  have h: "TimeBreakdown_init (ex_time_kwargs 245 True) = Some (ex_time_breakdown 245 False)"
    using ex_time_init [of 245 True] by simp
  have k: "(ex_time_kwargs 245 True)\<lparr>breakdown_valid_kw := Given False\<rparr> = ex_time_kwargs 245 False"
    by (simp add: ex_time_kwargs_def)
  show ?thesis
    using h TimeBreakdown_breakdown_valid_recomputed [OF h, of False]
    by (simp add: k) (simp add: ex_time_breakdown_def ex_time_kwargs_def)
qed

section \<open>Rubric validation\<close>

text \<open>
  Claim C3 says that \<open>validate_rubric\<close> passes exactly when there are at least 3 items,
  the weights sum to within 0.01 of 1, every weight is positive and every scoring guide is
  non-empty, and that a weight below 0.05 gives a warning and never a blocking issue. The
  source tests a text with \<^verbatim>\<open>not s or not s.strip()\<close>: a scoring guide of one space is not
  the empty string, and it is a blocking issue. The source warns about a weight only when
  \<^verbatim>\<open>0 < item.weight < 0.05\<close>: a weight of 0 is below 0.05, gives a blocking issue and no
  warning. The source sums the weights in floating point and compares the float
  \<^verbatim>\<open>abs(weight_sum - 1.0)\<close> with the float 0.01: three weights of 0.33 have an exact sum
  within 0.01 of 1, their float sum is the double nearest to 0.99 under either summation,
  its distance to 1.0 is a double above the double 0.01, and the rubric is blocked.
\<close>

theorem validate_rubric_blank_guide_counterexample:
  "length ex_rubric_blank_guide = 3
   \<and> map weight ex_rubric_blank_guide = [1 / 4, 1 / 4, 1 / 2]
   \<and> sum_list (map weight ex_rubric_blank_guide) = 1
   \<and> map scoring_guide ex_rubric_blank_guide = [''1-5 scale'', '' '', ''1-5 scale'']
   \<and> validate_rubric sum_left_to_right ex_rubric_blank_guide =
       \<lparr>passed = False, issues = [EmptyScoringGuide ''Error Handling''], warnings = []\<rparr>
   \<and> validate_rubric sum_compensated ex_rubric_blank_guide =
       \<lparr>passed = False, issues = [EmptyScoringGuide ''Error Handling''], warnings = []\<rparr>
   \<and> map weight ex_rubric_zero_weight = [0, 1 / 2, 1 / 2]
   \<and> validate_rubric sum_left_to_right ex_rubric_zero_weight =
       \<lparr>passed = False, issues = [InvalidWeight ''Documentation'' 0], warnings = []\<rparr>
   \<and> length ex_rubric_thirds = 3
   \<and> py_float (33 / 100) = Fin (5944751508129055 / 18014398509481984)
   \<and> map weight ex_rubric_thirds =
       [5944751508129055 / 18014398509481984, 5944751508129055 / 18014398509481984,
        5944751508129055 / 18014398509481984]
   \<and> \<bar>sum_list (map weight ex_rubric_thirds) - 1\<bar> \<le> 1 / 100
   \<and> map scoring_guide ex_rubric_thirds = [''1-5 scale'', ''1-5 scale'', ''1-5 scale'']
   \<and> validate_rubric sum_left_to_right ex_rubric_thirds =
       \<lparr>passed = False, issues = [WeightSum (Fin (4458563631096791 / 4503599627370496))],
        warnings = []\<rparr>
   \<and> validate_rubric sum_compensated ex_rubric_thirds =
       \<lparr>passed = False, issues = [WeightSum (Fin (4458563631096791 / 4503599627370496))],
        warnings = []\<rparr>"
proof -
  have a: "validate_rubric sum_left_to_right ex_rubric_blank_guide =
       \<lparr>passed = False, issues = [EmptyScoringGuide ''Error Handling''], warnings = []\<rparr>"
    by (rule ValidationResult_eqI)
       (simp_all add: validate_rubric_passed validate_rubric_issues validate_rubric_warnings
          ex_rubric_blank_guide_def ex_item_fields ex_guide_not_blank ex_sums py_float_values
          fsub_def rnd_values)
  have a': "validate_rubric sum_compensated ex_rubric_blank_guide =
       \<lparr>passed = False, issues = [EmptyScoringGuide ''Error Handling''], warnings = []\<rparr>"
    by (rule ValidationResult_eqI)
       (simp_all add: validate_rubric_passed validate_rubric_issues validate_rubric_warnings
          ex_rubric_blank_guide_def ex_item_fields ex_guide_not_blank ex_sum_compensated
          py_float_values fsub_def rnd_values)
  have b: "validate_rubric sum_left_to_right ex_rubric_zero_weight =
       \<lparr>passed = False, issues = [InvalidWeight ''Documentation'' 0], warnings = []\<rparr>"
    by (rule ValidationResult_eqI)
       (simp_all add: validate_rubric_passed validate_rubric_issues validate_rubric_warnings
          ex_rubric_zero_weight_def ex_item_fields ex_guide_not_blank ex_sums py_float_values
          fsub_def rnd_values)
  have c: "validate_rubric sum_left_to_right ex_rubric_thirds =
       \<lparr>passed = False, issues = [WeightSum (Fin (4458563631096791 / 4503599627370496))],
        warnings = []\<rparr>"
    by (rule ValidationResult_eqI)
       (simp_all add: validate_rubric_passed validate_rubric_issues validate_rubric_warnings
          ex_rubric_thirds_def ex_item_fields ex_guide_not_blank ex_sums py_float_values
          fsub_def rnd_values)
  have c': "validate_rubric sum_compensated ex_rubric_thirds =
       \<lparr>passed = False, issues = [WeightSum (Fin (4458563631096791 / 4503599627370496))],
        warnings = []\<rparr>"
    by (rule ValidationResult_eqI)
       (simp_all add: validate_rubric_passed validate_rubric_issues validate_rubric_warnings
          ex_rubric_thirds_def ex_item_fields ex_guide_not_blank ex_sum_compensated
          py_float_values fsub_def rnd_values)
  have d: "py_float (33 / 100) = Fin (5944751508129055 / 18014398509481984)"
    by (simp add: py_float_def rnd_values)
  show ?thesis
    using a a' b c c' d
    by (simp add: ex_rubric_blank_guide_def ex_rubric_zero_weight_def ex_rubric_thirds_def
          ex_item_fields)
qed

text \<open>
  Claim C3, amended. \<open>validate_rubric\<close> passes exactly when the rubric has at least 3
  items, the float \<^verbatim>\<open>abs(weight_sum - 1.0)\<close>, with \<^verbatim>\<open>weight_sum\<close> the float sum of the
  weights, is not greater than the float 0.01, every weight is strictly greater than 0 and
  every scoring guide has a character that is not white space; this holds whichever way the
  interpreter sums. More than 7 items, a weight strictly between 0 and the float 0.05, and a
  junior, mid or senior expectation that is empty or all white space each give a warning;
  every issue is one of the four blocking kinds, so none of these conditions is ever a
  blocking issue.
\<close>

theorem validate_rubric_blocking_and_warnings:
  "(passed (validate_rubric py_sum rubric) \<longleftrightarrow>
      3 \<le> length rubric
      \<and> \<not> flt (py_float (1 / 100)) (fabs (fsub (py_sum (map weight rubric)) (py_float 1)))
      \<and> (\<forall>item\<in>set rubric. 0 < weight item)
      \<and> (\<forall>item\<in>set rubric. \<exists>c\<in>set (scoring_guide item). \<not> py_isspace c))
   \<and> (7 < length rubric \<longrightarrow>
        ManyRubricItems (length rubric) \<in> set (warnings (validate_rubric py_sum rubric)))
   \<and> (\<forall>item\<in>set rubric.
        (0 < weight item \<and> flt (Fin (weight item)) (py_float (1 / 20)) \<longrightarrow>
           SmallWeight (area item) (weight item) \<in> set (warnings (validate_rubric py_sum rubric)))
        \<and> ((\<forall>c\<in>set (junior_expectation item). py_isspace c) \<longrightarrow>
           EmptyJuniorExpectation (area item) \<in> set (warnings (validate_rubric py_sum rubric)))
        \<and> ((\<forall>c\<in>set (mid_expectation item). py_isspace c) \<longrightarrow>
           EmptyMidExpectation (area item) \<in> set (warnings (validate_rubric py_sum rubric)))
        \<and> ((\<forall>c\<in>set (senior_expectation item). py_isspace c) \<longrightarrow>
           EmptySeniorExpectation (area item) \<in> set (warnings (validate_rubric py_sum rubric))))
   \<and> (\<forall>m\<in>set (issues (validate_rubric py_sum rubric)).
        (\<exists>n. m = TooFewRubricItems n) \<or> (\<exists>x. m = WeightSum x)
        \<or> (\<exists>a x. m = InvalidWeight a x) \<or> (\<exists>a. m = EmptyScoringGuide a))"
proof (intro conjI)
  show "passed (validate_rubric py_sum rubric) \<longleftrightarrow>
      3 \<le> length rubric
      \<and> \<not> flt (py_float (1 / 100)) (fabs (fsub (py_sum (map weight rubric)) (py_float 1)))
      \<and> (\<forall>item\<in>set rubric. 0 < weight item)
      \<and> (\<forall>item\<in>set rubric. \<exists>c\<in>set (scoring_guide item). \<not> py_isspace c)"
    unfolding validate_rubric_passed_iff is_blank_iff by simp
  show "7 < length rubric \<longrightarrow>
        ManyRubricItems (length rubric) \<in> set (warnings (validate_rubric py_sum rubric))"
    unfolding validate_rubric_warnings by simp
  show "\<forall>item\<in>set rubric.
        (0 < weight item \<and> flt (Fin (weight item)) (py_float (1 / 20)) \<longrightarrow>
           SmallWeight (area item) (weight item) \<in> set (warnings (validate_rubric py_sum rubric)))
        \<and> ((\<forall>c\<in>set (junior_expectation item). py_isspace c) \<longrightarrow>
           EmptyJuniorExpectation (area item) \<in> set (warnings (validate_rubric py_sum rubric)))
        \<and> ((\<forall>c\<in>set (mid_expectation item). py_isspace c) \<longrightarrow>
           EmptyMidExpectation (area item) \<in> set (warnings (validate_rubric py_sum rubric)))
        \<and> ((\<forall>c\<in>set (senior_expectation item). py_isspace c) \<longrightarrow>
           EmptySeniorExpectation (area item) \<in> set (warnings (validate_rubric py_sum rubric)))"
  proof (intro ballI conjI impI)
    fix item
    assume i: "item \<in> set rubric"
    have mem: "m \<in> set (g item) \<Longrightarrow> m \<in> set (concat (map g rubric))" for m :: message and g
      using i by auto
    {
      assume "0 < weight item \<and> flt (Fin (weight item)) (py_float (1 / 20))"
      then show "SmallWeight (area item) (weight item) \<in> set (warnings (validate_rubric py_sum rubric))"
        unfolding validate_rubric_warnings set_append Un_iff
        by (intro disjI2 disjI1 mem) simp
    }
    {
      assume "\<forall>c\<in>set (junior_expectation item). py_isspace c"
      then have "is_blank (junior_expectation item)" by (simp add: is_blank_iff)
      then show "EmptyJuniorExpectation (area item) \<in> set (warnings (validate_rubric py_sum rubric))"
        unfolding validate_rubric_warnings set_append Un_iff
        by (intro disjI2 mem) simp
    }
    {
      assume "\<forall>c\<in>set (mid_expectation item). py_isspace c"
      then have "is_blank (mid_expectation item)" by (simp add: is_blank_iff)
      then show "EmptyMidExpectation (area item) \<in> set (warnings (validate_rubric py_sum rubric))"
        unfolding validate_rubric_warnings set_append Un_iff
        by (intro disjI2 mem) simp
    }
    {
      assume "\<forall>c\<in>set (senior_expectation item). py_isspace c"
      then have "is_blank (senior_expectation item)" by (simp add: is_blank_iff)
      then show "EmptySeniorExpectation (area item) \<in> set (warnings (validate_rubric py_sum rubric))"
        unfolding validate_rubric_warnings set_append Un_iff
        by (intro disjI2 mem) simp
    }
  qed
  show "\<forall>m\<in>set (issues (validate_rubric py_sum rubric)).
        (\<exists>n. m = TooFewRubricItems n) \<or> (\<exists>x. m = WeightSum x)
        \<or> (\<exists>a x. m = InvalidWeight a x) \<or> (\<exists>a. m = EmptyScoringGuide a)"
    unfolding validate_rubric_issues
    by (auto split: if_splits)
qed

theorem validate_rubric_blocking_and_warnings_witness:
  "passed (validate_rubric sum_left_to_right ex_rubric_warned)
   \<and> issues (validate_rubric sum_left_to_right ex_rubric_warned) = []
   \<and> SmallWeight ''Documentation'' (1 / 32)
       \<in> set (warnings (validate_rubric sum_left_to_right ex_rubric_warned))
   \<and> EmptyJuniorExpectation ''Documentation''
       \<in> set (warnings (validate_rubric sum_left_to_right ex_rubric_warned))
   \<and> EmptyMidExpectation ''Documentation''
       \<in> set (warnings (validate_rubric sum_left_to_right ex_rubric_warned))
   \<and> warnings (validate_rubric sum_left_to_right ex_rubric_warned) =
       [SmallWeight ''Documentation'' (1 / 32), EmptyJuniorExpectation ''Documentation'',
        EmptyMidExpectation ''Documentation'']"
proof -
  let ?d = "\<lparr>area = ''Documentation'', weight = 1 / 32, junior_expectation = '''',
       mid_expectation = ''  '', senior_expectation = ''Clear README'',
       scoring_guide = ''1-5 scale''\<rparr>"
  let ?v = "validate_rubric sum_left_to_right ex_rubric_warned"
  have s: "sum_left_to_right (map weight ex_rubric_warned) = Fin 1"
    by (simp add: ex_rubric_warned_def ex_item_fields ex_sums)
  have cond: "3 \<le> length ex_rubric_warned"
      "\<not> flt (py_float (1 / 100))
           (fabs (fsub (sum_left_to_right (map weight ex_rubric_warned)) (py_float 1)))"
      "\<forall>item\<in>set ex_rubric_warned. 0 < weight item"
      "\<forall>item\<in>set ex_rubric_warned. \<exists>c\<in>set (scoring_guide item). \<not> py_isspace c"
    unfolding s by (simp_all add: ex_rubric_warned_def ex_item_fields not_space_digit ex_deviations)
  have d: "?d \<in> set ex_rubric_warned"
      "0 < weight ?d \<and> flt (Fin (weight ?d)) (py_float (1 / 20))"
      "\<forall>c\<in>set (junior_expectation ?d). py_isspace c"
      "\<forall>c\<in>set (mid_expectation ?d). py_isspace c"
    by (simp_all add: ex_rubric_warned_def py_isspace_def py_float_values)
  note t = validate_rubric_blocking_and_warnings [of sum_left_to_right ex_rubric_warned]
  have p: "passed ?v"
    using t cond by blast
  have w: "SmallWeight (area ?d) (weight ?d) \<in> set (warnings ?v)"
      "EmptyJuniorExpectation (area ?d) \<in> set (warnings ?v)"
      "EmptyMidExpectation (area ?d) \<in> set (warnings ?v)"
    using t d by blast+
  have i: "issues ?v = []"
    using p by (simp add: validate_rubric_passed)
  have e: "warnings ?v =
       [SmallWeight ''Documentation'' (1 / 32), EmptyJuniorExpectation ''Documentation'',
        EmptyMidExpectation ''Documentation'']"
    by (simp add: validate_rubric_warnings ex_rubric_warned_def ex_item_fields ex_guide_not_blank
          py_float_values)
  show ?thesis
    using p i w e by simp
qed
section \<open>The time-breakdown phase\<close>

text \<open>
  Claim C1 says that the \<open>breakdown_valid\<close> of every time breakdown produced by the
  pipeline is the boolean that the capability supplied, never recomputed from the minutes.
  \<^verbatim>\<open>_generate_time_breakdown\<close> builds the model with \<^verbatim>\<open>TimeBreakdown(**response)\<close>, whose
  field validator \<^verbatim>\<open>validate_breakdown_sum\<close> replaces the boolean. Below, the capability
  answers the fourth call with a total of 300 minutes, categories that sum to 240 and the
  flag true; the assignment that \<open>generate\<close> returns carries the flag false.
\<close>

theorem time_breakdown_flag_counterexample:
  "client (ex_world [80, 60, 70] [30] 300 True) 3 TIME_BREAKDOWN_SCHEMA =
     Inr (TimeJson (ex_time_kwargs 300 True))
   \<and> breakdown_valid_kw (ex_time_kwargs 300 True) = Given True
   \<and> generate (ex_world [80, 60, 70] [30] 300 True) (ex_input 4 ''senior'') [] =
       (Inr ex_assignment, [CONTEXT_SCHEMA, SCOPE_SCHEMA, RUBRIC_SCHEMA, TIME_BREAKDOWN_SCHEMA])
   \<and> time_breakdown ex_assignment = ex_time_breakdown 300 False
   \<and> breakdown_valid (time_breakdown ex_assignment) = False"
  by (simp add: ex_generate_full ex_world_client)
     (simp add: ex_time_kwargs_def ex_time_breakdown_def ex_assignment_def)

text \<open>
  Claim C1, amended. Every time breakdown produced by the time-breakdown phase takes its six
  minute values from the response of the capability, which also supplied some boolean, and
  its \<open>breakdown_valid\<close> is recomputed by model validation: it is true exactly when the
  total differs from the sum of the five category minutes by less than 5, whatever the
  supplied boolean. The same holds for the time breakdown of every assignment that
  \<open>generate\<close> returns.
\<close>

theorem time_breakdown_flag_recomputed:
  "(generate_time_breakdown w scope input_data made = (Inr tb, made') \<longrightarrow>
      (\<exists>kw b. client w (length made) TIME_BREAKDOWN_SCHEMA = Inr (TimeJson kw)
         \<and> breakdown_valid_kw kw = Given b
         \<and> total_minutes_kw kw = Given (total_minutes tb)
         \<and> setup_minutes_kw kw = Given (setup_minutes tb)
         \<and> core_implementation_minutes_kw kw = Given (core_implementation_minutes tb)
         \<and> testing_minutes_kw kw = Given (testing_minutes tb)
         \<and> documentation_minutes_kw kw = Given (documentation_minutes tb)
         \<and> buffer_minutes_kw kw = Given (buffer_minutes tb)
         \<and> breakdown_valid tb =
             (\<bar>total_minutes tb - (setup_minutes tb + core_implementation_minutes tb
                + testing_minutes tb + documentation_minutes tb + buffer_minutes tb)\<bar> < 5)))
   \<and> (generate w input_data made = (Inr a, made') \<longrightarrow>
        breakdown_valid (time_breakdown a) =
          (\<bar>total_minutes (time_breakdown a)
             - (setup_minutes (time_breakdown a) + core_implementation_minutes (time_breakdown a)
                + testing_minutes (time_breakdown a) + documentation_minutes (time_breakdown a)
                + buffer_minutes (time_breakdown a))\<bar> < 5))"
proof (intro conjI impI)
  assume "generate_time_breakdown w scope input_data made = (Inr tb, made')"
  then obtain kw where kw: "client w (length made) TIME_BREAKDOWN_SCHEMA = Inr (TimeJson kw)"
      "TimeBreakdown_init kw = Some tb"
    unfolding generate_time_breakdown_Inr by blast
  show "\<exists>kw b. client w (length made) TIME_BREAKDOWN_SCHEMA = Inr (TimeJson kw)
         \<and> breakdown_valid_kw kw = Given b
         \<and> total_minutes_kw kw = Given (total_minutes tb)
         \<and> setup_minutes_kw kw = Given (setup_minutes tb)
         \<and> core_implementation_minutes_kw kw = Given (core_implementation_minutes tb)
         \<and> testing_minutes_kw kw = Given (testing_minutes tb)
         \<and> documentation_minutes_kw kw = Given (documentation_minutes tb)
         \<and> buffer_minutes_kw kw = Given (buffer_minutes tb)
         \<and> breakdown_valid tb =
             (\<bar>total_minutes tb - (setup_minutes tb + core_implementation_minutes tb
                + testing_minutes tb + documentation_minutes tb + buffer_minutes tb)\<bar> < 5)"
    using kw(1) kw(2) [unfolded TimeBreakdown_init_eq_Some] by blast
next
  assume "generate w input_data made = (Inr a, made')"
  from generate_Inr [OF this] obtain ctx scope validation rubric made3 tb where
    g: "generate_time_breakdown w scope input_data made3 = (Inr tb, made')"
       "assemble_assignment w ctx scope rubric tb validation input_data = Inr a"
    by blast
  from g(1) obtain kw where kw: "TimeBreakdown_init kw = Some tb"
    unfolding generate_time_breakdown_Inr by blast
  have "time_breakdown a = tb"
    using assemble_assignment_Inr [OF g(2)] by simp
  then show "breakdown_valid (time_breakdown a) =
          (\<bar>total_minutes (time_breakdown a)
             - (setup_minutes (time_breakdown a) + core_implementation_minutes (time_breakdown a)
                + testing_minutes (time_breakdown a) + documentation_minutes (time_breakdown a)
                + buffer_minutes (time_breakdown a))\<bar> < 5)"
    using kw [unfolded TimeBreakdown_init_eq_Some] by blast
qed

theorem time_breakdown_flag_recomputed_witness:
  "generate_time_breakdown (ex_world [80, 60, 70] [30] 240 False) (ex_scope [80, 60, 70] [30])
     (ex_input 4 ''senior'') [] = (Inr (ex_time_breakdown 240 True), [TIME_BREAKDOWN_SCHEMA])
   \<and> client (ex_world [80, 60, 70] [30] 240 False) 0 TIME_BREAKDOWN_SCHEMA =
       Inr (TimeJson (ex_time_kwargs 240 False))
   \<and> breakdown_valid_kw (ex_time_kwargs 240 False) = Given False
   \<and> breakdown_valid (ex_time_breakdown 240 True)
   \<and> \<bar>total_minutes (ex_time_breakdown 240 True)
        - (setup_minutes (ex_time_breakdown 240 True)
           + core_implementation_minutes (ex_time_breakdown 240 True)
           + testing_minutes (ex_time_breakdown 240 True)
           + documentation_minutes (ex_time_breakdown 240 True)
           + buffer_minutes (ex_time_breakdown 240 True))\<bar> < 5
   \<and> generate (ex_world [80, 60, 70] [30] 300 True) (ex_input 4 ''senior'') [] =
       (Inr ex_assignment, [CONTEXT_SCHEMA, SCOPE_SCHEMA, RUBRIC_SCHEMA, TIME_BREAKDOWN_SCHEMA])
   \<and> \<not> breakdown_valid (time_breakdown ex_assignment)
   \<and> \<not> \<bar>total_minutes (time_breakdown ex_assignment)
          - (setup_minutes (time_breakdown ex_assignment)
             + core_implementation_minutes (time_breakdown ex_assignment)
             + testing_minutes (time_breakdown ex_assignment)
             + documentation_minutes (time_breakdown ex_assignment)
             + buffer_minutes (time_breakdown ex_assignment))\<bar> < 5"
proof -
  have g: "generate_time_breakdown (ex_world [80, 60, 70] [30] 240 False)
     (ex_scope [80, 60, 70] [30]) (ex_input 4 ''senior'') [] =
       (Inr (ex_time_breakdown 240 True), [TIME_BREAKDOWN_SCHEMA])"
    using ex_generate_time_breakdown [of 240 "[80, 60, 70]" "[30]" False
        "ex_scope [80, 60, 70] [30]" "ex_input 4 ''senior''" "[]"]
    by simp
  have p: "breakdown_valid (ex_time_breakdown 240 True) =
          (\<bar>total_minutes (ex_time_breakdown 240 True)
        - (setup_minutes (ex_time_breakdown 240 True)
           + core_implementation_minutes (ex_time_breakdown 240 True)
           + testing_minutes (ex_time_breakdown 240 True)
           + documentation_minutes (ex_time_breakdown 240 True)
           + buffer_minutes (ex_time_breakdown 240 True))\<bar> < 5)"
    using g time_breakdown_flag_recomputed [of "ex_world [80, 60, 70] [30] 240 False"
        "ex_scope [80, 60, 70] [30]" "ex_input 4 ''senior''" "[]" "ex_time_breakdown 240 True"
        "[TIME_BREAKDOWN_SCHEMA]"]
    by blast
  have q: "breakdown_valid (time_breakdown ex_assignment) =
          (\<bar>total_minutes (time_breakdown ex_assignment)
          - (setup_minutes (time_breakdown ex_assignment)
             + core_implementation_minutes (time_breakdown ex_assignment)
             + testing_minutes (time_breakdown ex_assignment)
             + documentation_minutes (time_breakdown ex_assignment)
             + buffer_minutes (time_breakdown ex_assignment))\<bar> < 5)"
    using ex_generate_full
      time_breakdown_flag_recomputed [of "ex_world [80, 60, 70] [30] 300 True" _
        "ex_input 4 ''senior''" "[]" _
        "[CONTEXT_SCHEMA, SCOPE_SCHEMA, RUBRIC_SCHEMA, TIME_BREAKDOWN_SCHEMA]" ex_assignment]
    by blast
  have v: "breakdown_valid (ex_time_breakdown 240 True)"
      "\<not> breakdown_valid (time_breakdown ex_assignment)"
    by (simp_all add: ex_time_breakdown_def ex_assignment_def)
  show ?thesis
    using g p q v ex_generate_full
    by (simp add: ex_world_client) (simp add: ex_time_kwargs_def)
qed

section \<open>Abort on a failed scope validation\<close>

text \<open>
  Claim C8. When context extraction and scope definition succeed and the validation of the
  scope has not passed, \<open>generate\<close> raises ScopeValidationError with the issues of the
  validation, which are not empty, and returns no assignment. The calls made to the
  capability are then exactly one for the context and one for the scope: the rubric and the
  time breakdown are never asked for, and no phase is run a second time. Conversely every
  assignment that \<open>generate\<close> returns comes from one call for each of the four schemas and
  from a validation that passed with no issue.
\<close>

theorem generate_aborts_on_failed_scope_validation:
  "(extract_context w input_data made = (Inr context, made1)
      \<and> define_scope w context input_data made1 = (Inr scope, made2)
      \<and> validate_scope_phase scope input_data = Inr validation \<and> \<not> passed_sv validation
    \<longrightarrow> generate w input_data made =
          (Inl (ScopeValidationError (ScopeValidationFailed (issues_sv validation))),
           made @ [CONTEXT_SCHEMA, SCOPE_SCHEMA])
        \<and> issues_sv validation \<noteq> []
        \<and> (\<forall>a. fst (generate w input_data made) \<noteq> Inr a))
   \<and> (generate w input_data made = (Inr a, made')
    \<longrightarrow> made' = made @ [CONTEXT_SCHEMA, SCOPE_SCHEMA, RUBRIC_SCHEMA, TIME_BREAKDOWN_SCHEMA]
        \<and> (\<exists>context scope validation.
              extract_context w input_data made = (Inr context, made @ [CONTEXT_SCHEMA])
            \<and> define_scope w context input_data (made @ [CONTEXT_SCHEMA]) =
                (Inr scope, made @ [CONTEXT_SCHEMA, SCOPE_SCHEMA])
            \<and> validate_scope_phase scope input_data = Inr validation
            \<and> passed_sv validation \<and> issues_sv validation = []
            \<and> scope_warnings a = warnings_sv validation))"
proof (rule conjI; rule impI)
  assume h: "extract_context w input_data made = (Inr context, made1)
      \<and> define_scope w context input_data made1 = (Inr scope, made2)
      \<and> validate_scope_phase scope input_data = Inr validation \<and> \<not> passed_sv validation"
  have m1: "made1 = made @ [CONTEXT_SCHEMA]"
    using h extract_context_calls by blast
  have m2: "made2 = made1 @ [SCOPE_SCHEMA]"
    using h define_scope_calls by blast
  have g: "generate w input_data made =
          (Inl (ScopeValidationError (ScopeValidationFailed (issues_sv validation))),
           made @ [CONTEXT_SCHEMA, SCOPE_SCHEMA])"
    using h generate_scope_validation_failed [of w input_data made "context" made1 scope made2
        validation]
    by (simp add: m1 m2)
  obtain r where r: "validate_scope scope (Fin (time_budget_hours input_data)) = Inr r"
      "passed_sv validation = passed r" "issues_sv validation = issues r"
    using h validate_scope_phase_Inr by blast
  have i: "issues_sv validation \<noteq> []"
    using h r validate_scope_passed [OF r(1)] by simp
  show "generate w input_data made =
          (Inl (ScopeValidationError (ScopeValidationFailed (issues_sv validation))),
           made @ [CONTEXT_SCHEMA, SCOPE_SCHEMA])
        \<and> issues_sv validation \<noteq> []
        \<and> (\<forall>a. fst (generate w input_data made) \<noteq> Inr a)"
    using g i by simp
next
  assume "generate w input_data made = (Inr a, made')"
  from generate_Inr [OF this] obtain ctx made1 scope made2 validation rubric made3 tb where
    g: "extract_context w input_data made = (Inr ctx, made1)"
       "define_scope w ctx input_data made1 = (Inr scope, made2)"
       "validate_scope_phase scope input_data = Inr validation" "passed_sv validation"
       "generate_rubric w scope input_data made2 = (Inr rubric, made3)"
       "generate_time_breakdown w scope input_data made3 = (Inr tb, made')"
       "assemble_assignment w ctx scope rubric tb validation input_data = Inr a"
    by blast
  have m: "made1 = made @ [CONTEXT_SCHEMA]" "made2 = made1 @ [SCOPE_SCHEMA]"
      "made3 = made2 @ [RUBRIC_SCHEMA]" "made' = made3 @ [TIME_BREAKDOWN_SCHEMA]"
    using extract_context_calls [OF g(1)] define_scope_calls [OF g(2)]
      generate_rubric_calls [OF g(5)] generate_time_breakdown_calls [OF g(6)] by simp_all
  obtain r where r: "validate_scope scope (Fin (time_budget_hours input_data)) = Inr r"
      "passed_sv validation = passed r" "issues_sv validation = issues r"
    using g(3) validate_scope_phase_Inr by blast
  have i: "issues_sv validation = []"
    using g(4) r validate_scope_passed [OF r(1)] by simp
  have s: "scope_warnings a = warnings_sv validation"
    using assemble_assignment_Inr [OF g(7)] by simp
  show "made' = made @ [CONTEXT_SCHEMA, SCOPE_SCHEMA, RUBRIC_SCHEMA, TIME_BREAKDOWN_SCHEMA]
        \<and> (\<exists>context scope validation.
              extract_context w input_data made = (Inr context, made @ [CONTEXT_SCHEMA])
            \<and> define_scope w context input_data (made @ [CONTEXT_SCHEMA]) =
                (Inr scope, made @ [CONTEXT_SCHEMA, SCOPE_SCHEMA])
            \<and> validate_scope_phase scope input_data = Inr validation
            \<and> passed_sv validation \<and> issues_sv validation = []
            \<and> scope_warnings a = warnings_sv validation)"
    using g(1-4) i s by (auto simp: m)
qed

theorem generate_aborts_on_failed_scope_validation_witness:
  "extract_context (ex_world [60] [] 240 True) (ex_input 4 ''senior'') [] =
     (Inr ex_context, [CONTEXT_SCHEMA])
   \<and> define_scope (ex_world [60] [] 240 True) ex_context (ex_input 4 ''senior'') [CONTEXT_SCHEMA] =
       (Inr (ex_scope [60] []), [CONTEXT_SCHEMA, SCOPE_SCHEMA])
   \<and> validate_scope_phase (ex_scope [60] []) (ex_input 4 ''senior'') =
       Inr \<lparr>passed_sv = False, issues_sv = [TimeMismatch 60 (Fin 240) (Fin (1 / 4)), TooFewMustHave 1],
            warnings_sv = [FewConstraints 1, SeniorityMismatch ''senior'', NoNiceToHave]\<rparr>
   \<and> generate (ex_world [60] [] 240 True) (ex_input 4 ''senior'') [] =
       (Inl (ScopeValidationError
              (ScopeValidationFailed [TimeMismatch 60 (Fin 240) (Fin (1 / 4)), TooFewMustHave 1])),
        [CONTEXT_SCHEMA, SCOPE_SCHEMA])"
proof -
  have a: "extract_context (ex_world [60] [] 240 True) (ex_input 4 ''senior'') [] =
     (Inr ex_context, [CONTEXT_SCHEMA])"
    by (simp add: ex_extract_context)
  have b: "define_scope (ex_world [60] [] 240 True) ex_context (ex_input 4 ''senior'')
      [CONTEXT_SCHEMA] = (Inr (ex_scope [60] []), [CONTEXT_SCHEMA, SCOPE_SCHEMA])"
    by (simp add: ex_define_scope)
  note c = ex_validate_scope_phase_fail
  have d: "\<not> passed_sv \<lparr>passed_sv = False,
            issues_sv = [TimeMismatch 60 (Fin 240) (Fin (1 / 4)), TooFewMustHave 1],
            warnings_sv = [FewConstraints 1, SeniorityMismatch ''senior'', NoNiceToHave]\<rparr>"
    by simp
  have "generate (ex_world [60] [] 240 True) (ex_input 4 ''senior'') [] =
       (Inl (ScopeValidationError (ScopeValidationFailed (issues_sv \<lparr>passed_sv = False,
            issues_sv = [TimeMismatch 60 (Fin 240) (Fin (1 / 4)), TooFewMustHave 1],
            warnings_sv = [FewConstraints 1, SeniorityMismatch ''senior'', NoNiceToHave]\<rparr>))),
        [] @ [CONTEXT_SCHEMA, SCOPE_SCHEMA])"
    using a b c d generate_aborts_on_failed_scope_validation
      [of "ex_world [60] [] 240 True" "ex_input 4 ''senior''" "[]" ex_context "[CONTEXT_SCHEMA]"
        "ex_scope [60] []" "[CONTEXT_SCHEMA, SCOPE_SCHEMA]"
        "\<lparr>passed_sv = False, issues_sv = [TimeMismatch 60 (Fin 240) (Fin (1 / 4)), TooFewMustHave 1],
            warnings_sv = [FewConstraints 1, SeniorityMismatch ''senior'', NoNiceToHave]\<rparr>"]
    by blast
  then show ?thesis
    using a b c by simp
qed

section \<open>Error kinds of the phases\<close>

text \<open>
  Claim C9 says that scope definition raises the generic GenerationError, that context
  extraction and rubric generation raise their own subclasses, and that scope definition is
  the one phase without a dedicated error kind. \<^verbatim>\<open>_generate_time_breakdown\<close> (phase 4b)
  has no dedicated kind either: its failures are raised as GenerationError, as its docstring
  says.
\<close>

theorem time_breakdown_generic_error_counterexample:
  "generate_time_breakdown ex_failing_world (ex_scope [80, 60, 70] [30]) (ex_input 4 ''senior'') []
     = (Inl (GenerationError (FailedToGenerateTimeBreakdown (ClientFailure GeminiAPIError))),
        [TIME_BREAKDOWN_SCHEMA])"
  by (simp add: generate_time_breakdown_def generate_json_def ex_failing_world_def)

text \<open>
  Claim C9, amended. Every failure of the scope-definition phase, a failure of the capability
  or of the conversion of its response, is raised as the generic GenerationError; every
  failure of context extraction is raised as ContextExtractionError and every failure of
  rubric generation as RubricGenerationError. Scope definition is not the only phase without
  a dedicated error kind: every failure of the time-breakdown phase is raised as the generic
  GenerationError too.
\<close>

theorem phase_error_kinds:
  "(define_scope w context input_data made = (Inl e, made') \<longrightarrow>
      (\<exists>c. e = GenerationError (FailedToDefineScope c)))
   \<and> (client w (length made) SCOPE_SCHEMA = Inl ce \<longrightarrow>
        define_scope w context input_data made =
          (Inl (GenerationError (FailedToDefineScope (ClientFailure ce))), made @ [SCOPE_SCHEMA]))
   \<and> (client w (length made) SCOPE_SCHEMA = Inr response \<and> scope_of_response response = None \<longrightarrow>
        define_scope w context input_data made =
          (Inl (GenerationError (FailedToDefineScope ConversionFailure)), made @ [SCOPE_SCHEMA]))
   \<and> (extract_context w input_data made = (Inl e, made') \<longrightarrow>
        (\<exists>t. e = ContextExtractionError t))
   \<and> (generate_rubric w scope input_data made = (Inl e, made') \<longrightarrow>
        (\<exists>t. e = RubricGenerationError t))
   \<and> (generate_time_breakdown w scope input_data made = (Inl e, made') \<longrightarrow>
        (\<exists>c. e = GenerationError (FailedToGenerateTimeBreakdown c)))"
  using define_scope_Inl [of w "context" input_data made e made']
    define_scope_client_failure [of w made ce "context" input_data]
    define_scope_conversion_failure [of w made response "context" input_data]
    extract_context_Inl [of w input_data made e made']
    generate_rubric_Inl [of w scope input_data made e made']
    generate_time_breakdown_Inl [of w scope input_data made e made']
  by blast

theorem phase_error_kinds_witness:
  "client ex_failing_world (length ([] :: calls)) SCOPE_SCHEMA = Inl GeminiAPIError
   \<and> define_scope ex_failing_world ex_context (ex_input 4 ''senior'') [] =
       (Inl (GenerationError (FailedToDefineScope (ClientFailure GeminiAPIError))), [SCOPE_SCHEMA])
   \<and> client ex_malformed_world (length ([] :: calls)) SCOPE_SCHEMA = Inr OtherJson
   \<and> scope_of_response OtherJson = None
   \<and> define_scope ex_malformed_world ex_context (ex_input 4 ''senior'') [] =
       (Inl (GenerationError (FailedToDefineScope ConversionFailure)), [SCOPE_SCHEMA])
   \<and> extract_context ex_failing_world (ex_input 4 ''senior'') [] =
       (Inl (ContextExtractionError (FailedToExtractContext (ClientFailure GeminiAPIError))),
        [CONTEXT_SCHEMA])
   \<and> generate_rubric ex_failing_world (ex_scope [80, 60, 70] [30]) (ex_input 4 ''senior'') [] =
       (Inl (RubricGenerationError (FailedToGenerateRubric (ClientFailure GeminiAPIError))),
        [RUBRIC_SCHEMA])"
proof -
  have c: "client ex_failing_world (length ([] :: calls)) SCOPE_SCHEMA = Inl GeminiAPIError"
    by (simp add: ex_failing_world_def)
  have d: "client ex_malformed_world (length ([] :: calls)) SCOPE_SCHEMA = Inr OtherJson"
      "scope_of_response OtherJson = None"
    by (simp_all add: ex_malformed_world_def scope_of_response_def)
  have f: "define_scope ex_failing_world ex_context (ex_input 4 ''senior'') [] =
       (Inl (GenerationError (FailedToDefineScope (ClientFailure GeminiAPIError))),
        [] @ [SCOPE_SCHEMA])"
    using c phase_error_kinds [of ex_failing_world ex_context "ex_input 4 ''senior''" "[]" _ _
        GeminiAPIError]
    by blast
  have m: "define_scope ex_malformed_world ex_context (ex_input 4 ''senior'') [] =
       (Inl (GenerationError (FailedToDefineScope ConversionFailure)), [] @ [SCOPE_SCHEMA])"
    using d phase_error_kinds [of ex_malformed_world ex_context "ex_input 4 ''senior''" "[]" _ _
        _ OtherJson]
    by blast
  show ?thesis
    using c d f m
    by (simp add: extract_context_def generate_rubric_def generate_json_def ex_failing_world_def)
qed


end
